theory Spec2Isabelle
  imports Complex_Main
begin

section \<open>Strings and numbers of the JavaScript sources\<close>

text \<open>
  A JavaScript string is modelled as a \<^typ>\<open>string\<close>; a \<^typ>\<open>char\<close> is read as
  the code unit of the same value (U+0000 to U+00FF). Numbers that the generator handles
  are integers: identifiers are natural numbers, step numbers are integers.
\<close>

definition digit :: "nat \<Rightarrow> char" where
  "digit d = ''0123456789'' ! d"

text \<open>\<open>String(n)\<close> for a non-negative integer \<open>n\<close>: its decimal digits.\<close>

function decimal :: "nat \<Rightarrow> string" where
  "decimal n = (if 10 \<le> n then decimal (n div 10) @ [digit (n mod 10)] else [digit n])"
  by pat_completeness auto
termination
  by (relation "measure id") auto

declare decimal.simps [simp del]

text \<open>\<open>String(i)\<close> for an integer \<open>i\<close>.\<close>

definition String_int :: "int \<Rightarrow> string" where
  "String_int i = (if 0 \<le> i then decimal (nat i) else CHR ''-'' # decimal (nat (- i)))"

text \<open>\<open>Array.prototype.join\<close> on strings.\<close>

fun join :: "string \<Rightarrow> string list \<Rightarrow> string" where
  "join sep [] = []"
| "join sep [x] = x"
| "join sep (x # y # ys) = x @ sep @ join sep (y # ys)"

text \<open>
  \<open>String.prototype.trim\<close>: the white space of ECMAScript within the modelled code units
  is TAB, LF, VT, FF, CR, SPACE and NO-BREAK SPACE.
\<close>

definition is_space :: "char \<Rightarrow> bool" where
  "is_space c = (of_char c \<in> {9, 10, 11, 12, 13, 32, 160 :: nat})"

definition trim :: "string \<Rightarrow> string" where
  "trim s = rev (dropWhile is_space (rev (dropWhile is_space s)))"

section \<open>The XML builder (src/generator/xml-builder.ts)\<close>

text \<open>
  An attribute value is a string, a number or a boolean. The attributes are kept in the
  order in which \<open>Object.entries\<close> lists them; every key that the generator uses is a
  name (none is an array index), so this is the order of first insertion.
  A child is an element, a text leaf (\<open>isRaw: false\<close>) or a raw fragment
  (\<open>isRaw: true\<close>, a string only, since \<open>addRaw\<close> takes a string).
\<close>

datatype attr_value = AStr string | ANum int | ABool bool

datatype xml = XmlElement (xname: string) (xattributes: "(string \<times> attr_value) list")
                 (xchildren: "child list")
and child = Element xml | Text string | Raw string

definition new_element :: "string \<Rightarrow> xml" where
  "new_element name = XmlElement name [] []"

text \<open>\<open>new XmlElement(name, text)\<close>: the constructor's children are never raw.\<close>

definition new_text_element :: "string \<Rightarrow> string \<Rightarrow> xml" where
  "new_text_element name t = XmlElement name [] [Text t]"

definition add :: "child \<Rightarrow> xml \<Rightarrow> xml" where
  "add c e = XmlElement (xname e) (xattributes e) (xchildren e @ [c])"

definition addRaw :: "string \<Rightarrow> xml \<Rightarrow> xml" where
  "addRaw s e = XmlElement (xname e) (xattributes e) (xchildren e @ [Raw s])"

fun set_attribute :: "string \<Rightarrow> attr_value \<Rightarrow> (string \<times> attr_value) list
    \<Rightarrow> (string \<times> attr_value) list" where
  "set_attribute k v [] = [(k, v)]"
| "set_attribute k v ((k', v') # kvs) =
     (if k = k' then (k, v) # kvs else (k', v') # set_attribute k v kvs)"

text \<open>\<open>attr(key, value)\<close>: \<open>None\<close> stands for \<open>undefined\<close> and \<open>null\<close>.\<close>

definition attr :: "string \<Rightarrow> attr_value option \<Rightarrow> xml \<Rightarrow> xml" where
  "attr k vo e =
     (case vo of
        None \<Rightarrow> e
      | Some v \<Rightarrow> XmlElement (xname e) (set_attribute k v (xattributes e)) (xchildren e))"

text \<open>\<open>text.replace(/c/g, r)\<close> for a single character \<open>c\<close>.\<close>

definition replace_char :: "char \<Rightarrow> string \<Rightarrow> string \<Rightarrow> string" where
  "replace_char c r s = concat (map (\<lambda>x. if x = c then r else [x]) s)"

definition escapeXml :: "string \<Rightarrow> string" where
  "escapeXml t =
     replace_char (CHR 0x27) ''&apos;''
       (replace_char (CHR 0x22) ''&quot;''
         (replace_char CHR ''>'' ''&gt;''
           (replace_char CHR ''<'' ''&lt;''
             (replace_char CHR ''&'' ''&amp;'' t))))"

definition String_of :: "attr_value \<Rightarrow> string" where
  "String_of v =
     (case v of AStr s \<Rightarrow> s | ANum n \<Rightarrow> String_int n
      | ABool b \<Rightarrow> (if b then ''true'' else ''false''))"

definition render_attribute :: "string \<times> attr_value \<Rightarrow> string" where
  "render_attribute kv = fst kv @ [CHR ''='', CHR 0x22] @ escapeXml (String_of (snd kv)) @ [CHR 0x22]"

definition indent_of :: "bool \<Rightarrow> nat \<Rightarrow> string" where
  "indent_of pretty level = (if pretty then concat (replicate level ''  '') else [])"

definition isSimpleText :: "child list \<Rightarrow> bool" where
  "isSimpleText cs = (case cs of [Text t] \<Rightarrow> True | _ \<Rightarrow> False)"

fun toString :: "bool \<Rightarrow> nat \<Rightarrow> xml \<Rightarrow> string"
and child_toString :: "bool \<Rightarrow> nat \<Rightarrow> child \<Rightarrow> string" where
  "toString pretty level (XmlElement name attributes children) =
     (let indent = indent_of pretty level;
          attrs = join '' '' (map render_attribute attributes);
          openTag = indent @ ''<'' @ name @ (if attrs \<noteq> [] then '' '' @ attrs else [])
      in if children = [] then openTag @ '' />''
         else if isSimpleText children \<and> pretty
         then (case children of
                 [Text t] \<Rightarrow> openTag @ ''>'' @ escapeXml t @ ''</'' @ name @ ''>''
               | _ \<Rightarrow> [])
         else openTag @ ''>'' @ (if pretty then [CHR 0x0A] else [])
              @ join (if pretty then [CHR 0x0A] else []) (map (child_toString pretty level) children)
              @ (if pretty then [CHR 0x0A] @ indent else []) @ ''</'' @ name @ ''>'')"
| "child_toString pretty level (Raw s) = s"
| "child_toString pretty level (Text s) =
     (if pretty then indent_of pretty level @ ''  '' else []) @ escapeXml s"
| "child_toString pretty level (Element e) = toString pretty (level + 1) e"

text \<open>
  The escaping as the specification words it: each of the five characters
  \<open>& < > " '\<close> becomes its entity, every other character stays.
\<close>

definition spec_escape_char :: "char \<Rightarrow> string" where
  "spec_escape_char c =
     (if c = CHR ''&'' then ''&amp;''
      else if c = CHR ''<'' then ''&lt;''
      else if c = CHR ''>'' then ''&gt;''
      else if c = CHR 0x22 then ''&quot;''
      else if c = CHR 0x27 then ''&apos;''
      else [c])"

section \<open>Identifiers (src/generator/uid-manager.ts)\<close>

text \<open>
  A \<open>UidManager\<close> is its counter \<open>currentId\<close>; \<open>next()\<close> returns the counter and
  increments it. The functions below take the counter and return the new one.
\<close>

definition next_uid :: "nat \<Rightarrow> nat \<times> nat" where
  "next_uid currentId = (currentId, currentId + 1)"

section \<open>Multilingual texts (src/generator/components/multilingual-text.ts)\<close>

record multilingualText =
  mt_id :: nat
  compositionName :: string
  texts :: "(string \<times> string) list"

text \<open>An empty \<open>initialText\<close> adds the two empty texts, a non-empty one adds itself twice.\<close>

definition new_MultilingualText :: "nat \<Rightarrow> string \<Rightarrow> string \<Rightarrow> multilingualText \<times> nat" where
  "new_MultilingualText uid cname initialText =
     (let (i, uid') = next_uid uid
      in (\<lparr>mt_id = i, compositionName = cname,
           texts = (if initialText \<noteq> [] then [(''nl-NL'', initialText), (''en-GB'', initialText)]
                    else [(''nl-NL'', []), (''en-GB'', [])])\<rparr>, uid'))"

definition text_item :: "nat \<Rightarrow> string \<times> string \<Rightarrow> xml" where
  "text_item i lt =
     add (Element (add (Element (new_text_element ''Text'' (snd lt)))
                    (add (Element (new_text_element ''Culture'' (fst lt)))
                      (new_element ''AttributeList''))))
       (attr ''CompositionName'' (Some (AStr ''Items''))
         (attr ''ID'' (Some (ANum (int i))) (new_element ''MultilingualTextItem'')))"

text \<open>
  \<open>toXml\<close> draws one identifier per text from the manager while it serialises:
  the items and the counter after them.
\<close>

fun text_items :: "(string \<times> string) list \<Rightarrow> nat \<Rightarrow> xml list \<times> nat" where
  "text_items [] uid = ([], uid)"
| "text_items (lt # lts) uid =
     (let (i, uid') = next_uid uid;
          (items, uid'') = text_items lts uid'
      in (text_item i lt # items, uid''))"

definition MultilingualText_toXml :: "bool \<Rightarrow> nat \<Rightarrow> multilingualText \<Rightarrow> nat \<Rightarrow> string \<times> nat" where
  "MultilingualText_toXml pretty level mt uid =
     (let (items, uid') = text_items (texts mt) uid;
          objectList = fold (\<lambda>item ol. add (Element item) ol) items (new_element ''ObjectList'');
          multiText = add (Element objectList)
                        (attr ''CompositionName'' (Some (AStr (compositionName mt)))
                          (attr ''ID'' (Some (ANum (int (mt_id mt)))) (new_element ''MultilingualText'')))
      in (toString pretty level multiText, uid'))"

section \<open>Parts, accesses and wires (src/generator/components/part.ts, wire.ts)\<close>

datatype part_name = A | Sr | Coil

definition part_name_string :: "part_name \<Rightarrow> string" where
  "part_name_string n = (case n of A \<Rightarrow> ''A'' | Sr \<Rightarrow> ''Sr'' | Coil \<Rightarrow> ''Coil'')"

record part =
  p_id :: nat
  p_name :: part_name
  p_inputs :: "string list"
  p_outputs :: "string list"
  cardinality :: "nat option"
  negatedInputs :: "string list"

record access =
  a_id :: nat
  a_variable :: string
  a_index :: "int option"
  isLiteralBool :: bool
  literalValue :: bool

record wire =
  w_id :: nat
  w_from :: "nat \<times> string option"
  w_to :: "nat \<times> string"

datatype net_part = PPart part | PAccess access

text \<open>\<open>Network.partDefinitions\<close>: the ports of each kind of part.\<close>

definition partDefinitions :: "part_name \<Rightarrow> string list \<times> string list" where
  "partDefinitions n =
     (case n of
        Sr \<Rightarrow> ([''s'', ''r1'', ''operand''], [''q''])
      | Coil \<Rightarrow> ([''in'', ''operand''], [])
      | A \<Rightarrow> (map (\<lambda>i. ''in'' @ decimal (i + 1)) [0..<30], [''out'']))"

definition new_Part :: "nat \<Rightarrow> part_name \<Rightarrow> part \<times> nat" where
  "new_Part uid n =
     (let (i, uid') = next_uid uid
      in (\<lparr>p_id = i, p_name = n, p_inputs = fst (partDefinitions n),
           p_outputs = snd (partDefinitions n), cardinality = None, negatedInputs = []\<rparr>, uid'))"

text \<open>
  \<open>negatedInputs\<close> is a \<open>Set\<close>: a port is added once, in insertion order. A port that
  the part does not have is not added (the source only logs a warning).
\<close>

definition negateInput :: "string \<Rightarrow> part \<Rightarrow> part" where
  "negateInput portName p =
     (if portName \<in> set (p_inputs p)
      then (if portName \<in> set (negatedInputs p) then p
            else p\<lparr>negatedInputs := negatedInputs p @ [portName]\<rparr>)
      else p)"

definition Part_element :: "part \<Rightarrow> xml" where
  "Part_element p =
     (let partElement = attr ''UId'' (Some (ANum (int (p_id p))))
                          (attr ''Name'' (Some (AStr (part_name_string (p_name p)))) (new_element ''Part''));
          withCard = (case cardinality p of
                        None \<Rightarrow> partElement
                      | Some c \<Rightarrow>
                          if c > 0
                          then add (Element (add (Text (decimal c))
                                      (attr ''Type'' (Some (AStr ''Cardinality''))
                                        (attr ''Name'' (Some (AStr ''Card'')) (new_element ''TemplateValue'')))))
                                 partElement
                          else partElement)
      in fold (\<lambda>portName e. add (Element (attr ''Name'' (Some (AStr portName)) (new_element ''Negated''))) e)
           (negatedInputs p) withCard)"

definition Part_toXml :: "bool \<Rightarrow> nat \<Rightarrow> part \<Rightarrow> string" where
  "Part_toXml pretty level p = toString pretty level (Part_element p)"

definition new_Access :: "nat \<Rightarrow> string \<Rightarrow> int option \<Rightarrow> bool \<Rightarrow> bool \<Rightarrow> access \<times> nat" where
  "new_Access uid v idx lit val =
     (let (i, uid') = next_uid uid
      in (\<lparr>a_id = i, a_variable = v, a_index = idx, isLiteralBool = lit, literalValue = val\<rparr>, uid'))"

text \<open>\<open>String(this.index)\<close>: \<open>null\<close> prints as the word itself.\<close>

definition index_string :: "int option \<Rightarrow> string" where
  "index_string idx = (case idx of None \<Rightarrow> ''null'' | Some i \<Rightarrow> String_int i)"

definition Access_element :: "access \<Rightarrow> xml" where
  "Access_element a =
     (if isLiteralBool a
      then (let constant = add (Element (new_text_element ''ConstantValue''
                                          (if literalValue a then ''true'' else ''false'')))
                             (add (Element (new_text_element ''ConstantType'' ''Bool''))
                               (new_element ''Constant''))
            in add (Element constant)
                 (attr ''UId'' (Some (ANum (int (a_id a))))
                   (attr ''Scope'' (Some (AStr ''LiteralConstant'')) (new_element ''Access''))))
      else (let constant = add (Element (new_text_element ''ConstantValue'' (index_string (a_index a))))
                             (add (Element (new_text_element ''ConstantType'' ''DInt''))
                               (new_element ''Constant''));
                innerAccess = add (Element constant)
                                (attr ''Scope'' (Some (AStr ''LiteralConstant'')) (new_element ''Access''));
                component = add (Element innerAccess)
                              (attr ''AccessModifier'' (Some (AStr ''Array''))
                                (attr ''Name'' (Some (AStr (a_variable a))) (new_element ''Component'')));
                symbol = add (Element component) (new_element ''Symbol'')
            in add (Element symbol)
                 (attr ''UId'' (Some (ANum (int (a_id a))))
                   (attr ''Scope'' (Some (AStr ''LocalVariable'')) (new_element ''Access'')))))"

definition Access_toXml :: "bool \<Rightarrow> nat \<Rightarrow> access \<Rightarrow> string" where
  "Access_toXml pretty level a = toString pretty level (Access_element a)"

definition new_Wire :: "nat \<Rightarrow> nat \<times> string option \<Rightarrow> nat \<times> string \<Rightarrow> wire \<times> nat" where
  "new_Wire uid from to =
     (let (i, uid') = next_uid uid in (\<lparr>w_id = i, w_from = from, w_to = to\<rparr>, uid'))"

text \<open>\<open>if (this.from.port)\<close>: a missing and an empty port name both give an \<open>IdentCon\<close>.\<close>

definition Wire_element :: "wire \<Rightarrow> xml" where
  "Wire_element w =
     (let wire0 = attr ''UId'' (Some (ANum (int (w_id w)))) (new_element ''Wire'');
          fromCon = (case snd (w_from w) of
                       None \<Rightarrow> attr ''UId'' (Some (ANum (int (fst (w_from w))))) (new_element ''IdentCon'')
                     | Some port \<Rightarrow>
                         if port \<noteq> []
                         then attr ''Name'' (Some (AStr port))
                                (attr ''UId'' (Some (ANum (int (fst (w_from w))))) (new_element ''NameCon''))
                         else attr ''UId'' (Some (ANum (int (fst (w_from w))))) (new_element ''IdentCon''))
      in add (Element (attr ''Name'' (Some (AStr (snd (w_to w))))
                        (attr ''UId'' (Some (ANum (int (fst (w_to w))))) (new_element ''NameCon''))))
           (add (Element fromCon) wire0))"

definition Wire_toXml :: "bool \<Rightarrow> nat \<Rightarrow> wire \<Rightarrow> string" where
  "Wire_toXml pretty level w = toString pretty level (Wire_element w)"

section \<open>Networks (src/generator/components/network.ts)\<close>

text \<open>
  A network has its identifier, drawn from the parent's manager, and a manager of its own
  (\<open>n_uid\<close>, starting at \<open>baseUid\<close>) for everything inside it.
\<close>

record network =
  n_id :: nat
  n_uid :: nat
  n_parts :: "net_part list"
  n_wires :: "wire list"
  n_title :: multilingualText
  n_comment :: multilingualText

definition new_Network :: "nat \<Rightarrow> string \<Rightarrow> nat \<Rightarrow> network \<times> nat" where
  "new_Network parentUid title baseUid =
     (let (i, parentUid') = next_uid parentUid;
          (t, u1) = new_MultilingualText baseUid ''Title'' title;
          (c, u2) = new_MultilingualText u1 ''Comment'' []
      in (\<lparr>n_id = i, n_uid = u2, n_parts = [], n_wires = [], n_title = t, n_comment = c\<rparr>, parentUid'))"

definition addPart :: "part_name \<Rightarrow> network \<Rightarrow> part \<times> network" where
  "addPart n net =
     (let (p, u) = new_Part (n_uid net) n
      in (p, net\<lparr>n_uid := u, n_parts := n_parts net @ [PPart p]\<rparr>))"

definition addAccess :: "string \<Rightarrow> int \<Rightarrow> network \<Rightarrow> access \<times> network" where
  "addAccess v idx net =
     (let (a, u) = new_Access (n_uid net) v (Some idx) False False
      in (a, net\<lparr>n_uid := u, n_parts := n_parts net @ [PAccess a]\<rparr>))"

definition addLiteralBool :: "bool \<Rightarrow> network \<Rightarrow> access \<times> network" where
  "addLiteralBool val net =
     (let (a, u) = new_Access (n_uid net) [] None True val
      in (a, net\<lparr>n_uid := u, n_parts := n_parts net @ [PAccess a]\<rparr>))"

text \<open>
  \<open>connect\<close> receives the two objects; the model receives their identifiers. The target
  is a \<open>Part\<close> of this network, found again by its identifier when its input is negated.
\<close>

definition negate_in_parts :: "nat \<Rightarrow> string \<Rightarrow> net_part list \<Rightarrow> net_part list" where
  "negate_in_parts toId toPort ps =
     map (\<lambda>x. case x of
                PPart p \<Rightarrow> if p_id p = toId then PPart (negateInput toPort p) else x
              | PAccess a \<Rightarrow> x) ps"

definition connect :: "nat \<Rightarrow> string option \<Rightarrow> nat \<Rightarrow> string \<Rightarrow> bool \<Rightarrow> network \<Rightarrow> network" where
  "connect fromId fromPort toId toPort negated net =
     (let (w, u) = new_Wire (n_uid net) (fromId, fromPort) (toId, toPort);
          net' = net\<lparr>n_uid := u, n_wires := n_wires net @ [w]\<rparr>
      in if negated then net'\<lparr>n_parts := negate_in_parts toId toPort (n_parts net')\<rparr> else net')"

text \<open>The first pass of \<open>toXml\<close>: the number of wires that end at each part.\<close>

definition count_wire :: "wire \<Rightarrow> (nat \<rightharpoonup> nat) \<Rightarrow> (nat \<rightharpoonup> nat)" where
  "count_wire w m = m(fst (w_to w) \<mapsto> (case m (fst (w_to w)) of None \<Rightarrow> 0 | Some c \<Rightarrow> c) + 1)"

definition partInputCounts :: "wire list \<Rightarrow> (nat \<rightharpoonup> nat)" where
  "partInputCounts ws = fold count_wire ws Map.empty"

definition assign_cardinality :: "(nat \<rightharpoonup> nat) \<Rightarrow> net_part \<Rightarrow> net_part" where
  "assign_cardinality counts x =
     (case x of
        PPart p \<Rightarrow>
          if p_name p = A
          then PPart (p\<lparr>cardinality := Some (case counts (p_id p) of None \<Rightarrow> 0 | Some c \<Rightarrow> c)\<rparr>)
          else x
      | PAccess a \<Rightarrow> x)"

definition resolve_cardinalities :: "network \<Rightarrow> net_part list" where
  "resolve_cardinalities net = map (assign_cardinality (partInputCounts (n_wires net))) (n_parts net)"

definition net_part_toXml :: "bool \<Rightarrow> nat \<Rightarrow> net_part \<Rightarrow> string" where
  "net_part_toXml pretty level x =
     (case x of PPart p \<Rightarrow> Part_toXml pretty level p | PAccess a \<Rightarrow> Access_toXml pretty level a)"

text \<open>
  \<open>Network.toXml\<close> stores the cardinalities in the parts and draws identifiers for the
  text items of the comment and of the title: it returns the text and the network after it.
\<close>

definition Network_toXml :: "bool \<Rightarrow> nat \<Rightarrow> network \<Rightarrow> string \<times> network" where
  "Network_toXml pretty level net =
     (let ps = resolve_cardinalities net;
          partsContainer = fold (\<lambda>p e. addRaw (net_part_toXml pretty (level + 5) p) e) ps
                             (new_element ''Parts'');
          wiresContainer = fold (\<lambda>w e. addRaw (Wire_toXml pretty (level + 5) w) e) (n_wires net)
                             (new_element ''Wires'');
          flgNet = add (Element wiresContainer)
                     (add (Element partsContainer)
                       (attr ''xmlns''
                          (Some (AStr ''http://www.siemens.com/automation/Openness/SW/NetworkSource/FlgNet/v4''))
                          (new_element ''FlgNet'')));
          networkSource = add (Element flgNet) (new_element ''NetworkSource'');
          attributeList = add (Element (new_text_element ''ProgrammingLanguage'' ''FBD''))
                            (add (Element networkSource) (new_element ''AttributeList''));
          (commentXml, u1) = MultilingualText_toXml pretty (level + 3) (n_comment net) (n_uid net);
          (titleXml, u2) = MultilingualText_toXml pretty (level + 3) (n_title net) u1;
          objectList = addRaw titleXml (addRaw commentXml (new_element ''ObjectList''))
      in (toString pretty level
            (add (Element objectList)
              (add (Element attributeList)
                (attr ''CompositionName'' (Some (AStr ''CompileUnits''))
                  (attr ''ID'' (Some (ANum (int (n_id net)))) (new_element ''SW.Blocks.CompileUnit''))))),
          net\<lparr>n_parts := ps, n_uid := u2\<rparr>))"

text \<open>The number of wires whose target endpoint is the part with identifier \<open>i\<close>.\<close>

definition wires_into :: "network \<Rightarrow> nat \<Rightarrow> nat" where
  "wires_into net i = length (filter (\<lambda>w. fst (w_to w) = i) (n_wires net))"

text \<open>The \<open>TemplateValue\<close> child that \<open>Part.toXml\<close> writes for a cardinality.\<close>

definition cardinality_element :: "nat \<Rightarrow> xml" where
  "cardinality_element c =
     XmlElement ''TemplateValue'' [(''Name'', AStr ''Card''), (''Type'', AStr ''Cardinality'')]
       [Text (decimal c)]"

definition negated_element :: "string \<Rightarrow> xml" where
  "negated_element portName = XmlElement ''Negated'' [(''Name'', AStr portName)] []"

section \<open>The interface (src/generator/components/interface.ts)\<close>

record subelement =
  se_path :: string
  se_commentText :: string

record member =
  m_name :: string
  m_datatype :: string
  m_remanence :: string
  m_subelements :: "subelement list"

record isection =
  s_name :: string
  s_members :: "member list"

text \<open>The sections in the order of \<open>Object.values(this.sections)\<close>.\<close>

definition new_Interface :: "isection list" where
  "new_Interface =
     map (\<lambda>n. \<lparr>s_name = n, s_members = []\<rparr>)
       [''Input'', ''Output'', ''InOut'', ''Static'', ''Temp'', ''Constant'']"

definition new_Member :: "string \<Rightarrow> string \<Rightarrow> string \<Rightarrow> member" where
  "new_Member n d r = \<lparr>m_name = n, m_datatype = d, m_remanence = r, m_subelements = []\<rparr>"

definition addSubelement :: "string \<Rightarrow> string \<Rightarrow> member \<Rightarrow> member" where
  "addSubelement path c m =
     m\<lparr>m_subelements := m_subelements m @ [\<lparr>se_path = path, se_commentText = c\<rparr>]\<rparr>"

text \<open>\<open>sections.X.addMember(...)\<close> for the section named \<open>X\<close>.\<close>

definition addMember :: "string \<Rightarrow> member \<Rightarrow> isection list \<Rightarrow> isection list" where
  "addMember sec m secs =
     map (\<lambda>s. if s_name s = sec then s\<lparr>s_members := s_members s @ [m]\<rparr> else s) secs"

definition Subelement_toXml :: "bool \<Rightarrow> nat \<Rightarrow> subelement \<Rightarrow> string" where
  "Subelement_toXml pretty level se =
     (let simpleTextElement = attr ''Lang'' (Some (AStr ''nl-NL''))
                                (new_text_element ''MultiLanguageText'' (se_commentText se));
          commentElement = add (Element simpleTextElement) (new_element ''Comment'')
      in toString pretty level
           (add (Element commentElement)
             (attr ''Path'' (Some (AStr (se_path se))) (new_element ''Subelement''))))"

definition Member_toXml :: "bool \<Rightarrow> nat \<Rightarrow> member \<Rightarrow> string" where
  "Member_toXml pretty level m =
     (let memberEl = attr ''Datatype'' (Some (AStr (m_datatype m)))
                       (attr ''Name'' (Some (AStr (m_name m))) (new_element ''Member''));
          memberEl' = (if m_remanence m \<noteq> []
                       then attr ''Remanence'' (Some (AStr (m_remanence m))) memberEl else memberEl)
      in toString pretty level
           (fold (\<lambda>sub e. addRaw (Subelement_toXml pretty (level + 1) sub) e) (m_subelements m) memberEl'))"

definition Section_toXml :: "bool \<Rightarrow> nat \<Rightarrow> isection \<Rightarrow> string" where
  "Section_toXml pretty level s =
     toString pretty level
       (fold (\<lambda>m e. addRaw (Member_toXml pretty (level + 1) m) e) (s_members s)
          (attr ''Name'' (Some (AStr (s_name s))) (new_element ''Section'')))"

definition Interface_toXml :: "bool \<Rightarrow> nat \<Rightarrow> isection list \<Rightarrow> string" where
  "Interface_toXml pretty level secs =
     (let sectionsEl =
            fold (\<lambda>s e. if s_members s \<noteq> []
                         then addRaw (Section_toXml pretty (level + 1) s) e
                         else add (Element (attr ''Name'' (Some (AStr (s_name s))) (new_element ''Section''))) e)
              secs
              (attr ''xmlns'' (Some (AStr ''http://www.siemens.com/automation/Openness/SW/Interface/v5''))
                 (new_element ''Sections''))
      in toString pretty level (add (Element sectionsEl) (new_element ''Interface'')))"

section \<open>The function block and the document (fb.ts, document.ts)\<close>

record functionBlock =
  fb_id :: nat
  fb_networks :: "network list"
  fb_name :: string
  fb_number :: nat
  fb_comment :: multilingualText
  fb_title :: multilingualText
  fb_interface :: "isection list"

definition is_digit :: "char \<Rightarrow> bool" where
  "is_digit c = (48 \<le> (of_char c :: nat) \<and> (of_char c :: nat) \<le> 57)"

definition nat_of_digits :: "string \<Rightarrow> nat" where
  "nat_of_digits ds = foldl (\<lambda>acc c. 10 * acc + (of_char c - 48)) 0 ds"

text \<open>
  \<open>parseInt(name.replace(/[^0-9]/g, '')) || 1\<close>: the digits of the name read as a number,
  and 1 when there is no digit or the number is 0 (the value is exact as long as it is
  below \<open>2^53\<close>, which the model assumes of block names).
\<close>

definition block_number :: "string \<Rightarrow> nat" where
  "block_number name =
     (let ds = filter is_digit name
      in if ds = [] then 1 else if nat_of_digits ds = 0 then 1 else nat_of_digits ds)"

definition new_FunctionBlock :: "nat \<Rightarrow> string \<Rightarrow> functionBlock \<times> nat" where
  "new_FunctionBlock uid name =
     (let (i, u1) = next_uid uid;
          (c, u2) = new_MultilingualText u1 ''Comment'' [];
          (t, u3) = new_MultilingualText u2 ''Title'' []
      in (\<lparr>fb_id = i, fb_networks = [], fb_name = name, fb_number = block_number name,
           fb_comment = c, fb_title = t, fb_interface = new_Interface\<rparr>, u3))"

text \<open>
  The networks are serialised in order; each keeps its own manager, so only the text of
  each is collected here.
\<close>

definition networks_toXml :: "bool \<Rightarrow> nat \<Rightarrow> network list \<Rightarrow> string list" where
  "networks_toXml pretty level nets = map (\<lambda>n. fst (Network_toXml pretty level n)) nets"

definition FunctionBlock_toXml :: "bool \<Rightarrow> nat \<Rightarrow> functionBlock \<Rightarrow> nat \<Rightarrow> string \<times> nat" where
  "FunctionBlock_toXml pretty level fb uid =
     (let attrList =
            add (Element (new_text_element ''SetENOAutomatically'' ''true''))
            (add (Element (new_text_element ''RetainMemoryReserve'' ''4000''))
            (add (Element (new_text_element ''ProgrammingLanguage'' ''FBD''))
            (add (Element (new_text_element ''Number'' (decimal (fb_number fb))))
            (add (Element (new_element ''Namespace''))
            (add (Element (new_text_element ''Name'' (fb_name fb)))
            (add (Element (new_text_element ''MemoryReserve'' ''4000''))
            (add (Element (new_text_element ''MemoryLayout'' ''Optimized''))
            (add (Element (new_text_element ''IsRetainMemResEnabled'' ''true''))
            (addRaw (Interface_toXml pretty (level + 2) (fb_interface fb))
            (add (Element (new_text_element ''AutoNumber'' ''false''))
              (new_element ''AttributeList'')))))))))));
          (commentXml, u1) = MultilingualText_toXml pretty (level + 3) (fb_comment fb) uid;
          objectList0 = addRaw commentXml (new_element ''ObjectList'');
          objectList1 = fold (\<lambda>x e. addRaw x e) (networks_toXml pretty (level + 3) (fb_networks fb))
                          objectList0;
          (titleXml, u2) = MultilingualText_toXml pretty (level + 3) (fb_title fb) u1;
          objectList = addRaw titleXml objectList1
      in (toString pretty level
            (add (Element objectList)
              (add (Element attrList)
                (attr ''ID'' (Some (ANum (int (fb_id fb)))) (new_element ''SW.Blocks.FB'')))),
          u2))"

record document =
  doc_uid :: nat
  doc_fb :: "functionBlock option"

definition new_Document :: document where
  "new_Document = \<lparr>doc_uid = 0, doc_fb = None\<rparr>"

definition xml_declaration :: string where
  "xml_declaration = ''<?xml version='' @ [CHR 0x22] @ ''1.0'' @ [CHR 0x22] @ '' encoding=''
     @ [CHR 0x22] @ ''utf-8'' @ [CHR 0x22] @ ''?>'' @ [CHR 0x0A]"

definition Document_toXml :: "bool \<Rightarrow> nat \<Rightarrow> document \<Rightarrow> string" where
  "Document_toXml pretty level d =
     (let doc0 = add (Element (attr ''version'' (Some (AStr ''V18'')) (new_element ''Engineering'')))
                   (new_element ''Document'');
          doc1 = (case doc_fb d of
                    None \<Rightarrow> doc0
                  | Some fb \<Rightarrow> addRaw (fst (FunctionBlock_toXml pretty (level + 1) fb (doc_uid d))) doc0)
      in xml_declaration @ toString pretty level doc1)"

section \<open>The generator (src/generator/index.ts)\<close>

datatype step_type = STAP | RUST

record step =
  st_number :: int
  st_type :: step_type
  st_description :: "string option"

text \<open>
  \<open>functionBlock\<close> and \<open>steps\<close> may be missing; a missing \<open>ParseResult\<close> is
  \<open>None\<close> at the call.
\<close>

record parseResult =
  functionBlock :: "string option"
  steps :: "step list option"

text \<open>\<open>x || d\<close> for an optional string: a missing and an empty string give the default.\<close>

definition or_default :: "string option \<Rightarrow> string \<Rightarrow> string" where
  "or_default x d = (case x of None \<Rightarrow> d | Some s \<Rightarrow> if s = [] then d else s)"

definition commentText :: "step \<Rightarrow> string" where
  "commentText s =
     trim ((if st_type s = RUST then ''RUST'' else ''STAP '' @ String_int (st_number s))
           @ '': '' @ or_default (st_description s) [])"

definition build_interface :: "step list \<Rightarrow> isection list" where
  "build_interface ss =
     (let stapMember = fold (\<lambda>s m. addSubelement (String_int (st_number s)) (commentText s) m) ss
                         (new_Member ''Stap'' ''Array[0..31] of Bool'' ''Retain'')
      in addMember ''Output'' (new_Member ''Uit_Stap_Tekst'' ''Int'' [])
           (addMember ''Static'' (new_Member ''Teller'' ''Array[1..10] of Int'' ''Retain'')
           (addMember ''Static'' (new_Member ''Tijd'' ''Array[1..10] of IEC_TIMER'' ''Retain'')
           (addMember ''Static'' (new_Member ''Hulp'' ''Array[1..32] of Bool'' ''Retain'')
           (addMember ''Static'' (new_Member ''Stap_C'' ''Array[0..31] of Bool'' ''Retain'')
           (addMember ''Static'' (new_Member ''Stap_B'' ''Array[0..31] of Bool'' ''Retain'')
           (addMember ''Static'' (new_Member ''Stap_A'' ''Array[0..31] of Bool'' ''Retain'')
           (addMember ''Static'' stapMember new_Interface))))))))"

text \<open>\<open>stepsToReset.map(step => rustNetwork.addAccess('Stap', step.number))\<close>.\<close>

fun addAccesses :: "step list \<Rightarrow> network \<Rightarrow> access list \<times> network" where
  "addAccesses [] net = ([], net)"
| "addAccesses (s # ss) net =
     (let (a, net') = addAccess ''Stap'' (st_number s) net;
          (as, net'') = addAccesses ss net'
      in (a # as, net''))"

text \<open>
  \<open>stepAccesses.forEach((access, idx) => connect(access, undefined, aGateRust,
  `in${idx + 1}`, { negated: true }))\<close>, from index \<open>idx\<close> on.
\<close>

fun connectNegated :: "access list \<Rightarrow> nat \<Rightarrow> nat \<Rightarrow> network \<Rightarrow> network" where
  "connectNegated [] idx gate net = net"
| "connectNegated (a # as) idx gate net =
     connectNegated as (idx + 1) gate
       (connect (a_id a) None gate (''in'' @ decimal (idx + 1)) True net)"

definition is_stap :: "step \<Rightarrow> bool" where
  "is_stap s = (st_type s = STAP)"

definition is_rust :: "step \<Rightarrow> bool" where
  "is_rust s = (st_type s = RUST)"

text \<open>The body of \<open>if (rustStep) { ... }\<close> after \<open>fb.addNetwork\<close>.\<close>

definition build_rust_network :: "step list \<Rightarrow> network \<Rightarrow> network" where
  "build_rust_network ss rustNetwork =
     (let stepsToReset = filter is_stap ss;
          (stepAccesses, n1) = addAccesses stepsToReset rustNetwork;
          (aGateRust, n2) = addPart A n1;
          n3 = connectNegated stepAccesses 0 (p_id aGateRust) n2;
          (srRust, n4) = addPart Sr n3;
          n5 = (case find is_stap ss of
                  Some firstStep \<Rightarrow>
                    (let (step1Access, m) = addAccess ''Stap'' (st_number firstStep) n4
                     in connect (a_id step1Access) None (p_id srRust) ''r1'' False m)
                | None \<Rightarrow> n4);
          n6 = connect (p_id aGateRust) (Some ''out'') (p_id srRust) ''s'' False n5;
          (srRustOperand, n7) = addAccess ''Stap'' 0 n6
      in connect (a_id srRustOperand) None (p_id srRust) ''operand'' False n7)"

text \<open>The body of \<open>normalSteps.forEach((step, idx) => ...)\<close> after \<open>fb.addNetwork\<close>.\<close>

definition build_step_network :: "step list \<Rightarrow> nat \<Rightarrow> network \<Rightarrow> network" where
  "build_step_network normalSteps idx network0 =
     (let step = normalSteps ! idx;
          isFinalStep = (idx + 1 = length normalSteps);
          prevStepNumber = (if idx = 0 then 0 else st_number (normalSteps ! (idx - 1)));
          (prevStepAccess, n1) = addAccess ''Stap'' prevStepNumber network0;
          (notCurrentStepAccess, n2) = addAccess ''Stap'' (st_number step) n1;
          (falseAccess, n3) = addLiteralBool False n2;
          (conditionGate, n4) = addPart A n3;
          n5 = connect (a_id prevStepAccess) None (p_id conditionGate) ''in1'' False n4;
          n6 = connect (a_id notCurrentStepAccess) None (p_id conditionGate) ''in2'' True n5;
          n7 = connect (a_id falseAccess) None (p_id conditionGate) ''in3'' False n6
      in if isFinalStep
         then (let (coil, n8) = addPart Coil n7;
                   (coilOperand, n9) = addAccess ''Stap'' (st_number step) n8;
                   n10 = connect (p_id conditionGate) (Some ''out'') (p_id coil) ''in'' False n9
               in connect (a_id coilOperand) None (p_id coil) ''operand'' False n10)
         else (let nextStep = normalSteps ! (idx + 1);
                   (srBlock, n8) = addPart Sr n7;
                   (resetStepAccess, n9) = addAccess ''Stap'' (st_number nextStep) n8;
                   (srOperand, n10) = addAccess ''Stap'' (st_number step) n9;
                   n11 = connect (p_id conditionGate) (Some ''out'') (p_id srBlock) ''s'' False n10;
                   n12 = connect (a_id resetStepAccess) None (p_id srBlock) ''r1'' False n11
               in connect (a_id srOperand) None (p_id srBlock) ''operand'' False n12))"

text \<open>
  \<open>fb.addNetwork(title, baseUid)\<close> followed by the construction \<open>build\<close> of the
  network's content: the network is pushed when it is created and filled through the
  same reference, so the block holds the filled network.
\<close>

definition addNetwork :: "string \<Rightarrow> nat \<Rightarrow> (network \<Rightarrow> network) \<Rightarrow> functionBlock \<times> nat
    \<Rightarrow> functionBlock \<times> nat" where
  "addNetwork title baseUid build fu =
     (let (net, u) = new_Network (snd fu) title baseUid
      in ((fst fu)\<lparr>fb_networks := fb_networks (fst fu) @ [build net]\<rparr>, u))"

definition step_title :: "step \<Rightarrow> string" where
  "step_title s = ''STAP '' @ String_int (st_number s) @ '': '' @ or_default (st_description s) []"

definition add_step_networks :: "step list \<Rightarrow> functionBlock \<times> nat \<Rightarrow> functionBlock \<times> nat" where
  "add_step_networks normalSteps fu =
     fold (\<lambda>idx. addNetwork (step_title (normalSteps ! idx)) (1000 + idx * 100)
                    (build_step_network normalSteps idx))
       [0..<length normalSteps] fu"

text \<open>The document that \<open>generateTIAPortalXML\<close> builds from a non-empty list of steps.\<close>

definition build_document :: "string option \<Rightarrow> step list \<Rightarrow> document" where
  "build_document fbName ss =
     (let (fb0, u0) = new_FunctionBlock (doc_uid new_Document) (or_default fbName ''FB1'');
          fb1 = fb0\<lparr>fb_interface := build_interface ss\<rparr>;
          fu2 = (case find is_rust ss of
                   Some rustStep \<Rightarrow>
                     addNetwork (or_default (st_description rustStep) ''RUST Logic'') 500
                       (build_rust_network ss) (fb1, u0)
                 | None \<Rightarrow> (fb1, u0));
          fu3 = add_step_networks (filter is_stap ss) fu2
      in \<lparr>doc_uid = snd fu3, doc_fb = Some (fst fu3)\<rparr>)"

definition noStepsComment :: string where
  "noStepsComment = ''<!-- Geen stappen gevonden om te compileren. -->''"

definition generateTIAPortalXML :: "parseResult option \<Rightarrow> string" where
  "generateTIAPortalXML pr =
     (case pr of
        None \<Rightarrow> noStepsComment
      | Some r \<Rightarrow>
          (case steps r of
             None \<Rightarrow> noStepsComment
           | Some ss \<Rightarrow>
               if ss = [] then noStepsComment
               else Document_toXml True 0 (build_document (functionBlock r) ss)))"

section \<open>The identifiers written into the document\<close>

text \<open>
  The values of the \<open>ID\<close> and \<open>UId\<close> attributes that identify an element, in the order
  in which the \<open>toXml\<close> methods write them. (The \<open>UId\<close> of a \<open>NameCon\<close> or
  \<open>IdentCon\<close> inside a wire refers to a part and is not an identifier of its own.)
\<close>

definition MultilingualText_ids :: "multilingualText \<Rightarrow> nat \<Rightarrow> nat list \<times> nat" where
  "MultilingualText_ids mt uid =
     (let (items, uid') = text_items (texts mt) uid in (mt_id mt # [uid..<uid'], uid'))"

definition net_part_id :: "net_part \<Rightarrow> nat" where
  "net_part_id x = (case x of PPart p \<Rightarrow> p_id p | PAccess a \<Rightarrow> a_id a)"

definition Network_ids :: "network \<Rightarrow> nat list" where
  "Network_ids net =
     (let (cids, u1) = MultilingualText_ids (n_comment net) (n_uid net);
          (tids, u2) = MultilingualText_ids (n_title net) u1
      in n_id net # map net_part_id (n_parts net) @ map w_id (n_wires net) @ cids @ tids)"

definition FunctionBlock_ids :: "functionBlock \<Rightarrow> nat \<Rightarrow> nat list" where
  "FunctionBlock_ids fb uid =
     (let (cids, u1) = MultilingualText_ids (fb_comment fb) uid;
          (tids, u2) = MultilingualText_ids (fb_title fb) u1
      in fb_id fb # cids @ concat (map Network_ids (fb_networks fb)) @ tids)"

definition Document_ids :: "document \<Rightarrow> nat list" where
  "Document_ids d = (case doc_fb d of None \<Rightarrow> [] | Some fb \<Rightarrow> FunctionBlock_ids fb (doc_uid d))"

section \<open>Reading a generated document\<close>

text \<open>
  The vocabulary in which the properties of the generated networks are stated: the parts
  of a kind, the wires between two endpoints, the accesses to a step bit.
\<close>

definition document_networks :: "document \<Rightarrow> network list" where
  "document_networks d = (case doc_fb d of None \<Rightarrow> [] | Some fb \<Rightarrow> fb_networks fb)"

fun part_of :: "net_part \<Rightarrow> part list" where
  "part_of (PPart p) = [p]"
| "part_of (PAccess a) = []"

definition parts_named :: "network \<Rightarrow> part_name \<Rightarrow> part list" where
  "parts_named net nm = filter (\<lambda>p. p_name p = nm) (concat (map part_of (n_parts net)))"

definition wired :: "network \<Rightarrow> nat \<times> string option \<Rightarrow> nat \<times> string \<Rightarrow> bool" where
  "wired net src dst = list_ex (\<lambda>w. w_from w = src \<and> w_to w = dst) (n_wires net)"

text \<open>The part \<open>x\<close> is an access to the bit \<open>Stap[idx]\<close> and is wired to \<open>dst\<close>.\<close>

fun step_bit_wired :: "network \<Rightarrow> int \<Rightarrow> nat \<times> string \<Rightarrow> net_part \<Rightarrow> bool" where
  "step_bit_wired net idx dst (PAccess a) =
     (a_variable a = ''Stap'' \<and> a_index a = Some idx \<and> \<not> isLiteralBool a
      \<and> wired net (a_id a, None) dst)"
| "step_bit_wired net idx dst (PPart p) = False"

text \<open>The input \<open>port\<close> of the gate \<open>g\<close> is negated and fed by the bit \<open>Stap[idx]\<close>.\<close>

definition negated_step_input :: "network \<Rightarrow> part \<Rightarrow> string \<Rightarrow> int \<Rightarrow> bool" where
  "negated_step_input net g port idx =
     (port \<in> set (negatedInputs g)
      \<and> list_ex (step_bit_wired net idx (p_id g, port)) (n_parts net))"

text \<open>
  A Rest network for the sequential steps \<open>ts\<close>: one AND gate and one set/reset latch;
  the gate has as many incoming wires as there are sequential steps, its input
  \<open>in(k+1)\<close> is negated and fed by the bit of the \<open>k\<close>-th sequential step, and its
  output drives the set input of the latch.
\<close>

definition rest_network_ok :: "network \<Rightarrow> step list \<Rightarrow> bool" where
  "rest_network_ok net ts =
     (case (parts_named net A, parts_named net Sr) of
        ([g], [sr]) \<Rightarrow>
          wires_into net (p_id g) = length ts
          \<and> list_all (\<lambda>k. negated_step_input net g (''in'' @ decimal (k + 1)) (st_number (ts ! k)))
                [0..<length ts]
          \<and> wired net (p_id g, Some ''out'') (p_id sr, ''s'')
      | _ \<Rightarrow> False)"

text \<open>
  The same without the negations: the gate has as many incoming wires as there are
  sequential steps, its input \<open>in(k+1)\<close> is fed by the bit of the \<open>k\<close>-th sequential
  step, and its output drives the set input of the latch.
\<close>

definition rest_network_fed :: "network \<Rightarrow> step list \<Rightarrow> bool" where
  "rest_network_fed net ts =
     (case (parts_named net A, parts_named net Sr) of
        ([g], [sr]) \<Rightarrow>
          wires_into net (p_id g) = length ts
          \<and> list_all (\<lambda>k. list_ex (step_bit_wired net (st_number (ts ! k))
                                    (p_id g, ''in'' @ decimal (k + 1))) (n_parts net))
                [0..<length ts]
          \<and> wired net (p_id g, Some ''out'') (p_id sr, ''s'')
      | _ \<Rightarrow> False)"

text \<open>A step network whose AND gate drives the set input of a set/reset latch.\<close>

definition latch_network_ok :: "network \<Rightarrow> bool" where
  "latch_network_ok net =
     (case (parts_named net A, parts_named net Sr, parts_named net Coil) of
        ([g], [sr], []) \<Rightarrow> wired net (p_id g, Some ''out'') (p_id sr, ''s'')
      | _ \<Rightarrow> False)"

text \<open>
  A terminal step network: its AND gate drives a coil, there is no latch and no wire
  ends at a reset input \<open>r1\<close>.
\<close>

definition coil_network_ok :: "network \<Rightarrow> bool" where
  "coil_network_ok net =
     (case (parts_named net A, parts_named net Coil, parts_named net Sr) of
        ([g], [c], []) \<Rightarrow>
          wired net (p_id g, Some ''out'') (p_id c, ''in'')
          \<and> \<not> list_ex (\<lambda>w. snd (w_to w) = ''r1'') (n_wires net)
      | _ \<Rightarrow> False)"

text \<open>
  The element of an AND gate \<open>p\<close> written with the cardinality \<open>c\<close>: its name and
  identifier, the \<open>TemplateValue\<close> with \<open>c\<close> when \<open>c\<close> is positive, and one
  \<open>Negated\<close> element per negated input.
\<close>

definition gate_element :: "part \<Rightarrow> nat \<Rightarrow> xml" where
  "gate_element p c =
     XmlElement ''Part'' [(''Name'', AStr ''A''), (''UId'', ANum (int (p_id p)))]
       ((if 0 < c then [Element (cardinality_element c)] else [])
        @ map (\<lambda>port. Element (negated_element port)) (negatedInputs p))"

text \<open>
  What the text of a network holds for one of its parts: for an AND gate the element
  above with the number of wires that end at the gate, for any other part its own text.
\<close>

definition written_part :: "bool \<Rightarrow> nat \<Rightarrow> network \<Rightarrow> net_part \<Rightarrow> string" where
  "written_part pretty level net x =
     (case x of
        PAccess a \<Rightarrow> Access_toXml pretty level a
      | PPart p \<Rightarrow>
          if p_name p = A then toString pretty level (gate_element p (wires_into net (p_id p)))
          else Part_toXml pretty level p)"

text \<open>The part as the network keeps it after \<open>toXml\<close>: an AND gate with that number stored.\<close>

definition stored_part :: "network \<Rightarrow> net_part \<Rightarrow> net_part" where
  "stored_part net x =
     (case x of
        PAccess a \<Rightarrow> x
      | PPart p \<Rightarrow> if p_name p = A then PPart (p\<lparr>cardinality := Some (wires_into net (p_id p))\<rparr>) else x)"

text \<open>Programs used as concrete inputs.\<close>

definition rust_step :: step where
  "rust_step = \<lparr>st_number = 0, st_type = RUST, st_description = Some ''idle''\<rparr>"

definition stap_step :: "nat \<Rightarrow> step" where
  "stap_step k = \<lparr>st_number = int k, st_type = STAP, st_description = None\<rparr>"

text \<open>A Rest step followed by the sequential steps \<open>1, ..., n\<close>.\<close>

definition program_of_size :: "nat \<Rightarrow> step list" where
  "program_of_size n = rust_step # map stap_step [1..<n + 1]"

section \<open>Closed forms of the loops of the generator\<close>

text \<open>
  What the two loops of the Rest network build, as functions of the first free
  identifier: the accesses to the bits of the sequential steps, the wires from them to
  the gate, and the gate after its inputs have been negated.
\<close>

fun stap_accesses :: "nat \<Rightarrow> step list \<Rightarrow> access list" where
  "stap_accesses u [] = []"
| "stap_accesses u (s # ss) =
     \<lparr>a_id = u, a_variable = ''Stap'', a_index = Some (st_number s),
      isLiteralBool = False, literalValue = False\<rparr> # stap_accesses (u + 1) ss"

fun negated_wires :: "nat \<Rightarrow> nat \<Rightarrow> nat \<Rightarrow> access list \<Rightarrow> wire list" where
  "negated_wires u idx gate [] = []"
| "negated_wires u idx gate (a # as) =
     \<lparr>w_id = u, w_from = (a_id a, None), w_to = (gate, ''in'' @ decimal (idx + 1))\<rparr>
       # negated_wires (u + 1) (idx + 1) gate as"

fun negate_ports :: "nat \<Rightarrow> nat \<Rightarrow> part \<Rightarrow> part" where
  "negate_ports idx 0 p = p"
| "negate_ports idx (Suc n) p = negate_ports (idx + 1) n (negateInput (''in'' @ decimal (idx + 1)) p)"

text \<open>
  The network of the sequential step with index \<open>idx\<close>, when \<open>u\<close> is the value of
  the document's counter before the first step network is created.
\<close>

definition step_net :: "step list \<Rightarrow> nat \<Rightarrow> nat \<Rightarrow> network" where
  "step_net ts u idx =
     build_step_network ts idx (fst (new_Network (u + idx) (step_title (ts ! idx)) (1000 + idx * 100)))"

section \<open>Conditions of a step (src/core/EnhancedLogicParser.js)\<close>

datatype operator = AND | OR

text \<open>
  A condition as \<open>tryParseCondition\<close> builds it. The fields that the source computes
  from the condition text alone by its pattern detectors (\<open>hasExternalRef\<close>,
  \<open>crossReference\<close>, \<open>isTimeCondition\<close>, \<open>timeValue\<close>, \<open>timeUnit\<close>,
  \<open>hasComparison\<close>, \<open>comparison\<close>) are kept together in \<open>c_details\<close>, the value
  of a function of the text that the model takes as a parameter.
\<close>

record 'd condition =
  c_text :: string
  c_negated :: bool
  c_details :: 'd
  c_lineNumber :: nat
  c_operator :: operator

text \<open>A condition group \<open>{ type: 'group', operator, conditions }\<close>.\<close>

record 'd cgroup =
  g_operator :: operator
  g_conditions :: "'d condition list"

record 'd transition =
  fromStep :: int
  t_isOr :: bool
  t_conditions :: "'d condition list"

datatype pstep_type = P_RUST | P_SCHRITT

text \<open>
  A step as \<open>tryParseStep\<close> creates it (the names found in conditions, \<open>timers\<close>,
  \<open>markers\<close>, \<open>storingen\<close> and \<open>assignments\<close>, are not modelled: nothing below
  reads them).
\<close>

record 'd pstep =
  ps_type :: pstep_type
  ps_number :: int
  ps_description :: string
  entryConditions :: "'d cgroup list"
  exitConditions :: "'d cgroup list"
  ps_transitions :: "'d transition list"
  ps_lineNumber :: nat

datatype diagnostic_type =
  DUPLICATE_STEP | MISSING_SEQUENTIAL_STEP | INVALID_VON_SCHRITT | CROSS_REFERENCE
  | UNKNOWN_GROUP | MISSING_CONDITIONS | TOO_MANY_CONDITIONS

record diagnostic =
  d_type :: diagnostic_type
  d_message :: string
  d_lineNumber :: nat

text \<open>
  What \<open>tryParseCondition\<close> reads and writes: the current step (the last step of the
  result), whether a variable definition is open, the conditions pending for it, the
  pending \<open>VON SCHRITT\<close> transitions, the errors of the result and the count of
  conditions in its statistics.
\<close>

record 'd pstate =
  currentStep :: "'d pstep option"
  currentVariableDefinition :: bool
  pendingConditions :: "'d condition list"
  pendingTransitions :: "'d transition list"
  p_errors :: "diagnostic list"
  totalConditions :: nat

definition startsWith :: "string \<Rightarrow> string \<Rightarrow> bool" where
  "startsWith s p = (take (length p) s = p)"

definition addConditionToStep :: "'d pstep \<Rightarrow> 'd condition \<Rightarrow> bool \<Rightarrow> 'd pstep" where
  "addConditionToStep step c isOr =
     (if isOr \<and> length (entryConditions step) > 0
      then step\<lparr>entryConditions := entryConditions step @ [\<lparr>g_operator = OR, g_conditions = [c]\<rparr>]\<rparr>
      else if length (entryConditions step) = 0
      then step\<lparr>entryConditions := entryConditions step @ [\<lparr>g_operator = AND, g_conditions = [c]\<rparr>]\<rparr>
      else step\<lparr>entryConditions :=
             butlast (entryConditions step)
             @ [(last (entryConditions step))
                  \<lparr>g_conditions := g_conditions (last (entryConditions step)) @ [c]\<rparr>]\<rparr>)"

text \<open>Upper case of an ASCII letter, for the patterns with the flag \<open>i\<close>.\<close>

definition upper :: "char \<Rightarrow> char" where
  "upper c = (if 97 \<le> (of_char c :: nat) \<and> (of_char c :: nat) \<le> 122
              then char_of ((of_char c :: nat) - 32) else c)"

text \<open>
  \<open>/^(NIET|NOT|NICHT)\s+/i\<close>: the rest of the text after the keyword and the white
  space behind it, if the text starts so.
\<close>

definition after_keyword :: "string \<Rightarrow> string \<Rightarrow> string option" where
  "after_keyword kw s =
     (if map upper (take (length kw) s) = kw \<and> length kw \<le> length s
         \<and> drop (length kw) s \<noteq> [] \<and> is_space (hd (drop (length kw) s))
      then Some (dropWhile is_space (drop (length kw) s)) else None)"

definition after_negation :: "string \<Rightarrow> string option" where
  "after_negation s =
     (case after_keyword ''NIET'' s of
        Some r \<Rightarrow> Some r
      | None \<Rightarrow> (case after_keyword ''NOT'' s of
                   Some r \<Rightarrow> Some r
                 | None \<Rightarrow> after_keyword ''NICHT'' s))"

text \<open>\<open>conditionText.replace(/^\+\s*/, '')\<close>.\<close>

definition strip_plus :: "string \<Rightarrow> string" where
  "strip_plus s = (if startsWith s ''+'' then dropWhile is_space (drop 1 s) else s)"

text \<open>
  The condition of a line: the markers \<open>-\<close> and \<open>+\<close> and the negation keyword are
  removed from the trimmed line; the line is an OR condition when the text after the
  marker \<open>-\<close>, or the trimmed line itself, starts with a plus sign and a space.
\<close>

definition line_isOr :: "string \<Rightarrow> bool" where
  "line_isOr line =
     (let trimmedLine = trim line;
          conditionText = (if startsWith trimmedLine ''-'' then trim (drop 1 trimmedLine) else trimmedLine)
      in startsWith conditionText ''+ '' \<or> startsWith trimmedLine ''+ '')"

definition line_condition :: "(string \<Rightarrow> 'd) \<Rightarrow> string \<Rightarrow> nat \<Rightarrow> 'd condition" where
  "line_condition details line lineNumber =
     (let trimmedLine = trim line;
          text1 = (if startsWith trimmedLine ''-'' then trim (drop 1 trimmedLine) else trimmedLine);
          isOr = (startsWith text1 ''+ '' \<or> startsWith trimmedLine ''+ '');
          text2 = (if isOr then trim (strip_plus text1) else text1);
          isNegated = (after_negation text2 \<noteq> None);
          text3 = (case after_negation text2 of Some r \<Rightarrow> trim r | None \<Rightarrow> text2)
      in \<lparr>c_text = text3, c_negated = isNegated, c_details = details text3,
          c_lineNumber = lineNumber, c_operator = (if isOr then OR else AND)\<rparr>)"

text \<open>
  \<open>tryParseCondition\<close>. \<open>implicit\<close> stands for the five tests on the trimmed line for
  a condition without a marker (negation, timer, assignment, cross-reference,
  comparison). The result says whether the line was taken as a condition. The effects on
  the statistics of external references, on the cross-reference table and on the names
  stored in the step are outside the model.
\<close>

definition tryParseCondition :: "(string \<Rightarrow> bool) \<Rightarrow> (string \<Rightarrow> 'd) \<Rightarrow> string \<Rightarrow> nat
    \<Rightarrow> 'd pstate \<Rightarrow> bool \<times> 'd pstate" where
  "tryParseCondition implicit details line lineNumber st =
     (if currentStep st = None \<and> \<not> currentVariableDefinition st then (False, st)
      else if trim line = [] then (False, st)
      else
        (let trimmedLine = trim line;
             hasIndentation = (line \<noteq> [] \<and> is_space (hd line));
             hasExplicitMarkers = (startsWith trimmedLine ''-'' \<or> startsWith trimmedLine ''+'');
             isConditionLine = (hasExplicitMarkers
                                \<or> (hasIndentation \<and> currentStep st \<noteq> None \<and> length trimmedLine > 0)
                                \<or> (currentStep st \<noteq> None \<and> implicit trimmedLine))
         in if \<not> isConditionLine then (False, st)
            else
              (let c = line_condition details line lineNumber;
                   st1 = (case currentStep st of
                            Some step \<Rightarrow>
                              st\<lparr>currentStep := Some (addConditionToStep step c (line_isOr line)),
                                 totalConditions := totalConditions st + 1\<rparr>
                          | None \<Rightarrow> st\<lparr>pendingConditions := pendingConditions st @ [c]\<rparr>);
                   st2 = (if length (pendingTransitions st1) > 0
                          then st1\<lparr>pendingTransitions :=
                                 butlast (pendingTransitions st1)
                                 @ [(last (pendingTransitions st1))
                                      \<lparr>t_conditions := t_conditions (last (pendingTransitions st1)) @ [c]\<rparr>]\<rparr>
                          else st1)
               in (True, st2))))"

text \<open>A step with one collected condition, and the state of the parser inside it.\<close>

definition example_condition :: "unit condition" where
  "example_condition = \<lparr>c_text = ''Start'', c_negated = False, c_details = (),
                          c_lineNumber = 2, c_operator = AND\<rparr>"

definition example_step :: "unit pstep" where
  "example_step = \<lparr>ps_type = P_SCHRITT, ps_number = 1, ps_description = ''Fill'',
                    entryConditions = [\<lparr>g_operator = AND, g_conditions = [example_condition]\<rparr>],
                    exitConditions = [], ps_transitions = [], ps_lineNumber = 1\<rparr>"

definition example_state :: "unit pstate" where
  "example_state = \<lparr>currentStep = Some example_step, currentVariableDefinition = False,
                     pendingConditions = [], pendingTransitions = [], p_errors = [],
                     totalConditions = 1\<rparr>"

section \<open>Step declarations (EnhancedLogicParser.tryParseStep)\<close>

text \<open>
  The result of the parser, as far as the validation of the steps reads and writes it.
\<close>

record 'd presult =
  r_steps :: "'d pstep list"
  r_errors :: "diagnostic list"
  r_warnings :: "diagnostic list"

text \<open>
  \<open>parseInt(stepMatch[2]) || 1\<close> for the digits that the step pattern captured, if any:
  no number, and the number 0, give 1.
\<close>

definition declared_number :: "string option \<Rightarrow> int" where
  "declared_number ds =
     (case ds of
        None \<Rightarrow> 1
      | Some d \<Rightarrow> if nat_of_digits d = 0 then 1 else int (nat_of_digits d))"

text \<open>
  What \<open>tryParseStep\<close> does once the step pattern has matched a line, with the keyword,
  the digits and the description that the pattern captured: the new step is pushed onto
  the steps of the result, whatever steps are there already. (The conditions pending for
  a variable become the exit conditions of the step that is closed; they are passed in.)
\<close>

definition declare_step :: "string list \<Rightarrow> string \<Rightarrow> string option \<Rightarrow> string \<Rightarrow> nat
    \<Rightarrow> 'd transition list \<Rightarrow> 'd presult \<Rightarrow> 'd presult" where
  "declare_step restKeywords keyword digits description lineNumber pending r =
     (let ty = (if list_ex (\<lambda>k. map upper k = map upper keyword) restKeywords
                then P_RUST else P_SCHRITT);
          stepNumber = (if ty = P_RUST then 0 else declared_number digits);
          newStep = \<lparr>ps_type = ty, ps_number = stepNumber, ps_description = description,
                     entryConditions = [], exitConditions = [], ps_transitions = pending,
                     ps_lineNumber = lineNumber\<rparr>
      in r\<lparr>r_steps := r_steps r @ [newStep]\<rparr>)"

section \<open>Consistency of the steps (UnifiedTextParser.validateStepLogicConsistency)\<close>

definition is_schritt :: "'d pstep \<Rightarrow> bool" where
  "is_schritt s = (ps_type s = P_SCHRITT)"

definition duplicate_error :: "'d pstep \<Rightarrow> diagnostic" where
  "duplicate_error s =
     \<lparr>d_type = DUPLICATE_STEP, d_message = ''Duplicate step number: '' @ String_int (ps_number s),
      d_lineNumber = ps_lineNumber s\<rparr>"

text \<open>
  The first loop: \<open>stepNumbers\<close> maps the numbers seen so far to their last step; a
  sequential step whose number is in the map adds an error.
\<close>

fun check_duplicates :: "'d pstep list \<Rightarrow> (int \<rightharpoonup> 'd pstep) \<Rightarrow> diagnostic list \<Rightarrow> diagnostic list" where
  "check_duplicates [] stepNumbers errors = errors"
| "check_duplicates (s # ss) stepNumbers errors =
     (if ps_type s = P_SCHRITT
      then check_duplicates ss (stepNumbers(ps_number s \<mapsto> s))
             (if stepNumbers (ps_number s) \<noteq> None then errors @ [duplicate_error s] else errors)
      else check_duplicates ss stepNumbers errors)"

definition gap_warning :: "'d pstep \<Rightarrow> 'd pstep \<Rightarrow> diagnostic" where
  "gap_warning previous current =
     \<lparr>d_type = MISSING_SEQUENTIAL_STEP,
      d_message = ''Gap in sequential steps: '' @ String_int (ps_number previous) @ '' -> ''
                  @ String_int (ps_number current),
      d_lineNumber = ps_lineNumber current\<rparr>"

text \<open>The second loop, over the sequential steps sorted by number (the sort is stable).\<close>

fun check_gaps :: "'d pstep list \<Rightarrow> diagnostic list" where
  "check_gaps (previous # current # rest) =
     (if ps_number current \<noteq> ps_number previous + 1 \<and> length (ps_transitions current) = 0
      then [gap_warning previous current] else [])
     @ check_gaps (current # rest)"
| "check_gaps ss = []"

definition von_error :: "'d pstep \<Rightarrow> 'd transition \<Rightarrow> diagnostic" where
  "von_error s t =
     \<lparr>d_type = INVALID_VON_SCHRITT,
      d_message = ''VON SCHRITT '' @ String_int (fromStep t) @ '' references non-existent step'',
      d_lineNumber = ps_lineNumber s\<rparr>"

definition check_transitions :: "'d pstep list \<Rightarrow> diagnostic list" where
  "check_transitions ss =
     concat (map (\<lambda>s. concat (map (\<lambda>t. if find (\<lambda>x. ps_number x = fromStep t) ss = None
                                          then [von_error s t] else [])
                               (ps_transitions s))) ss)"

definition validateStepLogicConsistency :: "'d presult \<Rightarrow> 'd presult" where
  "validateStepLogicConsistency r =
     r\<lparr>r_errors := check_duplicates (r_steps r) Map.empty (r_errors r) @ check_transitions (r_steps r),
       r_warnings := r_warnings r @ check_gaps (sort_key ps_number (filter is_schritt (r_steps r)))\<rparr>"

text \<open>The errors of one type.\<close>

definition errors_of_type :: "diagnostic_type \<Rightarrow> diagnostic list \<Rightarrow> diagnostic list" where
  "errors_of_type ty es = filter (\<lambda>e. d_type e = ty) es"

text \<open>The sequential steps before \<open>ss\<close> have the numbers \<open>K\<close>: the steps of \<open>ss\<close> that repeat a number.\<close>

fun repeated_steps :: "int set \<Rightarrow> 'd pstep list \<Rightarrow> 'd pstep list" where
  "repeated_steps K [] = []"
| "repeated_steps K (s # ss) =
     (if ps_type s = P_SCHRITT
      then (if ps_number s \<in> K then [s] else []) @ repeated_steps (insert (ps_number s) K) ss
      else repeated_steps K ss)"

text \<open>A program in which the step number 1 is declared on line 1 and again on line 2.\<close>

definition twice_declared :: "unit presult" where
  "twice_declared =
     declare_step [''RUHE''] ''SCHRITT'' (Some ''1'') ''Leeren'' 2 []
       (declare_step [''RUHE''] ''SCHRITT'' (Some ''1'') ''Fuellen'' 1 []
          \<lparr>r_steps = [], r_errors = [], r_warnings = []\<rparr>)"

section \<open>Variable groups (src/config/validationRules.js)\<close>

text \<open>
  The configuration of a group, as far as the validation of a variable reads it. A
  pattern is a regular expression without the flags \<open>g\<close> and \<open>y\<close> (as all patterns of
  the default rules are), so \<open>pattern.test(name)\<close> is a function of the name: the model
  takes that function as the pattern.
\<close>

record groupConfig =
  excludePatterns :: "(string \<Rightarrow> bool) list option"
  patterns :: "(string \<Rightarrow> bool) list"
  requiresConditions :: bool
  maxConditions :: nat

text \<open>
  \<open>rules.groups\<close> in the order of \<open>Object.entries\<close>, and the loop of
  \<open>determineVariableGroup\<close> over it. \<open>None\<close> is \<open>null\<close>.
\<close>

fun classify :: "string \<Rightarrow> (string \<times> groupConfig) list \<Rightarrow> string" where
  "classify name [] = ''hulpmerker''"
| "classify name ((groupName, groupConfig) # groups) =
     (if (case excludePatterns groupConfig of
            None \<Rightarrow> False
          | Some ps \<Rightarrow> list_ex (\<lambda>pattern. pattern name) ps)
      then classify name groups
      else if list_ex (\<lambda>pattern. pattern name) (patterns groupConfig) then groupName
      else classify name groups)"

definition determineVariableGroup :: "string \<Rightarrow> (string \<times> groupConfig) list \<Rightarrow> string option" where
  "determineVariableGroup name groups = (if name = [] then None else Some (classify name groups))"

record 'c variableDefinition =
  v_name :: string
  v_conditions :: "'c list option"
  v_lineNumber :: nat

record validation =
  v_errors :: "diagnostic list"
  v_warnings :: "diagnostic list"
  v_group :: "string option"
  v_groupRules :: "groupConfig option"

datatype js_error = TypeError | SyntaxError

text \<open>
  \<open>validateVariableDefinition\<close>. \<open>!group\<close> holds for \<open>null\<close> and for the empty string.
  \<open>rules.groups[group]\<close> is the configuration under that name; if there is none, reading
  its \<open>validation\<close> throws a \<open>TypeError\<close>.
\<close>

definition validateVariableDefinition :: "'c variableDefinition \<Rightarrow> (string \<times> groupConfig) list
    \<Rightarrow> js_error + validation" where
  "validateVariableDefinition d groups =
     (case determineVariableGroup (v_name d) groups of
        None \<Rightarrow> Inr \<lparr>v_errors = [\<lparr>d_type = UNKNOWN_GROUP,
                                    d_message = ''Cannot determine group for variable: '' @ v_name d,
                                    d_lineNumber = v_lineNumber d\<rparr>],
                      v_warnings = [], v_group = None, v_groupRules = None\<rparr>
      | Some g \<Rightarrow>
          if g = [] then Inr \<lparr>v_errors = [\<lparr>d_type = UNKNOWN_GROUP,
                                    d_message = ''Cannot determine group for variable: '' @ v_name d,
                                    d_lineNumber = v_lineNumber d\<rparr>],
                      v_warnings = [], v_group = None, v_groupRules = None\<rparr>
          else (case map_of groups g of
                  None \<Rightarrow> Inl TypeError
                | Some groupRules \<Rightarrow>
                    Inr \<lparr>v_errors =
                           (if requiresConditions groupRules
                               \<and> (case v_conditions d of None \<Rightarrow> True | Some cs \<Rightarrow> length cs = 0)
                            then [\<lparr>d_type = MISSING_CONDITIONS,
                                   d_message = ''Variable '' @ v_name d @ '' of group '' @ g
                                               @ '' requires conditions'',
                                   d_lineNumber = v_lineNumber d\<rparr>]
                            else []),
                         v_warnings =
                           (case v_conditions d of
                              None \<Rightarrow> []
                            | Some cs \<Rightarrow>
                                if length cs > maxConditions groupRules
                                then [\<lparr>d_type = TOO_MANY_CONDITIONS,
                                       d_message = ''Variable '' @ v_name d @ '' has ''
                                                   @ decimal (length cs) @ '' conditions, maximum is ''
                                                   @ decimal (maxConditions groupRules),
                                       d_lineNumber = v_lineNumber d\<rparr>]
                                else []),
                         v_group = Some g, v_groupRules = Some groupRules\<rparr>))"

text \<open>
  The group names of the default rules, in their order; \<open>matches\<close> gives the patterns
  of each group (exclude patterns, only \<open>hulpmerker\<close> has some, and include patterns).
\<close>

definition default_groups :: "(string \<Rightarrow> (string \<Rightarrow> bool) list option \<times> (string \<Rightarrow> bool) list)
    \<Rightarrow> (string \<times> groupConfig) list" where
  "default_groups matches =
     map (\<lambda>(n, req, mx). (n, \<lparr>excludePatterns = fst (matches n), patterns = snd (matches n),
                               requiresConditions = req, maxConditions = mx\<rparr>))
       [(''hulpmerker'', True, 20), (''storing'', True, 10), (''melding'', True, 10),
        (''tijd'', False, 0), (''teller'', False, 0), (''variabele'', False, 0)]"

text \<open>
  A group accepts a name when none of its exclude patterns and one of its include
  patterns matches the name.
\<close>

definition group_accepts :: "string \<Rightarrow> string \<times> groupConfig \<Rightarrow> bool" where
  "group_accepts name gc =
     (\<not> (case excludePatterns (snd gc) of None \<Rightarrow> False | Some ps \<Rightarrow> list_ex (\<lambda>pattern. pattern name) ps)
      \<and> list_ex (\<lambda>pattern. pattern name) (patterns (snd gc)))"

text \<open>
  Patterns for a concrete configuration: \<open>hulpmerker\<close> takes any name but those that
  start with \<open>STORING:\<close>, \<open>storing\<close> takes those; the other groups take nothing.
\<close>

definition example_matches :: "string \<Rightarrow> (string \<Rightarrow> bool) list option \<times> (string \<Rightarrow> bool) list" where
  "example_matches n =
     (if n = ''hulpmerker'' then (Some [\<lambda>s. startsWith s ''STORING:''], [\<lambda>s. True])
      else if n = ''storing'' then (None, [\<lambda>s. startsWith s ''STORING:''])
      else (None, []))"

section \<open>The cache of regular expressions (src/utils/RegexCache.js)\<close>

text \<open>
  A \<open>RegExp\<close> object: its source, its flags and its mutable \<open>lastIndex\<close>. The objects
  live in a store, a list indexed by address, because the cache hands out the same
  object again: what one use of it writes, the next use reads.
\<close>

record regexp =
  re_source :: string
  re_flags :: string
  lastIndex :: nat

text \<open>
  A JavaScript number, as far as the capacity of the cache reads it: a finite value
  (every finite double is a real number), \<open>NaN\<close> or one of the two infinities.
\<close>

datatype number = Finite real | NaN | Infinity | MinusInfinity

text \<open>\<open>size >= m\<close> for the size of a \<open>Map\<close> and a number \<open>m\<close>.\<close>

definition size_at_least :: "nat \<Rightarrow> number \<Rightarrow> bool" where
  "size_at_least n m =
     (case m of Finite x \<Rightarrow> x \<le> real n | NaN \<Rightarrow> False | Infinity \<Rightarrow> False
      | MinusInfinity \<Rightarrow> True)"

text \<open>
  The cache: the entries of the \<open>Map\<close> in insertion order (key and address of the
  object), the capacity and the two counters. (\<open>compilationTime\<close> measures real time and
  is not modelled.) The capacity is the number given to the constructor, whatever number
  it is, and 1000 when none is given.
\<close>

record regexCache =
  cache :: "(string \<times> nat) list"
  maxSize :: number
  hitCount :: nat
  missCount :: nat

definition new_RegexCache :: "number option \<Rightarrow> regexCache" where
  "new_RegexCache m =
     \<lparr>cache = [], maxSize = (case m of None \<Rightarrow> Finite 1000 | Some x \<Rightarrow> x),
      hitCount = 0, missCount = 0\<rparr>"

definition cacheKey :: "string \<Rightarrow> string \<Rightarrow> string" where
  "cacheKey pattern flags = pattern @ '':::'' @ flags"

text \<open>
  \<open>getRegex\<close>. \<open>valid pattern flags\<close> says whether \<open>new RegExp(pattern, flags)\<close>
  succeeds; otherwise it throws a \<open>SyntaxError\<close>, before the cache is touched. A hit
  moves the entry to the end. A miss on a full cache deletes the first key (on an empty
  cache there is none, and nothing is deleted), then adds the new object.
\<close>

definition getRegex :: "(string \<Rightarrow> string \<Rightarrow> bool) \<Rightarrow> string \<Rightarrow> string
    \<Rightarrow> regexCache \<times> regexp list \<Rightarrow> js_error + (nat \<times> regexCache \<times> regexp list)" where
  "getRegex valid pattern flags st =
     (let rc = fst st; store = snd st; key = cacheKey pattern flags
      in case map_of (cache rc) key of
           Some a \<Rightarrow>
             Inr (a, rc\<lparr>cache := filter (\<lambda>kv. fst kv \<noteq> key) (cache rc) @ [(key, a)],
                         hitCount := hitCount rc + 1\<rparr>, store)
         | None \<Rightarrow>
             if \<not> valid pattern flags then Inl SyntaxError
             else
               (let a = length store;
                    store' = store @ [\<lparr>re_source = pattern, re_flags = flags, lastIndex = 0\<rparr>];
                    kept = (if size_at_least (length (cache rc)) (maxSize rc) then drop 1 (cache rc)
                            else cache rc)
                in Inr (a, rc\<lparr>cache := kept @ [(key, a)], missCount := missCount rc + 1\<rparr>, store')))"

text \<open>
  Modelled from the ECMAScript specification of \<open>RegExp.prototype.test\<close>: the engine
  itself is the parameter \<open>search\<close>, which gives the end of the first match of the
  pattern (under its flags) in the text at or after a start index, if there is one. With
  the flag \<open>g\<close> or \<open>y\<close> the search starts at \<open>lastIndex\<close>, and \<open>lastIndex\<close> becomes
  the end of the match, or 0 without a match; without these flags the search starts at 0
  and the object is not changed.
\<close>

definition stateful :: "string \<Rightarrow> bool" where
  "stateful flags = (CHR ''g'' \<in> set flags \<or> CHR ''y'' \<in> set flags)"

definition regex_test :: "(string \<Rightarrow> string \<Rightarrow> string \<Rightarrow> nat \<Rightarrow> nat option) \<Rightarrow> regexp \<Rightarrow> string
    \<Rightarrow> bool \<times> regexp" where
  "regex_test search r t =
     (if stateful (re_flags r)
      then (if lastIndex r > length t then (False, r\<lparr>lastIndex := 0\<rparr>)
            else (case search (re_source r) (re_flags r) t (lastIndex r) of
                    None \<Rightarrow> (False, r\<lparr>lastIndex := 0\<rparr>)
                  | Some e \<Rightarrow> (True, r\<lparr>lastIndex := e\<rparr>)))
      else (case search (re_source r) (re_flags r) t 0 of
              None \<Rightarrow> (False, r)
            | Some e \<Rightarrow> (True, r)))"

text \<open>\<open>RegexCache.test(pattern, text, flags)\<close>: the matcher from the cache, then its test.\<close>

definition cache_test :: "(string \<Rightarrow> string \<Rightarrow> bool) \<Rightarrow> (string \<Rightarrow> string \<Rightarrow> string \<Rightarrow> nat \<Rightarrow> nat option)
    \<Rightarrow> string \<times> string \<times> string \<Rightarrow> regexCache \<times> regexp list
    \<Rightarrow> (js_error + bool) \<times> (regexCache \<times> regexp list)" where
  "cache_test valid search call st =
     (case call of (pattern, flags, t) \<Rightarrow>
        (case getRegex valid pattern flags st of
           Inl e \<Rightarrow> (Inl e, st)
         | Inr (a, rc, store) \<Rightarrow>
             (case regex_test search (store ! a) t of
                (b, r) \<Rightarrow> (Inr b, (rc, store[a := r])))))"

text \<open>The same test on a freshly compiled \<open>new RegExp(pattern, flags)\<close>.\<close>

definition fresh_test :: "(string \<Rightarrow> string \<Rightarrow> bool) \<Rightarrow> (string \<Rightarrow> string \<Rightarrow> string \<Rightarrow> nat \<Rightarrow> nat option)
    \<Rightarrow> string \<times> string \<times> string \<Rightarrow> js_error + bool" where
  "fresh_test valid search call =
     (case call of (pattern, flags, t) \<Rightarrow>
        if valid pattern flags
        then Inr (fst (regex_test search \<lparr>re_source = pattern, re_flags = flags, lastIndex = 0\<rparr> t))
        else Inl SyntaxError)"

text \<open>
  A run of calls \<open>(pattern, flags, text)\<close> through the cache: the results in order, and
  the state after the run.
\<close>

fun run_cached :: "(string \<Rightarrow> string \<Rightarrow> bool) \<Rightarrow> (string \<Rightarrow> string \<Rightarrow> string \<Rightarrow> nat \<Rightarrow> nat option)
    \<Rightarrow> (string \<times> string \<times> string) list \<Rightarrow> regexCache \<times> regexp list
    \<Rightarrow> (js_error + bool) list \<times> (regexCache \<times> regexp list)" where
  "run_cached valid search [] st = ([], st)"
| "run_cached valid search (c # cs) st =
     (case cache_test valid search c st of
        (res, st') \<Rightarrow> (case run_cached valid search cs st' of (rs, st'') \<Rightarrow> (res # rs, st'')))"

text \<open>
  An engine for patterns without special characters and without flags that change the
  matching: the pattern matches where it occurs in the text.
\<close>

fun literal_search_from :: "string \<Rightarrow> string \<Rightarrow> nat \<Rightarrow> nat \<Rightarrow> nat option" where
  "literal_search_from p t i 0 = (if take (length p) (drop i t) = p then Some (i + length p) else None)"
| "literal_search_from p t i (Suc n) =
     (if take (length p) (drop i t) = p then Some (i + length p)
      else literal_search_from p t (i + 1) n)"

definition literal_search :: "string \<Rightarrow> string \<Rightarrow> string \<Rightarrow> nat \<Rightarrow> nat option" where
  "literal_search p flags t start = literal_search_from p t start (length t - start)"

text \<open>The state of a cache: every entry of the cache points to an object that was
  compiled from the pattern and the flags of its key and has never been written.\<close>

definition pristine :: "(string \<Rightarrow> string \<Rightarrow> bool) \<Rightarrow> regexCache \<times> regexp list \<Rightarrow> bool" where
  "pristine valid st =
     (distinct (map fst (cache (fst st)))
      \<and> (\<forall>kv \<in> set (cache (fst st)).
            snd kv < length (snd st)
            \<and> (\<exists>p f. fst kv = cacheKey p f \<and> valid p f \<and> \<not> stateful f \<and> CHR '':'' \<notin> set f
                  \<and> snd st ! snd kv = \<lparr>re_source = p, re_flags = f, lastIndex = 0\<rparr>)))"

text \<open>
  The flags that \<open>new RegExp\<close> accepts: letters among \<open>d g i m s u v y\<close>, none of them
  twice, and not \<open>u\<close> together with \<open>v\<close>.
\<close>

definition valid_flags :: "string \<Rightarrow> bool" where
  "valid_flags f =
     (list_all (\<lambda>c. c \<in> set ''dgimsuvy'') f \<and> distinct f
      \<and> \<not> (CHR ''u'' \<in> set f \<and> CHR ''v'' \<in> set f))"

section \<open>Regular expressions of the text normaliser\<close>

text \<open>
  Modelled from the ECMAScript specification of regular expressions, for the constructs
  that the patterns of \<open>UnifiedTextParser\<close> use: the backtracking matcher, which tries
  the alternatives from left to right, a greedy repetition with more rounds first and a
  lazy one with fewer, and fails a round of a repetition that matches the empty string.

  A character class: a character, \<open>\s\<close>, \<open>\d\<close>, \<open>\w\<close>, the dot, a range, a set
  \<open>[...]\<close> and a negated set \<open>[^...]\<close>.
\<close>

datatype cls = Lit char | Space | Digit | Word | Dot | Between char char
  | OneOf "cls list" | NoneOf "cls list"

definition line_terminator :: "char \<Rightarrow> bool" where
  "line_terminator c = (c = CHR 0x0A \<or> c = CHR 0x0D)"

definition is_word :: "char \<Rightarrow> bool" where
  "is_word c = (let n = (of_char c :: nat)
                in (48 \<le> n \<and> n \<le> 57) \<or> (65 \<le> n \<and> n \<le> 90) \<or> (97 \<le> n \<and> n \<le> 122) \<or> n = 95)"

text \<open>\<open>ic\<close> is the flag \<open>i\<close>: characters are compared by their upper case.\<close>

fun cls_match :: "bool \<Rightarrow> cls \<Rightarrow> char \<Rightarrow> bool" where
  "cls_match ic (Lit a) c = (if ic then upper a = upper c else a = c)"
| "cls_match ic Space c = is_space c"
| "cls_match ic Digit c = is_digit c"
| "cls_match ic Word c = is_word c"
| "cls_match ic Dot c = (\<not> line_terminator c)"
| "cls_match ic (Between a b) c = ((of_char a :: nat) \<le> of_char c \<and> (of_char c :: nat) \<le> of_char b)"
| "cls_match ic (OneOf cs) c = list_ex (\<lambda>x. cls_match ic x c) cs"
| "cls_match ic (NoneOf cs) c = (\<not> list_ex (\<lambda>x. cls_match ic x c) cs)"

text \<open>
  A pattern. \<open>Rep n greedy r\<close> is \<open>r{n,}\<close> (\<open>r*\<close> for 0, \<open>r+\<close> for 1), lazy when
  \<open>greedy\<close> is false; \<open>Grp i r\<close> is the capturing group number \<open>i\<close>; \<open>Bol\<close> and
  \<open>Eol\<close> are \<open>^\<close> and \<open>$\<close>; \<open>NotAhead r\<close> is \<open>(?!r)\<close>. \<open>Progress\<close> and
  \<open>Close\<close> only occur while matching: the check that a round of a repetition has
  consumed something, and the end of a group that started at a position.
\<close>

datatype re = Eps | C cls | Cat re re | Alt re re | Rep nat bool re | Opt re | Grp nat re
  | Bol | Eol | NotAhead re | Progress nat | Close nat nat

text \<open>
  The result of a match: the end of the match and the captures (group, start, end), the
  latest first; no match; or the step budget ran out before the answer was known.
\<close>

datatype result = OutOfFuel | NoMatch | Matched nat "(nat \<times> nat \<times> nat) list"

text \<open>
  \<open>run fuel ic ml todo pos prev rest caps\<close> matches the patterns \<open>todo\<close> one after the
  other at position \<open>pos\<close>, where \<open>rest\<close> is the text from \<open>pos\<close> on and \<open>prev\<close>
  the character before it; \<open>ml\<close> is the flag \<open>m\<close>.
\<close>

fun run :: "nat \<Rightarrow> bool \<Rightarrow> bool \<Rightarrow> re list \<Rightarrow> nat \<Rightarrow> char option \<Rightarrow> string
    \<Rightarrow> (nat \<times> nat \<times> nat) list \<Rightarrow> result" where
  "run 0 ic ml todo pos prev rest caps = OutOfFuel"
| "run (Suc n) ic ml [] pos prev rest caps = Matched pos caps"
| "run (Suc n) ic ml (Eps # k) pos prev rest caps = run n ic ml k pos prev rest caps"
| "run (Suc n) ic ml (C c # k) pos prev [] caps = NoMatch"
| "run (Suc n) ic ml (C c # k) pos prev (x # rest) caps =
     (if cls_match ic c x then run n ic ml k (pos + 1) (Some x) rest caps else NoMatch)"
| "run (Suc n) ic ml (Cat a b # k) pos prev rest caps = run n ic ml (a # b # k) pos prev rest caps"
| "run (Suc n) ic ml (Alt a b # k) pos prev rest caps =
     (case run n ic ml (a # k) pos prev rest caps of
        NoMatch \<Rightarrow> run n ic ml (b # k) pos prev rest caps
      | OutOfFuel \<Rightarrow> OutOfFuel
      | Matched e cs \<Rightarrow> Matched e cs)"
| "run (Suc n) ic ml (Rep (Suc m) g a # k) pos prev rest caps =
     run n ic ml (a # Rep m g a # k) pos prev rest caps"
| "run (Suc n) ic ml (Rep 0 True a # k) pos prev rest caps =
     (case run n ic ml (a # Progress pos # Rep 0 True a # k) pos prev rest caps of
        NoMatch \<Rightarrow> run n ic ml k pos prev rest caps
      | OutOfFuel \<Rightarrow> OutOfFuel
      | Matched e cs \<Rightarrow> Matched e cs)"
| "run (Suc n) ic ml (Rep 0 False a # k) pos prev rest caps =
     (case run n ic ml k pos prev rest caps of
        NoMatch \<Rightarrow> run n ic ml (a # Progress pos # Rep 0 False a # k) pos prev rest caps
      | OutOfFuel \<Rightarrow> OutOfFuel
      | Matched e cs \<Rightarrow> Matched e cs)"
| "run (Suc n) ic ml (Opt a # k) pos prev rest caps =
     (case run n ic ml (a # k) pos prev rest caps of
        NoMatch \<Rightarrow> run n ic ml k pos prev rest caps
      | OutOfFuel \<Rightarrow> OutOfFuel
      | Matched e cs \<Rightarrow> Matched e cs)"
| "run (Suc n) ic ml (Grp i a # k) pos prev rest caps =
     run n ic ml (a # Close i pos # k) pos prev rest caps"
| "run (Suc n) ic ml (Close i start # k) pos prev rest caps =
     run n ic ml k pos prev rest ((i, start, pos) # caps)"
| "run (Suc n) ic ml (Progress p # k) pos prev rest caps =
     (if pos = p then NoMatch else run n ic ml k pos prev rest caps)"
| "run (Suc n) ic ml (Bol # k) pos prev rest caps =
     (if (case prev of None \<Rightarrow> True | Some c \<Rightarrow> ml \<and> line_terminator c)
      then run n ic ml k pos prev rest caps else NoMatch)"
| "run (Suc n) ic ml (Eol # k) pos prev rest caps =
     (if (case rest of [] \<Rightarrow> True | c # cs \<Rightarrow> ml \<and> line_terminator c)
      then run n ic ml k pos prev rest caps else NoMatch)"
| "run (Suc n) ic ml (NotAhead a # k) pos prev rest caps =
     (case run n ic ml [a] pos prev rest caps of
        NoMatch \<Rightarrow> run n ic ml k pos prev rest caps
      | OutOfFuel \<Rightarrow> OutOfFuel
      | Matched e cs \<Rightarrow> NoMatch)"

text \<open>
  The first match at or after a position: the start, the end and the captures.
  \<open>NotFound\<close> when the pattern matches nowhere.
\<close>

datatype found = Exhausted | NotFound | Found nat nat "(nat \<times> nat \<times> nat) list"

fun search_from :: "nat \<Rightarrow> bool \<Rightarrow> bool \<Rightarrow> re \<Rightarrow> nat \<Rightarrow> char option \<Rightarrow> string \<Rightarrow> found" where
  "search_from fuel ic ml r pos prev [] =
     (case run fuel ic ml [r] pos prev [] [] of
        Matched e cs \<Rightarrow> Found pos e cs | NoMatch \<Rightarrow> NotFound | OutOfFuel \<Rightarrow> Exhausted)"
| "search_from fuel ic ml r pos prev (x # rest) =
     (case run fuel ic ml [r] pos prev (x # rest) [] of
        Matched e cs \<Rightarrow> Found pos e cs
      | NoMatch \<Rightarrow> search_from fuel ic ml r (pos + 1) (Some x) rest
      | OutOfFuel \<Rightarrow> Exhausted)"

definition char_before :: "string \<Rightarrow> nat \<Rightarrow> char option" where
  "char_before s pos = (if pos = 0 then None else Some (s ! (pos - 1)))"

text \<open>\<open>regex.exec(s)\<close> from the index \<open>start\<close> (at most the length of \<open>s\<close>).\<close>

definition exec_from :: "nat \<Rightarrow> bool \<Rightarrow> bool \<Rightarrow> re \<Rightarrow> string \<Rightarrow> nat \<Rightarrow> found" where
  "exec_from fuel ic ml r s start = search_from fuel ic ml r start (char_before s start) (drop start s)"

text \<open>The text of a group of a match (empty when the group took no part); group 0 is the match.\<close>

fun capture :: "string \<Rightarrow> (nat \<times> nat \<times> nat) list \<Rightarrow> nat \<Rightarrow> string" where
  "capture s [] i = []"
| "capture s ((j, a, b) # cs) i = (if i = j then take (b - a) (drop a s) else capture s cs i)"

text \<open>
  \<open>s.replace(regex, replacement)\<close> for a pattern with the flag \<open>g\<close>: the matches are
  collected from left to right, the search going on behind each match (one further after
  an empty match), and each is replaced by what \<open>repl\<close> makes of its groups. \<open>budget\<close>
  bounds the number of matches; it is the length of the text plus one at the call.
\<close>

fun replace_loop :: "nat \<Rightarrow> bool \<Rightarrow> bool \<Rightarrow> re \<Rightarrow> ((nat \<Rightarrow> string) \<Rightarrow> string) \<Rightarrow> string
    \<Rightarrow> nat \<Rightarrow> nat \<Rightarrow> nat \<Rightarrow> string option" where
  "replace_loop fuel ic ml r repl s 0 lastIdx nextSrc = None"
| "replace_loop fuel ic ml r repl s (Suc budget) lastIdx nextSrc =
     (if lastIdx > length s then Some (drop nextSrc s)
      else (case exec_from fuel ic ml r s lastIdx of
              Exhausted \<Rightarrow> None
            | NotFound \<Rightarrow> Some (drop nextSrc s)
            | Found a e cs \<Rightarrow>
                (case replace_loop fuel ic ml r repl s budget (if e = a then e + 1 else e)
                        (if a \<ge> nextSrc then e else nextSrc) of
                   None \<Rightarrow> None
                 | Some t \<Rightarrow>
                     Some ((if a \<ge> nextSrc
                            then take (a - nextSrc) (drop nextSrc s) @ repl (capture s ((0, a, e) # cs))
                            else []) @ t))))"

definition replace_all :: "nat \<Rightarrow> bool \<Rightarrow> bool \<Rightarrow> re \<Rightarrow> ((nat \<Rightarrow> string) \<Rightarrow> string) \<Rightarrow> string
    \<Rightarrow> string option" where
  "replace_all fuel ic ml r repl s = replace_loop fuel ic ml r repl s (length s + 2) 0 0"

text \<open>\<open>s.replace(regex, replacement)\<close> for a pattern without the flag \<open>g\<close>: the first match only.\<close>

definition replace_first :: "nat \<Rightarrow> bool \<Rightarrow> bool \<Rightarrow> re \<Rightarrow> ((nat \<Rightarrow> string) \<Rightarrow> string) \<Rightarrow> string
    \<Rightarrow> string option" where
  "replace_first fuel ic ml r repl s =
     (case exec_from fuel ic ml r s 0 of
        Exhausted \<Rightarrow> None
      | NotFound \<Rightarrow> Some s
      | Found a e cs \<Rightarrow> Some (take a s @ repl (capture s ((0, a, e) # cs)) @ drop e s))"

text \<open>\<open>regex.test(s)\<close> for a pattern without the flags \<open>g\<close> and \<open>y\<close>.\<close>

definition re_test :: "nat \<Rightarrow> bool \<Rightarrow> bool \<Rightarrow> re \<Rightarrow> string \<Rightarrow> bool option" where
  "re_test fuel ic ml r s =
     (case exec_from fuel ic ml r s 0 of
        Exhausted \<Rightarrow> None | NotFound \<Rightarrow> Some False | Found a e cs \<Rightarrow> Some True)"

text \<open>A literal word, character by character, and an alternative of several patterns.\<close>

fun word :: "string \<Rightarrow> re" where
  "word [] = Eps"
| "word [c] = C (Lit c)"
| "word (c # cs) = Cat (C (Lit c)) (word cs)"

fun alts :: "re list \<Rightarrow> re" where
  "alts [] = Eps"
| "alts [r] = r"
| "alts (r # rs) = Alt r (alts rs)"

fun cats :: "re list \<Rightarrow> re" where
  "cats [] = Eps"
| "cats [r] = r"
| "cats (r # rs) = Cat r (cats rs)"

section \<open>The text normaliser (src/core/UnifiedTextParser.js)\<close>

text \<open>
  Every function that uses a pattern takes the step budget of the matcher and returns
  \<open>None\<close> when a match ran out of it; a result \<open>Some t\<close> is the text that the source
  computes. Texts are modelled over the code units up to U+00FF: the replacements of the
  en dash, the em dash and the ellipsis in \<open>normalizeEncoding\<close> and three of the bullet
  characters in \<open>fixWordImportIssues\<close> concern characters beyond and do not apply (the two
  replacements of quotes in \<open>normalizeEncoding\<close> replace a quote by itself).
\<close>

text \<open>\<open>s.split('\n')\<close> and \<open>lines.join('\n')\<close>.\<close>

fun split_lines_acc :: "string \<Rightarrow> string \<Rightarrow> string list" where
  "split_lines_acc cur [] = [rev cur]"
| "split_lines_acc cur (c # cs) =
     (if c = CHR 0x0A then rev cur # split_lines_acc [] cs else split_lines_acc (c # cur) cs)"

definition split_lines :: "string \<Rightarrow> string list" where
  "split_lines s = split_lines_acc [] s"

definition join_lines :: "string list \<Rightarrow> string" where
  "join_lines ls = join [CHR 0x0A] ls"

definition removeExtraWhitespace :: "string \<Rightarrow> string" where
  "removeExtraWhitespace t =
     join_lines (map (\<lambda>line. if trim line \<noteq> [] then takeWhile is_space line @ trim line else [])
                  (split_lines t))"

fun replace_crlf :: "string \<Rightarrow> string" where
  "replace_crlf (a # b # cs) =
     (if a = CHR 0x0D \<and> b = CHR 0x0A then CHR 0x0A # replace_crlf cs else a # replace_crlf (b # cs))"
| "replace_crlf cs = cs"

definition normalizeLineEndings :: "string \<Rightarrow> string" where
  "normalizeLineEndings t = replace_char (CHR 0x0D) [CHR 0x0A] (replace_crlf t)"

definition normalizeEncoding :: "string \<Rightarrow> string" where
  "normalizeEncoding t =
     replace_char (CHR 0xA0) '' ''
       (replace_char (CHR 0x27) [CHR 0x27] (replace_char (CHR 0x22) [CHR 0x22] t))"

abbreviation spaces :: re where "spaces \<equiv> Rep 0 True (C Space)"

definition then_opt :: "string option \<Rightarrow> (string \<Rightarrow> string option) \<Rightarrow> string option" where
  "then_opt x f = (case x of None \<Rightarrow> None | Some t \<Rightarrow> f t)"

text \<open>\<open>removeWordFormatting\<close>: \<open>\f\<close>, \<open>\s{3,}\<close>, \<open>\t\<close>, \<open>\v\<close>.\<close>

definition removeWordFormatting :: "nat \<Rightarrow> string \<Rightarrow> string option" where
  "removeWordFormatting fuel t =
     then_opt (replace_all fuel False False (Rep 3 True (C Space)) (\<lambda>g. ''  '')
                 (replace_char (CHR 0x0C) [] t))
       (\<lambda>t1. Some (replace_char (CHR 0x0B) [CHR 0x0A] (replace_char (CHR 0x09) ''  '' t1)))"

text \<open>
  \<open>fixWordImportIssues\<close>: \<open>/^\s*[...-]\s*/gm\<close> (a set of four bullet characters, of which the middle dot U+00B7 is within the modelled code units, and the hyphen), \<open>/^\s*\d+\.\s*/gm\<close>, \<open>/\s*:\s*/g\<close>,
  \<open>/\s*=\s*/g\<close>, \<open>/^\s*\+\s*/gm\<close>.
\<close>

definition fixWordImportIssues :: "nat \<Rightarrow> string \<Rightarrow> string option" where
  "fixWordImportIssues fuel t =
     then_opt (replace_all fuel False True
                 (cats [Bol, spaces, C (OneOf [Lit (CHR 0xB7), Lit CHR ''-'']), spaces]) (\<lambda>g. ''- '') t)
     (\<lambda>t1. then_opt (replace_all fuel False True
                 (cats [Bol, spaces, Rep 1 True (C Digit), C (Lit CHR ''.''), spaces]) (\<lambda>g. ''- '') t1)
     (\<lambda>t2. then_opt (replace_all fuel False False (cats [spaces, C (Lit CHR '':''), spaces]) (\<lambda>g. '': '') t2)
     (\<lambda>t3. then_opt (replace_all fuel False False (cats [spaces, C (Lit CHR ''=''), spaces]) (\<lambda>g. '' = '') t3)
     (\<lambda>t4. replace_all fuel False True (cats [Bol, spaces, C (Lit CHR ''+''), spaces]) (\<lambda>g. ''+ '') t4))))"

text \<open>
  The patterns of the loop of \<open>normalizeStepFormatting\<close>:
  \<open>/^(.+?)\s+(SCHRITT|STAP|STEP)\s*(\d+)\s*[:\(\.]?\s*(.*)$/i\<close> and
  \<open>/^(.+?)\s+(RUST|RUHE|IDLE)\s*[:\(\.]?\s*(.*)$/i\<close>.
\<close>

definition step_keywords :: re where
  "step_keywords = alts [word ''SCHRITT'', word ''STAP'', word ''STEP'']"

definition rest_keywords :: re where
  "rest_keywords = alts [word ''RUST'', word ''RUHE'', word ''IDLE'']"

definition embedded_step :: re where
  "embedded_step =
     cats [Bol, Grp 1 (Rep 1 False (C Dot)), Rep 1 True (C Space), Grp 2 step_keywords, spaces,
           Grp 3 (Rep 1 True (C Digit)), spaces,
           Opt (C (OneOf [Lit CHR '':'', Lit CHR ''('', Lit CHR ''.''])), spaces,
           Grp 4 (Rep 0 True (C Dot)), Eol]"

definition embedded_rest :: re where
  "embedded_rest =
     cats [Bol, Grp 1 (Rep 1 False (C Dot)), Rep 1 True (C Space), Grp 2 rest_keywords, spaces,
           Opt (C (OneOf [Lit CHR '':'', Lit CHR ''('', Lit CHR ''.''])), spaces,
           Grp 3 (Rep 0 True (C Dot)), Eol]"

text \<open>\<open>/\([^)]*$/\<close>, \<open>/\+\s*$/\<close>, \<open>/\)$/\<close> and \<open>/\([^)]*:[^)]*\)/\<close>.\<close>

definition open_parenthesis :: re where
  "open_parenthesis = cats [C (Lit CHR ''(''), Rep 0 True (C (NoneOf [Lit CHR '')''])), Eol]"

definition after_plus :: re where
  "after_plus = cats [C (Lit CHR ''+''), spaces, Eol]"

definition closing_parenthesis :: re where
  "closing_parenthesis = cats [C (Lit CHR '')''), Eol]"

definition program_reference :: re where
  "program_reference =
     cats [C (Lit CHR ''(''), Rep 0 True (C (NoneOf [Lit CHR '')''])), C (Lit CHR '':''),
           Rep 0 True (C (NoneOf [Lit CHR '')''])), C (Lit CHR '')'')]"

definition or_opt :: "bool option \<Rightarrow> bool option \<Rightarrow> bool option" where
  "or_opt a b = (case a of None \<Rightarrow> None | Some x \<Rightarrow> (case b of None \<Rightarrow> None | Some y \<Rightarrow> Some (x \<or> y)))"

text \<open>
  One round of the loop: the lines that a line contributes. A line with an embedded step
  keyword is split (unless the keyword stands in an open parenthesis or behind a plus
  sign), and the round ends (\<open>continue\<close>); only otherwise the line is tried for an
  embedded rest keyword.
\<close>

definition split_rest_line :: "nat \<Rightarrow> string \<Rightarrow> string list option" where
  "split_rest_line fuel line =
     (case exec_from fuel True False embedded_rest line 0 of
        Exhausted \<Rightarrow> None
      | NotFound \<Rightarrow> Some [line]
      | Found a e cs \<Rightarrow>
          if startsWith (trim line) ''RUST'' \<or> startsWith (trim line) ''RUHE''
             \<or> startsWith (trim line) ''IDLE''
          then Some [line]
          else (case or_opt (or_opt (re_test fuel False False open_parenthesis (trim (capture line cs 1)))
                                    (re_test fuel False False after_plus (trim (capture line cs 1))))
                            (or_opt (case re_test fuel False False closing_parenthesis (trim (capture line cs 1)) of
                                       None \<Rightarrow> None
                                     | Some b \<Rightarrow> Some (trim (capture line cs 3) = [] \<and> b))
                                    (re_test fuel False False program_reference (capture line cs 1))) of
                  None \<Rightarrow> None
                | Some True \<Rightarrow> Some [line]
                | Some False \<Rightarrow>
                    Some [trim (capture line cs 1),
                          map upper (capture line cs 2) @ '': '' @ capture line cs 3]))"

definition split_line :: "nat \<Rightarrow> string \<Rightarrow> string list option" where
  "split_line fuel line =
     (case exec_from fuel True False embedded_step line 0 of
        Exhausted \<Rightarrow> None
      | NotFound \<Rightarrow> split_rest_line fuel line
      | Found a e cs \<Rightarrow>
          if startsWith (trim line) ''SCHRITT'' \<or> startsWith (trim line) ''STAP''
             \<or> startsWith (trim line) ''STEP''
          then split_rest_line fuel line
          else (case or_opt (re_test fuel False False open_parenthesis (trim (capture line cs 1)))
                            (re_test fuel False False after_plus (trim (capture line cs 1))) of
                  None \<Rightarrow> None
                | Some True \<Rightarrow> Some [line]
                | Some False \<Rightarrow>
                    Some [trim (capture line cs 1),
                          map upper (capture line cs 2) @ '' '' @ capture line cs 3 @ '': ''
                          @ capture line cs 4]))"

fun split_all_lines :: "nat \<Rightarrow> string list \<Rightarrow> string list option" where
  "split_all_lines fuel [] = Some []"
| "split_all_lines fuel (l # ls) =
     (case split_line fuel l of
        None \<Rightarrow> None
      | Some xs \<Rightarrow> (case split_all_lines fuel ls of None \<Rightarrow> None | Some ys \<Rightarrow> Some (xs @ ys)))"

text \<open>
  The replacements after the loop: \<open>/^\s*(RUST|RUHE|IDLE)\s*[:\(\.]?\s*/gmi\<close>,
  \<open>/^\s*(SCHRITT|STAP|STEP)\s*[-.\(\s]*(\d+)\s*[:.\)]*\s*/gmi\<close>,
  \<open>/^\s*(SCHRITT|STAP|STEP)\s*[:.](?!\s*\d)/gmi\<close>,
  \<open>/^\s*(\+?\s*VON\s+(?:SCHRITT|STAP|STEP)\s+\d+)\s*$/gmi\<close>, \<open>/(\w)\s*:\s*/g\<close> and
  \<open>/ {2,}/g\<close>.
\<close>

definition two_spaces :: re where
  "two_spaces = Rep 2 True (C (Lit CHR '' ''))"

definition normalizeStepFormatting :: "nat \<Rightarrow> string \<Rightarrow> string option" where
  "normalizeStepFormatting fuel t =
     (case split_all_lines fuel (split_lines t) of
        None \<Rightarrow> None
      | Some normalizedLines \<Rightarrow>
     then_opt (replace_all fuel True True
                 (cats [Bol, spaces, Grp 1 rest_keywords, spaces,
                        Opt (C (OneOf [Lit CHR '':'', Lit CHR ''('', Lit CHR ''.''])), spaces])
                 (\<lambda>g. map upper (g 1) @ '': '') (join_lines normalizedLines))
     (\<lambda>t1. then_opt (replace_all fuel True True
                 (cats [Bol, spaces, Grp 1 step_keywords, spaces,
                        Rep 0 True (C (OneOf [Lit CHR ''-'', Lit CHR ''.'', Lit CHR ''('', Space])),
                        Grp 2 (Rep 1 True (C Digit)), spaces,
                        Rep 0 True (C (OneOf [Lit CHR '':'', Lit CHR ''.'', Lit CHR '')''])), spaces])
                 (\<lambda>g. map upper (g 1) @ '' '' @ g 2 @ '': '') t1)
     (\<lambda>t2. then_opt (replace_all fuel True True
                 (cats [Bol, spaces, Grp 1 step_keywords, spaces, C (OneOf [Lit CHR '':'', Lit CHR ''.'']),
                        NotAhead (Cat spaces (C Digit))])
                 (\<lambda>g. map upper (g 1) @ '' 1: '') t2)
     (\<lambda>t3. then_opt (replace_all fuel True True
                 (cats [Bol, spaces,
                        Grp 1 (cats [Opt (C (Lit CHR ''+'')), spaces, word ''VON'', Rep 1 True (C Space),
                                     step_keywords, Rep 1 True (C Space), Rep 1 True (C Digit)]),
                        spaces, Eol])
                 (\<lambda>g. map upper (g 1)) t3)
     (\<lambda>t4. then_opt (replace_all fuel False False
                 (cats [Grp 1 (C Word), spaces, C (Lit CHR '':''), spaces]) (\<lambda>g. g 1 @ '': '') t4)
     (\<lambda>t5. replace_all fuel False False two_spaces (\<lambda>g. '' '') t5))))))"

definition normalizeWordImport :: "nat \<Rightarrow> string \<Rightarrow> string option" where
  "normalizeWordImport fuel t =
     then_opt (removeWordFormatting fuel t)
       (\<lambda>t1. then_opt (fixWordImportIssues fuel t1) (normalizeStepFormatting fuel))"

definition fixManualInputIssues :: "nat \<Rightarrow> string \<Rightarrow> string option" where
  "fixManualInputIssues fuel t =
     replace_all fuel False False two_spaces (\<lambda>g. '' '')
       (join_lines (map trim (split_lines
          (replace_char CHR ''='' '' = '' (replace_char CHR '':'' '': '' t)))))"

definition normalizeManualInput :: "nat \<Rightarrow> string \<Rightarrow> string option" where
  "normalizeManualInput fuel t = then_opt (fixManualInputIssues fuel t) (normalizeStepFormatting fuel)"

text \<open>
  \<open>applyConsistencyRules\<close>: \<open>/^\s*([a-zA-Z][a-zA-Z0-9_]*)\s*=\s*$/gm\<close>,
  \<open>/^\s*(STORING|MELDING)\s*:\s*([^=]+)\s*=\s*$/gm\<close>, \<open>/^\s*(TIJD|TIME|ZEIT)\s*=\s*([^=]+)$/gm\<close>,
  \<open>/^\s*-\s*/gm\<close>, \<open>/^\s*\+\s*/gm\<close>, \<open>/^\n+/\<close> and \<open>/\n+$/\<close>.
\<close>

definition letter :: cls where
  "letter = OneOf [Between CHR ''a'' CHR ''z'', Between CHR ''A'' CHR ''Z'']"

definition applyConsistencyRules :: "nat \<Rightarrow> string \<Rightarrow> string option" where
  "applyConsistencyRules fuel t =
     then_opt (replace_all fuel False True
                 (cats [Bol, spaces,
                        Grp 1 (Cat (C letter)
                                 (Rep 0 True (C (OneOf [letter, Between CHR ''0'' CHR ''9'', Lit CHR ''_''])))),
                        spaces, C (Lit CHR ''=''), spaces, Eol])
                 (\<lambda>g. g 1 @ '' = '') t)
     (\<lambda>t1. then_opt (replace_all fuel False True
                 (cats [Bol, spaces, Grp 1 (alts [word ''STORING'', word ''MELDING'']), spaces,
                        C (Lit CHR '':''), spaces, Grp 2 (Rep 1 True (C (NoneOf [Lit CHR ''='']))), spaces,
                        C (Lit CHR ''=''), spaces, Eol])
                 (\<lambda>g. g 1 @ '': '' @ g 2 @ '' = '') t1)
     (\<lambda>t2. then_opt (replace_all fuel False True
                 (cats [Bol, spaces, Grp 1 (alts [word ''TIJD'', word ''TIME'', word ''ZEIT'']), spaces,
                        C (Lit CHR ''=''), spaces, Grp 2 (Rep 1 True (C (NoneOf [Lit CHR ''='']))), Eol])
                 (\<lambda>g. g 1 @ '' = '' @ g 2) t2)
     (\<lambda>t3. then_opt (replace_all fuel False True (cats [Bol, spaces, C (Lit CHR ''-''), spaces]) (\<lambda>g. ''- '') t3)
     (\<lambda>t4. then_opt (replace_all fuel False True (cats [Bol, spaces, C (Lit CHR ''+''), spaces]) (\<lambda>g. ''+ '') t4)
     (\<lambda>t5. then_opt (replace_first fuel False False (cats [Bol, Rep 1 True (C (Lit (CHR 0x0A)))]) (\<lambda>g. []) t5)
     (\<lambda>t6. replace_first fuel False False (cats [Rep 1 True (C (Lit (CHR 0x0A))), Eol]) (\<lambda>g. []) t6))))))"

definition normalizeText :: "nat \<Rightarrow> string \<Rightarrow> string \<Rightarrow> string option" where
  "normalizeText fuel t source =
     then_opt (if source = ''word''
               then normalizeWordImport fuel (normalizeEncoding (normalizeLineEndings (removeExtraWhitespace t)))
               else if source = ''manual''
               then normalizeManualInput fuel (normalizeEncoding (normalizeLineEndings (removeExtraWhitespace t)))
               else Some (normalizeEncoding (normalizeLineEndings (removeExtraWhitespace t))))
       (applyConsistencyRules fuel)"

section \<open>Properties of the XML serialiser\<close>

lemma replace_char_append:
  "replace_char c r (s @ t) = replace_char c r s @ replace_char c r t"
  by (simp add: replace_char_def)

lemma replace_char_Nil: "replace_char c r [] = []"
  by (simp add: replace_char_def)

lemma escapeXml_append: "escapeXml (s @ t) = escapeXml s @ escapeXml t"
  by (simp add: escapeXml_def replace_char_append)

lemma escapeXml_single: "escapeXml [c] = spec_escape_char c"
  by (simp add: escapeXml_def replace_char_def spec_escape_char_def)

lemma escapeXml_chars: "escapeXml t = concat (map spec_escape_char t)"
proof (induction t)
  case Nil
  show ?case by (simp add: escapeXml_def replace_char_def)
next
  case (Cons c t)
  have "escapeXml (c # t) = escapeXml ([c] @ t)" by simp
  also have "\<dots> = spec_escape_char c @ escapeXml t"
    by (simp only: escapeXml_append escapeXml_single)
  finally show ?case using Cons by simp
qed

lemma join_nonempty: "f x \<noteq> [] \<Longrightarrow> join sep (map f (x # xs)) \<noteq> []"
  by (cases xs) simp_all

lemma join_spaced:
  assumes "\<And>x. f x \<noteq> []"
  shows "(if join '' '' (map f xs) \<noteq> [] then '' '' @ join '' '' (map f xs) else [])
         = concat (map (\<lambda>x. '' '' @ f x) xs)"
proof (induction xs)
  case Nil
  show ?case by simp
next
  case (Cons x xs)
  show ?case
  proof (cases xs)
    case Nil
    then show ?thesis using assms by simp
  next
    case (Cons y ys)
    have "join '' '' (map f (y # ys)) \<noteq> []" using assms by (rule join_nonempty)
    then show ?thesis using Cons.IH assms unfolding Cons by simp
  qed
qed

lemma open_tag_attributes:
  "(if join '' '' (map render_attribute as) \<noteq> [] then '' '' @ join '' '' (map render_attribute as) else [])
   = concat (map (\<lambda>kv. '' '' @ fst kv @ [CHR ''='', CHR 0x22]
                          @ concat (map spec_escape_char (String_of (snd kv))) @ [CHR 0x22]) as)"
proof -
  have "\<And>kv. render_attribute kv \<noteq> []" by (simp add: render_attribute_def)
  then have "(if join '' '' (map render_attribute as) \<noteq> [] then '' '' @ join '' '' (map render_attribute as) else [])
     = concat (map (\<lambda>kv. '' '' @ render_attribute kv) as)"
    by (rule join_spaced)
  then show ?thesis by (simp add: render_attribute_def escapeXml_chars)
qed

text \<open>
  C7. For every element tree: the serialiser writes the indentation, the name, then every
  attribute as a space, its key and its value between double quotes, where the value is
  escaped character by character: each of the five characters \<open>& < > " '\<close> becomes its
  entity and every other character stays. An element without children is closed at
  once; a single text child is written escaped in the same way on the line of the tag
  (in both modes); otherwise every child is written in turn: a text leaf escaped, a raw
  fragment as it is, an element by the same rules one level deeper. These equations fix
  the output for every tree, so no attribute value and no text leaf anywhere in a tree
  is written unescaped, and no raw fragment is changed.
\<close>

theorem xml_serialiser_escaping:
  "toString pretty level (XmlElement n as cs) =
     indent_of pretty level @ ''<'' @ n
     @ concat (map (\<lambda>kv. '' '' @ fst kv @ [CHR ''='', CHR 0x22]
                            @ concat (map spec_escape_char (String_of (snd kv))) @ [CHR 0x22]) as)
     @ (case cs of
          [] \<Rightarrow> '' />''
        | [Text t] \<Rightarrow> ''>'' @ concat (map spec_escape_char t) @ ''</'' @ n @ ''>''
        | _ \<Rightarrow> ''>'' @ (if pretty then [CHR 0x0A] else [])
               @ join (if pretty then [CHR 0x0A] else []) (map (child_toString pretty level) cs)
               @ (if pretty then [CHR 0x0A] @ indent_of pretty level else []) @ ''</'' @ n @ ''>'')
   \<and> child_toString pretty level (Text t) =
       (if pretty then indent_of pretty level @ ''  '' else []) @ concat (map spec_escape_char t)
   \<and> child_toString pretty level (Raw r) = r
   \<and> child_toString pretty level (Element e) = toString pretty (level + 1) e"
proof -
  have "toString pretty level (XmlElement n as cs) =
     indent_of pretty level @ ''<'' @ n
     @ (if join '' '' (map render_attribute as) \<noteq> [] then '' '' @ join '' '' (map render_attribute as) else [])
     @ (case cs of
          [] \<Rightarrow> '' />''
        | [Text t] \<Rightarrow> ''>'' @ concat (map spec_escape_char t) @ ''</'' @ n @ ''>''
        | _ \<Rightarrow> ''>'' @ (if pretty then [CHR 0x0A] else [])
               @ join (if pretty then [CHR 0x0A] else []) (map (child_toString pretty level) cs)
               @ (if pretty then [CHR 0x0A] @ indent_of pretty level else []) @ ''</'' @ n @ ''>'')"
    by (simp add: Let_def isSimpleText_def escapeXml_chars split: list.splits child.splits)
  then show ?thesis unfolding open_tag_attributes by (simp add: escapeXml_chars)
qed

section \<open>Properties of the generator\<close>

subsection \<open>Failure without steps\<close>

lemma declaration_is_no_comment: "xml_declaration @ body \<noteq> noStepsComment"
  by (simp add: xml_declaration_def noStepsComment_def)

lemma Document_toXml_declaration:
  "take (length xml_declaration) (Document_toXml pretty level d) = xml_declaration"
  by (simp add: Document_toXml_def Let_def)

lemma Document_toXml_no_comment: "Document_toXml pretty level d \<noteq> noStepsComment"
  by (simp add: Document_toXml_def Let_def declaration_is_no_comment)

text \<open>
  C3. The generator fails exactly when there is no step: without a \<open>ParseResult\<close>,
  without a list of steps or with an empty list it returns the comment that reports the
  failure; with at least one step it returns the serialised document, which starts with
  the XML declaration and is not that comment. Every operation on the way is total
  (\<open>addPart\<close> is only called with the three part names that have a definition), so the
  generation of a document does not abort.
\<close>

theorem generate_fails_exactly_without_steps:
  "(generateTIAPortalXML pr = noStepsComment)
     = (pr = None \<or> (\<exists>r. pr = Some r \<and> (steps r = None \<or> steps r = Some [])))
   \<and> (steps r = Some ss \<and> ss \<noteq> [] \<longrightarrow>
        generateTIAPortalXML (Some r) = Document_toXml True 0 (build_document (functionBlock r) ss)
        \<and> take (length xml_declaration) (generateTIAPortalXML (Some r)) = xml_declaration
        \<and> generateTIAPortalXML (Some r) \<noteq> noStepsComment)"
  by (auto simp: generateTIAPortalXML_def Document_toXml_no_comment Document_toXml_declaration
           split: option.splits)

theorem generate_fails_exactly_without_steps_witness:
  "steps \<lparr>functionBlock = None,
          steps = Some [\<lparr>st_number = 0, st_type = RUST, st_description = None\<rparr>]\<rparr>
     = Some [\<lparr>st_number = 0, st_type = RUST, st_description = None\<rparr>]
   \<and> [\<lparr>st_number = 0, st_type = RUST, st_description = None\<rparr>] \<noteq> []
   \<and> generateTIAPortalXML (Some \<lparr>functionBlock = None,
          steps = Some [\<lparr>st_number = 0, st_type = RUST, st_description = None\<rparr>]\<rparr>)
       \<noteq> noStepsComment
   \<and> generateTIAPortalXML None = noStepsComment
   \<and> generateTIAPortalXML (Some \<lparr>functionBlock = None, steps = Some []\<rparr>) = noStepsComment"
  using generate_fails_exactly_without_steps
          [of "Some \<lparr>functionBlock = None,
                 steps = Some [\<lparr>st_number = 0, st_type = RUST, st_description = None\<rparr>]\<rparr>"
              "\<lparr>functionBlock = None,
                 steps = Some [\<lparr>st_number = 0, st_type = RUST, st_description = None\<rparr>]\<rparr>"
              "[\<lparr>st_number = 0, st_type = RUST, st_description = None\<rparr>]"]
        generate_fails_exactly_without_steps [of None]
        generate_fails_exactly_without_steps [of "Some \<lparr>functionBlock = None, steps = Some []\<rparr>"]
  by (simp add: Document_toXml_no_comment)

subsection \<open>Cardinality of the AND gates\<close>

lemma fold_input_counts:
  "fold count_wire ws m i
   = (case m i of
        None \<Rightarrow> (if length (filter (\<lambda>w. fst (w_to w) = i) ws) = 0 then None
                  else Some (length (filter (\<lambda>w. fst (w_to w) = i) ws)))
      | Some c \<Rightarrow> Some (c + length (filter (\<lambda>w. fst (w_to w) = i) ws)))"
proof (induction ws arbitrary: m)
  case Nil
  show ?case by (simp split: option.splits)
next
  case (Cons w ws)
  have step: "count_wire w m i
      = (if fst (w_to w) = i then Some ((case m i of None \<Rightarrow> 0 | Some c \<Rightarrow> c) + 1) else m i)"
    by (auto simp: count_wire_def)
  show ?case by (simp add: Cons.IH step split: option.splits)
qed

lemma partInputCounts_get:
  "(case partInputCounts (n_wires net) i of None \<Rightarrow> 0 | Some c \<Rightarrow> c) = wires_into net i"
  by (simp add: partInputCounts_def fold_input_counts wires_into_def)

lemma fold_addRaw:
  "fold (\<lambda>x e. addRaw (f x) e) xs e0
   = XmlElement (xname e0) (xattributes e0) (xchildren e0 @ map (\<lambda>x. Raw (f x)) xs)"
  by (induction xs arbitrary: e0) (simp_all add: addRaw_def)

lemma fold_add:
  "fold (\<lambda>x e. add (Element (f x)) e) xs e0
   = XmlElement (xname e0) (xattributes e0) (xchildren e0 @ map (\<lambda>x. Element (f x)) xs)"
  by (induction xs arbitrary: e0) (simp_all add: add_def)

lemma Part_element_gate:
  assumes "p_name p = A"
  shows "Part_element (p\<lparr>cardinality := Some c\<rparr>) = gate_element p c"
proof -
  have neg: "\<And>port. attr ''Name'' (Some (AStr port)) (new_element ''Negated'') = negated_element port"
    by (simp add: attr_def new_element_def negated_element_def)
  show ?thesis
    using assms
    by (simp add: Part_element_def Let_def neg fold_add)
       (simp add: attr_def new_element_def add_def gate_element_def cardinality_element_def
          part_name_string_def)
qed

lemma written_resolved:
  "net_part_toXml pretty level (assign_cardinality (partInputCounts (n_wires net)) x)
   = written_part pretty level net x"
  by (cases x)
     (simp_all add: net_part_toXml_def assign_cardinality_def written_part_def partInputCounts_get
        Part_toXml_def Part_element_gate)

lemma stored_resolved:
  "assign_cardinality (partInputCounts (n_wires net)) x = stored_part net x"
  by (cases x) (simp_all add: assign_cardinality_def stored_part_def partInputCounts_get)

lemma Network_toXml_text:
  "fst (Network_toXml pretty level net)
   = toString pretty level
       (XmlElement ''SW.Blocks.CompileUnit''
          [(''ID'', ANum (int (n_id net))), (''CompositionName'', AStr ''CompileUnits'')]
          [Element (XmlElement ''AttributeList'' []
             [Element (XmlElement ''NetworkSource'' []
                [Element (XmlElement ''FlgNet''
                   [(''xmlns'', AStr ''http://www.siemens.com/automation/Openness/SW/NetworkSource/FlgNet/v4'')]
                   [Element (XmlElement ''Parts'' []
                      (map (\<lambda>x. Raw (written_part pretty (level + 5) net x)) (n_parts net))),
                    Element (XmlElement ''Wires'' []
                      (map (\<lambda>w. Raw (Wire_toXml pretty (level + 5) w)) (n_wires net)))])]),
              Element (XmlElement ''ProgrammingLanguage'' [] [Text ''FBD''])]),
           Element (XmlElement ''ObjectList'' []
             [Raw (fst (MultilingualText_toXml pretty (level + 3) (n_comment net) (n_uid net))),
              Raw (fst (MultilingualText_toXml pretty (level + 3) (n_title net)
                          (snd (MultilingualText_toXml pretty (level + 3) (n_comment net) (n_uid net)))))])])"
  by (simp add: Network_toXml_def Let_def case_prod_beta fold_addRaw resolve_cardinalities_def
        written_resolved comp_def del: toString.simps)
     (simp add: new_element_def new_text_element_def add_def addRaw_def attr_def del: toString.simps)

lemma Network_toXml_parts:
  "n_parts (snd (Network_toXml pretty level net)) = map (stored_part net) (n_parts net)"
  by (simp add: Network_toXml_def Let_def case_prod_beta resolve_cardinalities_def stored_resolved)

text \<open>
  C2, as amended. For every network, and so for every network of a generated document:
  when the network is serialised (after all its wires are built), the text of the
  network holds, in the order of the parts, for every AND gate (part \<open>A\<close>) the gate
  written with the number of wires whose target is the gate's identifier: that number
  is the value of its \<open>TemplateValue\<close> when it is at least 1, and no such value is
  written when no wire ends at the gate. The same number is stored as the cardinality of
  the gate; every other part and every wire is written as it is.
\<close>

theorem and_gate_cardinality_is_incoming_wires:
  "fst (Network_toXml pretty level net)
   = toString pretty level
       (XmlElement ''SW.Blocks.CompileUnit''
          [(''ID'', ANum (int (n_id net))), (''CompositionName'', AStr ''CompileUnits'')]
          [Element (XmlElement ''AttributeList'' []
             [Element (XmlElement ''NetworkSource'' []
                [Element (XmlElement ''FlgNet''
                   [(''xmlns'', AStr ''http://www.siemens.com/automation/Openness/SW/NetworkSource/FlgNet/v4'')]
                   [Element (XmlElement ''Parts'' []
                      (map (\<lambda>x. Raw (written_part pretty (level + 5) net x)) (n_parts net))),
                    Element (XmlElement ''Wires'' []
                      (map (\<lambda>w. Raw (Wire_toXml pretty (level + 5) w)) (n_wires net)))])]),
              Element (XmlElement ''ProgrammingLanguage'' [] [Text ''FBD''])]),
           Element (XmlElement ''ObjectList'' []
             [Raw (fst (MultilingualText_toXml pretty (level + 3) (n_comment net) (n_uid net))),
              Raw (fst (MultilingualText_toXml pretty (level + 3) (n_title net)
                          (snd (MultilingualText_toXml pretty (level + 3) (n_comment net) (n_uid net)))))])])
   \<and> n_parts (snd (Network_toXml pretty level net)) = map (stored_part net) (n_parts net)
   \<and> written_part pretty level net (PPart (p\<lparr>p_name := A\<rparr>))
       = toString pretty level
           (XmlElement ''Part'' [(''Name'', AStr ''A''), (''UId'', ANum (int (p_id p)))]
              ((if 0 < wires_into net (p_id p)
                then [Element (XmlElement ''TemplateValue''
                                 [(''Name'', AStr ''Card''), (''Type'', AStr ''Cardinality'')]
                                 [Text (decimal (wires_into net (p_id p)))])]
                else [])
               @ map (\<lambda>port. Element (XmlElement ''Negated'' [(''Name'', AStr port)] []))
                   (negatedInputs p)))"
proof -
  have "written_part pretty level net (PPart (p\<lparr>p_name := A\<rparr>))
        = toString pretty level (gate_element (p\<lparr>p_name := A\<rparr>) (wires_into net (p_id p)))"
    by (simp add: written_part_def)
  then show ?thesis
    unfolding Network_toXml_text Network_toXml_parts
    by (simp add: gate_element_def cardinality_element_def negated_element_def del: toString.simps)
qed

subsection \<open>The construction of the networks, step by step\<close>

lemma addAccess_eq:
  "addAccess v idx net =
     (\<lparr>a_id = n_uid net, a_variable = v, a_index = Some idx, isLiteralBool = False, literalValue = False\<rparr>,
      net\<lparr>n_uid := n_uid net + 1,
          n_parts := n_parts net @ [PAccess \<lparr>a_id = n_uid net, a_variable = v, a_index = Some idx,
                                           isLiteralBool = False, literalValue = False\<rparr>]\<rparr>)"
  by (simp add: addAccess_def new_Access_def next_uid_def)

lemma addLiteralBool_eq:
  "addLiteralBool b net =
     (\<lparr>a_id = n_uid net, a_variable = [], a_index = None, isLiteralBool = True, literalValue = b\<rparr>,
      net\<lparr>n_uid := n_uid net + 1,
          n_parts := n_parts net @ [PAccess \<lparr>a_id = n_uid net, a_variable = [], a_index = None,
                                           isLiteralBool = True, literalValue = b\<rparr>]\<rparr>)"
  by (simp add: addLiteralBool_def new_Access_def next_uid_def)

lemma addPart_eq:
  "addPart nm net =
     (\<lparr>p_id = n_uid net, p_name = nm, p_inputs = fst (partDefinitions nm),
       p_outputs = snd (partDefinitions nm), cardinality = None, negatedInputs = []\<rparr>,
      net\<lparr>n_uid := n_uid net + 1,
          n_parts := n_parts net @ [PPart \<lparr>p_id = n_uid net, p_name = nm, p_inputs = fst (partDefinitions nm),
       p_outputs = snd (partDefinitions nm), cardinality = None, negatedInputs = []\<rparr>]\<rparr>)"
  by (simp add: addPart_def new_Part_def next_uid_def)

lemma connect_eq:
  "connect f fp t tp neg net =
     net\<lparr>n_uid := n_uid net + 1,
         n_wires := n_wires net @ [\<lparr>w_id = n_uid net, w_from = (f, fp), w_to = (t, tp)\<rparr>],
         n_parts := (if neg then negate_in_parts t tp (n_parts net) else n_parts net)\<rparr>"
  by (simp add: connect_def new_Wire_def next_uid_def)

lemma addAccesses_closed:
  "addAccesses ts net =
     (stap_accesses (n_uid net) ts,
      net\<lparr>n_uid := n_uid net + length ts,
          n_parts := n_parts net @ map PAccess (stap_accesses (n_uid net) ts)\<rparr>)"
  by (induction ts arbitrary: net) (simp_all add: addAccess_eq)

lemma negate_in_parts_gate:
  "negate_in_parts (p_id g) port (map PAccess accs @ [PPart g])
   = map PAccess accs @ [PPart (negateInput port g)]"
  by (simp add: negate_in_parts_def)

lemma negateInput_id [simp]: "p_id (negateInput port p) = p_id p"
  by (simp add: negateInput_def)

lemma connectNegated_closed:
  "n_parts net = map PAccess accs @ [PPart g] \<Longrightarrow>
   connectNegated as idx (p_id g) net =
     net\<lparr>n_uid := n_uid net + length as,
         n_wires := n_wires net @ negated_wires (n_uid net) idx (p_id g) as,
         n_parts := map PAccess accs @ [PPart (negate_ports idx (length as) g)]\<rparr>"
proof (induction as arbitrary: idx net g)
  case Nil
  then show ?case by simp
next
  case (Cons a as)
  let ?net' = "connect (a_id a) None (p_id g) (''in'' @ decimal (idx + 1)) True net"
  have parts': "n_parts ?net' = map PAccess accs @ [PPart (negateInput (''in'' @ decimal (idx + 1)) g)]"
    by (simp add: connect_eq Cons.prems negate_in_parts_gate)
  have "connectNegated (a # as) idx (p_id g) net
        = connectNegated as (idx + 1) (p_id (negateInput (''in'' @ decimal (idx + 1)) g)) ?net'"
    by simp
  also have "\<dots> = ?net'\<lparr>n_uid := n_uid ?net' + length as,
         n_wires := n_wires ?net' @ negated_wires (n_uid ?net') (idx + 1) (p_id (negateInput (''in'' @ decimal (idx + 1)) g)) as,
         n_parts := map PAccess accs @ [PPart (negate_ports (idx + 1) (length as) (negateInput (''in'' @ decimal (idx + 1)) g))]\<rparr>"
    by (rule Cons.IH [OF parts'])
  also have "\<dots> = net\<lparr>n_uid := n_uid net + length (a # as),
         n_wires := n_wires net @ negated_wires (n_uid net) idx (p_id g) (a # as),
         n_parts := map PAccess accs @ [PPart (negate_ports idx (length (a # as)) g)]\<rparr>"
    by (simp add: connect_eq)
  finally show ?case .
qed

lemma find_filter: "find P xs = (case filter P xs of [] \<Rightarrow> None | x # _ \<Rightarrow> Some x)"
  by (induction xs) simp_all

lemma negate_ports_id [simp]: "p_id (negate_ports idx n p) = p_id p"
  by (induction n arbitrary: idx p) simp_all

lemma negateInput_name [simp]: "p_name (negateInput port p) = p_name p"
  by (simp add: negateInput_def)

lemma negateInput_inputs [simp]: "p_inputs (negateInput port p) = p_inputs p"
  by (simp add: negateInput_def)

lemma negate_ports_name [simp]: "p_name (negate_ports idx n p) = p_name p"
  by (induction n arbitrary: idx p) simp_all

lemma negate_ports_inputs [simp]: "p_inputs (negate_ports idx n p) = p_inputs p"
  by (induction n arbitrary: idx p) simp_all

lemma negateInput_keeps: "x \<in> set (negatedInputs p) \<Longrightarrow> x \<in> set (negatedInputs (negateInput port p))"
  by (simp add: negateInput_def)

lemma negateInput_adds: "port \<in> set (p_inputs p) \<Longrightarrow> port \<in> set (negatedInputs (negateInput port p))"
  by (simp add: negateInput_def)

lemma negate_ports_keeps:
  "x \<in> set (negatedInputs p) \<Longrightarrow> x \<in> set (negatedInputs (negate_ports idx n p))"
  by (induction n arbitrary: idx p) (simp_all add: negateInput_keeps)

lemma gate_port: "j < 30 \<Longrightarrow> ''in'' @ decimal (Suc j) \<in> set (fst (partDefinitions A))"
  by (simp add: partDefinitions_def)

lemma negate_ports_negates:
  "k < n \<Longrightarrow> idx + k < 30 \<Longrightarrow> p_inputs p = fst (partDefinitions A) \<Longrightarrow>
   ''in'' @ decimal (idx + k + 1) \<in> set (negatedInputs (negate_ports idx n p))"
proof (induction n arbitrary: idx k p)
  case 0
  then show ?case by simp
next
  case (Suc n)
  show ?case
  proof (cases k)
    case 0
    have "''in'' @ decimal (idx + 1) \<in> set (negatedInputs (negateInput (''in'' @ decimal (idx + 1)) p))"
      using Suc.prems 0 gate_port [of idx] by (intro negateInput_adds) simp
    then show ?thesis using 0 by (simp add: negate_ports_keeps)
  next
    case (Suc j)
    have "''in'' @ decimal ((idx + 1) + j + 1)
          \<in> set (negatedInputs (negate_ports (idx + 1) n (negateInput (''in'' @ decimal (idx + 1)) p)))"
      using Suc.prems Suc by (intro Suc.IH) simp_all
    then show ?thesis using Suc by simp
  qed
qed

lemma stap_accesses_length [simp]: "length (stap_accesses u ts) = length ts"
  by (induction ts arbitrary: u) simp_all

lemma stap_accesses_nth:
  "k < length ts \<Longrightarrow>
   stap_accesses u ts ! k = \<lparr>a_id = u + k, a_variable = ''Stap'', a_index = Some (st_number (ts ! k)),
                             isLiteralBool = False, literalValue = False\<rparr>"
proof (induction ts arbitrary: u k)
  case Nil
  then show ?case by simp
next
  case (Cons s ts)
  then show ?case by (cases k) simp_all
qed

lemma negated_wires_length [simp]: "length (negated_wires u idx gate as) = length as"
  by (induction as arbitrary: u idx) simp_all

lemma negated_wires_nth:
  "k < length as \<Longrightarrow>
   negated_wires u idx gate as ! k
   = \<lparr>w_id = u + k, w_from = (a_id (as ! k), None), w_to = (gate, ''in'' @ decimal (idx + k + 1))\<rparr>"
proof (induction as arbitrary: u idx k)
  case Nil
  then show ?case by simp
next
  case (Cons a as)
  then show ?case by (cases k) simp_all
qed

lemma negated_wires_target:
  "filter (\<lambda>w. fst (w_to w) = gate) (negated_wires u idx gate as) = negated_wires u idx gate as"
  by (induction as arbitrary: u idx) simp_all

lemma no_parts_among_accesses [simp]: "concat (map part_of (map PAccess accs)) = []"
  by (induction accs) simp_all

lemma build_rust_network_closed:
  assumes "filter is_stap ss = t # ts" and "n_parts net = []"
  shows "n_parts (build_rust_network ss net)
         = map PAccess (stap_accesses (n_uid net) (t # ts))
           @ [PPart (negate_ports 0 (length (t # ts))
                      \<lparr>p_id = n_uid net + length (t # ts), p_name = A, p_inputs = fst (partDefinitions A),
                       p_outputs = snd (partDefinitions A), cardinality = None, negatedInputs = []\<rparr>),
              PPart \<lparr>p_id = n_uid net + 2 * length (t # ts) + 1, p_name = Sr,
                     p_inputs = fst (partDefinitions Sr), p_outputs = snd (partDefinitions Sr),
                     cardinality = None, negatedInputs = []\<rparr>,
              PAccess \<lparr>a_id = n_uid net + 2 * length (t # ts) + 2, a_variable = ''Stap'',
                       a_index = Some (st_number t), isLiteralBool = False, literalValue = False\<rparr>,
              PAccess \<lparr>a_id = n_uid net + 2 * length (t # ts) + 5, a_variable = ''Stap'',
                       a_index = Some 0, isLiteralBool = False, literalValue = False\<rparr>]"
    and "n_wires (build_rust_network ss net)
         = n_wires net
           @ negated_wires (n_uid net + length (t # ts) + 1) 0 (n_uid net + length (t # ts))
               (stap_accesses (n_uid net) (t # ts))
           @ [\<lparr>w_id = n_uid net + 2 * length (t # ts) + 3,
               w_from = (n_uid net + 2 * length (t # ts) + 2, None),
               w_to = (n_uid net + 2 * length (t # ts) + 1, ''r1'')\<rparr>,
              \<lparr>w_id = n_uid net + 2 * length (t # ts) + 4,
               w_from = (n_uid net + length (t # ts), Some ''out''),
               w_to = (n_uid net + 2 * length (t # ts) + 1, ''s'')\<rparr>,
              \<lparr>w_id = n_uid net + 2 * length (t # ts) + 6,
               w_from = (n_uid net + 2 * length (t # ts) + 5, None),
               w_to = (n_uid net + 2 * length (t # ts) + 1, ''operand'')\<rparr>]"
    and "n_uid (build_rust_network ss net) = n_uid net + 2 * length (t # ts) + 7"
    and "n_id (build_rust_network ss net) = n_id net"
    and "n_title (build_rust_network ss net) = n_title net"
    and "n_comment (build_rust_network ss net) = n_comment net"
proof -
  let ?g0 = "\<lparr>p_id = n_uid net + length (t # ts), p_name = A, p_inputs = fst (partDefinitions A),
              p_outputs = snd (partDefinitions A), cardinality = None, negatedInputs = []\<rparr>"
  let ?accs = "stap_accesses (n_uid net) (t # ts)"
  let ?n2 = "net\<lparr>n_uid := n_uid net + length (t # ts) + 1,
                  n_parts := map PAccess ?accs @ [PPart ?g0]\<rparr>"
  have first: "find is_stap ss = Some t"
    using assms(1) by (simp add: find_filter)
  have n2: "n_parts ?n2 = map PAccess ?accs @ [PPart ?g0]" by simp
  have cn: "connectNegated ?accs 0 (n_uid net + length (t # ts)) ?n2
            = ?n2\<lparr>n_uid := n_uid ?n2 + length ?accs,
                   n_wires := n_wires ?n2 @ negated_wires (n_uid ?n2) 0 (p_id ?g0) ?accs,
                   n_parts := map PAccess ?accs @ [PPart (negate_ports 0 (length ?accs) ?g0)]\<rparr>"
    using connectNegated_closed [OF n2, of ?accs 0] by simp
  have unfold: "build_rust_network ss net
     = (let (srRust, n4) = addPart Sr (connectNegated ?accs 0 (n_uid net + length (t # ts)) ?n2);
            n5 = (let (step1Access, m) = addAccess ''Stap'' (st_number t) n4
                  in connect (a_id step1Access) None (p_id srRust) ''r1'' False m);
            n6 = connect (n_uid net + length (t # ts)) (Some ''out'') (p_id srRust) ''s'' False n5;
            (srRustOperand, n7) = addAccess ''Stap'' 0 n6
        in connect (a_id srRustOperand) None (p_id srRust) ''operand'' False n7)"
    using assms by (simp add: build_rust_network_def addAccesses_closed addPart_eq first Let_def)
  show "n_parts (build_rust_network ss net)
         = map PAccess (stap_accesses (n_uid net) (t # ts))
           @ [PPart (negate_ports 0 (length (t # ts)) ?g0),
              PPart \<lparr>p_id = n_uid net + 2 * length (t # ts) + 1, p_name = Sr,
                     p_inputs = fst (partDefinitions Sr), p_outputs = snd (partDefinitions Sr),
                     cardinality = None, negatedInputs = []\<rparr>,
              PAccess \<lparr>a_id = n_uid net + 2 * length (t # ts) + 2, a_variable = ''Stap'',
                       a_index = Some (st_number t), isLiteralBool = False, literalValue = False\<rparr>,
              PAccess \<lparr>a_id = n_uid net + 2 * length (t # ts) + 5, a_variable = ''Stap'',
                       a_index = Some 0, isLiteralBool = False, literalValue = False\<rparr>]"
    unfolding unfold cn by (simp add: addPart_eq addAccess_eq connect_eq Let_def)
  show "n_wires (build_rust_network ss net)
         = n_wires net
           @ negated_wires (n_uid net + length (t # ts) + 1) 0 (n_uid net + length (t # ts))
               (stap_accesses (n_uid net) (t # ts))
           @ [\<lparr>w_id = n_uid net + 2 * length (t # ts) + 3,
               w_from = (n_uid net + 2 * length (t # ts) + 2, None),
               w_to = (n_uid net + 2 * length (t # ts) + 1, ''r1'')\<rparr>,
              \<lparr>w_id = n_uid net + 2 * length (t # ts) + 4,
               w_from = (n_uid net + length (t # ts), Some ''out''),
               w_to = (n_uid net + 2 * length (t # ts) + 1, ''s'')\<rparr>,
              \<lparr>w_id = n_uid net + 2 * length (t # ts) + 6,
               w_from = (n_uid net + 2 * length (t # ts) + 5, None),
               w_to = (n_uid net + 2 * length (t # ts) + 1, ''operand'')\<rparr>]"
    unfolding unfold cn by (simp add: addPart_eq addAccess_eq connect_eq Let_def)
  show "n_uid (build_rust_network ss net) = n_uid net + 2 * length (t # ts) + 7"
    unfolding unfold cn by (simp add: addPart_eq addAccess_eq connect_eq Let_def)
  show "n_id (build_rust_network ss net) = n_id net"
    unfolding unfold cn by (simp add: addPart_eq addAccess_eq connect_eq Let_def)
  show "n_title (build_rust_network ss net) = n_title net"
    unfolding unfold cn by (simp add: addPart_eq addAccess_eq connect_eq Let_def)
  show "n_comment (build_rust_network ss net) = n_comment net"
    unfolding unfold cn by (simp add: addPart_eq addAccess_eq connect_eq Let_def)
qed

lemma new_Network_fresh:
  "n_parts (fst (new_Network pu title b)) = []"
  "n_wires (fst (new_Network pu title b)) = []"
  "n_uid (fst (new_Network pu title b)) = b + 2"
  "n_id (fst (new_Network pu title b)) = pu"
  "snd (new_Network pu title b) = pu + 1"
  "mt_id (n_title (fst (new_Network pu title b))) = b"
  "mt_id (n_comment (fst (new_Network pu title b))) = b + 1"
  "length (texts (n_title (fst (new_Network pu title b)))) = 2"
  "length (texts (n_comment (fst (new_Network pu title b)))) = 2"
  by (simp_all add: new_Network_def new_MultilingualText_def next_uid_def)

lemma rest_network_built:
  assumes st: "filter is_stap ss = t # ts" and fresh: "n_parts net = []" "n_wires net = []"
  shows "rest_network_fed (build_rust_network ss net) (t # ts)"
    and "length (t # ts) \<le> 30 \<Longrightarrow> rest_network_ok (build_rust_network ss net) (t # ts)"
proof -
  let ?T = "t # ts"
  let ?N = "length ?T"
  let ?R = "build_rust_network ss net"
  let ?g = "negate_ports 0 ?N
              \<lparr>p_id = n_uid net + ?N, p_name = A, p_inputs = fst (partDefinitions A),
               p_outputs = snd (partDefinitions A), cardinality = None, negatedInputs = []\<rparr>"
  let ?sr = "\<lparr>p_id = n_uid net + 2 * ?N + 1, p_name = Sr,
               p_inputs = fst (partDefinitions Sr), p_outputs = snd (partDefinitions Sr),
               cardinality = None, negatedInputs = []\<rparr>"
  let ?accs = "stap_accesses (n_uid net) ?T"
  let ?ws = "negated_wires (n_uid net + ?N + 1) 0 (n_uid net + ?N) ?accs"
  note parts = build_rust_network_closed(1) [OF st fresh(1)]
  note wires = build_rust_network_closed(2) [OF st fresh(1)]
  have gates: "parts_named ?R A = [?g]"
    unfolding parts_named_def parts by simp
  have latches: "parts_named ?R Sr = [?sr]"
    unfolding parts_named_def parts by simp
  have into: "wires_into ?R (p_id ?g) = ?N"
    unfolding wires_into_def wires fresh(2) by (simp add: negated_wires_target)
  have drive: "wired ?R (p_id ?g, Some ''out'') (p_id ?sr, ''s'')"
    unfolding wired_def wires fresh(2) by simp
  have fed: "list_ex (step_bit_wired ?R (st_number (?T ! k)) (p_id ?g, ''in'' @ decimal (k + 1))) (n_parts ?R)"
    if k: "k < ?N" for k
  proof -
    have acc: "?accs ! k = \<lparr>a_id = n_uid net + k, a_variable = ''Stap'',
                 a_index = Some (st_number (?T ! k)), isLiteralBool = False, literalValue = False\<rparr>"
      using k by (rule stap_accesses_nth)
    have wire: "?ws ! k = \<lparr>w_id = n_uid net + ?N + 1 + k, w_from = (a_id (?accs ! k), None),
                  w_to = (n_uid net + ?N, ''in'' @ decimal (0 + k + 1))\<rparr>"
      using k by (intro negated_wires_nth) simp
    have "?ws ! k \<in> set (n_wires ?R)"
      unfolding wires using k by (simp del: negated_wires.simps stap_accesses.simps)
    then have w: "wired ?R (n_uid net + k, None) (p_id ?g, ''in'' @ decimal (k + 1))"
      unfolding wired_def list_ex_iff using wire acc
      by (intro bexI [of _ "?ws ! k"]) (simp_all del: negated_wires.simps stap_accesses.simps)
    have "PAccess (?accs ! k) \<in> set (n_parts ?R)"
      unfolding parts using k by (simp del: stap_accesses.simps)
    moreover have "step_bit_wired ?R (st_number (?T ! k)) (p_id ?g, ''in'' @ decimal (k + 1)) (PAccess (?accs ! k))"
      unfolding acc using w by simp
    ultimately show ?thesis
      unfolding list_ex_iff by blast
  qed
  show "rest_network_fed ?R ?T"
    unfolding rest_network_fed_def gates latches
    using into drive fed by (simp add: list_all_iff)
  show "rest_network_ok ?R ?T" if bound: "?N \<le> 30"
  proof -
    have "negated_step_input ?R ?g (''in'' @ decimal (k + 1)) (st_number (?T ! k))" if k: "k < ?N" for k
    proof -
      have "''in'' @ decimal (0 + k + 1) \<in> set (negatedInputs ?g)"
        using k bound by (intro negate_ports_negates) simp_all
      then show ?thesis using fed [OF k] by (simp add: negated_step_input_def)
    qed
    then show ?thesis
      unfolding rest_network_ok_def gates latches
      using into drive by (simp add: list_all_iff)
  qed
qed

lemma in2_port: "''in2'' \<in> set (fst (partDefinitions A))"
  using gate_port [of 1] by (simp add: decimal.simps digit_def numeral_2_eq_2)

lemma negate_in2:
  "negateInput ''in2'' \<lparr>p_id = i, p_name = A, p_inputs = fst (partDefinitions A),
       p_outputs = snd (partDefinitions A), cardinality = None, negatedInputs = []\<rparr>
   = \<lparr>p_id = i, p_name = A, p_inputs = fst (partDefinitions A),
       p_outputs = snd (partDefinitions A), cardinality = None, negatedInputs = [''in2'']\<rparr>"
  using in2_port by (simp add: negateInput_def)

lemma step_network_parts:
  assumes "n_parts net = []"
  shows "concat (map part_of (n_parts (build_step_network ts idx net)))
         = [\<lparr>p_id = n_uid net + 3, p_name = A, p_inputs = fst (partDefinitions A),
             p_outputs = snd (partDefinitions A), cardinality = None, negatedInputs = [''in2'']\<rparr>,
            \<lparr>p_id = n_uid net + 7, p_name = (if idx + 1 = length ts then Coil else Sr),
             p_inputs = fst (partDefinitions (if idx + 1 = length ts then Coil else Sr)),
             p_outputs = snd (partDefinitions (if idx + 1 = length ts then Coil else Sr)),
             cardinality = None, negatedInputs = []\<rparr>]"
  using assms
  by (simp add: build_step_network_def addAccess_eq addLiteralBool_eq addPart_eq connect_eq
        negate_in_parts_def negate_in2 Let_def)

lemma step_network_wires:
  assumes "n_wires net = []"
  shows "map (\<lambda>w. (w_from w, w_to w)) (n_wires (build_step_network ts idx net))
         = [((n_uid net, None), (n_uid net + 3, ''in1'')),
            ((n_uid net + 1, None), (n_uid net + 3, ''in2'')),
            ((n_uid net + 2, None), (n_uid net + 3, ''in3''))]
           @ (if idx + 1 = length ts
              then [((n_uid net + 3, Some ''out''), (n_uid net + 7, ''in'')),
                    ((n_uid net + 8, None), (n_uid net + 7, ''operand''))]
              else [((n_uid net + 3, Some ''out''), (n_uid net + 7, ''s'')),
                    ((n_uid net + 8, None), (n_uid net + 7, ''r1'')),
                    ((n_uid net + 9, None), (n_uid net + 7, ''operand''))])"
  using assms
  by (simp add: build_step_network_def addAccess_eq addLiteralBool_eq addPart_eq connect_eq Let_def)

lemma wired_map:
  "wired net src dst = ((src, dst) \<in> set (map (\<lambda>w. (w_from w, w_to w)) (n_wires net)))"
  by (auto simp: wired_def list_ex_iff)

lemma reset_wire_map:
  "list_ex (\<lambda>w. snd (w_to w) = ''r1'') (n_wires net)
   = (''r1'' \<in> set (map (\<lambda>x. snd (snd x)) (map (\<lambda>w. (w_from w, w_to w)) (n_wires net))))"
  by (force simp: list_ex_iff)

lemma step_network_latch:
  assumes "n_parts net = []" "n_wires net = []" "idx + 1 \<noteq> length ts"
  shows "latch_network_ok (build_step_network ts idx net)"
  unfolding latch_network_ok_def parts_named_def wired_map
    step_network_parts [OF assms(1)] step_network_wires [OF assms(2)]
  using assms(3) by simp

lemma step_network_coil:
  assumes "n_parts net = []" "n_wires net = []" "idx + 1 = length ts"
  shows "coil_network_ok (build_step_network ts idx net)"
  unfolding coil_network_ok_def parts_named_def wired_map reset_wire_map
    step_network_parts [OF assms(1)] step_network_wires [OF assms(2)]
  using assms(3) by simp

lemma addNetwork_eq:
  "addNetwork title b build fu
   = ((fst fu)\<lparr>fb_networks := fb_networks (fst fu) @ [build (fst (new_Network (snd fu) title b))]\<rparr>,
      snd fu + 1)"
  by (simp add: addNetwork_def new_Network_def next_uid_def Let_def split: prod.splits)

lemma fold_step_networks:
  "fold (\<lambda>idx. addNetwork (step_title (ts ! idx)) (1000 + idx * 100) (build_step_network ts idx))
     [0..<n] fu
   = ((fst fu)\<lparr>fb_networks := fb_networks (fst fu) @ map (step_net ts (snd fu)) [0..<n]\<rparr>, snd fu + n)"
  by (induction n) (simp_all add: addNetwork_eq step_net_def)

lemma add_step_networks_closed:
  "add_step_networks ts fu
   = ((fst fu)\<lparr>fb_networks := fb_networks (fst fu) @ map (step_net ts (snd fu)) [0..<length ts]\<rparr>,
      snd fu + length ts)"
  by (simp add: add_step_networks_def fold_step_networks)

lemma new_FunctionBlock_eq:
  "fb_networks (fst (new_FunctionBlock 0 name)) = []"
  "snd (new_FunctionBlock 0 name) = 3"
  "fb_id (fst (new_FunctionBlock 0 name)) = 0"
  "mt_id (fb_comment (fst (new_FunctionBlock 0 name))) = 1"
  "mt_id (fb_title (fst (new_FunctionBlock 0 name))) = 2"
  "length (texts (fb_comment (fst (new_FunctionBlock 0 name)))) = 2"
  "length (texts (fb_title (fst (new_FunctionBlock 0 name)))) = 2"
  by (simp_all add: new_FunctionBlock_def new_MultilingualText_def next_uid_def)

lemma document_networks_with_rust:
  assumes "find is_rust ss = Some r"
  shows "document_networks (build_document fbName ss)
         = build_rust_network ss
             (fst (new_Network 3 (or_default (st_description r) ''RUST Logic'') 500))
           # map (step_net (filter is_stap ss) 4) [0..<length (filter is_stap ss)]"
  using assms
  by (simp add: document_networks_def build_document_def new_Document_def add_step_networks_closed
        addNetwork_eq new_FunctionBlock_eq Let_def case_prod_beta)

lemma rest_network_gates:
  assumes st: "filter is_stap ss = t # ts" and fresh: "n_parts net = []"
  shows "parts_named (build_rust_network ss net) A
         = [negate_ports 0 (length (t # ts))
              \<lparr>p_id = n_uid net + length (t # ts), p_name = A, p_inputs = fst (partDefinitions A),
               p_outputs = snd (partDefinitions A), cardinality = None, negatedInputs = []\<rparr>]"
    and "parts_named (build_rust_network ss net) Sr
         = [\<lparr>p_id = n_uid net + 2 * length (t # ts) + 1, p_name = Sr,
             p_inputs = fst (partDefinitions Sr), p_outputs = snd (partDefinitions Sr),
             cardinality = None, negatedInputs = []\<rparr>]"
  unfolding parts_named_def build_rust_network_closed(1) [OF st fresh] by simp_all

lemma rest_network_incoming:
  assumes st: "filter is_stap ss = t # ts" and fresh: "n_parts net = []" "n_wires net = []"
  shows "wires_into (build_rust_network ss net) (n_uid net + length (t # ts)) = length (t # ts)"
  unfolding wires_into_def build_rust_network_closed(2) [OF st fresh(1)] fresh(2)
  by (simp add: negated_wires_target)

lemma step_net_latch: "idx + 1 \<noteq> length ts \<Longrightarrow> latch_network_ok (step_net ts u idx)"
  unfolding step_net_def by (intro step_network_latch) (simp_all add: new_Network_fresh)

lemma step_net_coil: "idx + 1 = length ts \<Longrightarrow> coil_network_ok (step_net ts u idx)"
  unfolding step_net_def by (intro step_network_coil) (simp_all add: new_Network_fresh)

text \<open>
  What holds for every number of sequential steps. For a program with one Rest step and
  \<open>N \<ge> 1\<close> sequential steps the generated document has exactly \<open>N + 1\<close> networks:
  first the Rest network, whose AND gate is fed by the bit of every sequential step and
  drives a set/reset latch; then \<open>N - 1\<close> step networks whose gate drives a set/reset
  latch; and last the network of the terminal step, whose gate drives a coil, without a
  wire to a reset input. Up to 30 sequential steps every input of the Rest gate is
  negated as well.
\<close>

lemma networks_for_every_number_of_steps:
  assumes "length (filter is_rust ss) = 1" and "length (filter is_stap ss) = N" and "1 \<le> N"
  shows "length (document_networks (build_document fbName ss)) = N + 1"
    and "rest_network_fed (document_networks (build_document fbName ss) ! 0) (filter is_stap ss)"
    and "N \<le> 30 \<Longrightarrow>
         rest_network_ok (document_networks (build_document fbName ss) ! 0) (filter is_stap ss)"
    and "\<forall>i<N - 1. latch_network_ok (document_networks (build_document fbName ss) ! (i + 1))"
    and "coil_network_ok (document_networks (build_document fbName ss) ! N)"
proof -
  obtain r where r: "find is_rust ss = Some r"
    using assms(1) by (cases "filter is_rust ss") (auto simp: find_filter)
  obtain t ts where T: "filter is_stap ss = t # ts"
    using assms(2,3) by (cases "filter is_stap ss") auto
  let ?net0 = "fst (new_Network 3 (or_default (st_description r) ''RUST Logic'') 500)"
  have nets: "document_networks (build_document fbName ss)
      = build_rust_network ss ?net0 # map (step_net (filter is_stap ss) 4) [0..<N]"
    using document_networks_with_rust [OF r] assms(2) by simp
  show "length (document_networks (build_document fbName ss)) = N + 1"
    unfolding nets by simp
  have "rest_network_fed (build_rust_network ss ?net0) (t # ts)"
    using T by (intro rest_network_built(1)) (simp_all add: new_Network_fresh)
  then show "rest_network_fed (document_networks (build_document fbName ss) ! 0) (filter is_stap ss)"
    unfolding nets T by simp
  show "rest_network_ok (document_networks (build_document fbName ss) ! 0) (filter is_stap ss)"
    if "N \<le> 30"
  proof -
    have "rest_network_ok (build_rust_network ss ?net0) (t # ts)"
      using T assms(2) that by (intro rest_network_built(2)) (simp_all add: new_Network_fresh)
    then show ?thesis unfolding nets T by simp
  qed
  have latch: "latch_network_ok (document_networks (build_document fbName ss) ! (i + 1))"
    if "i < N - 1" for i
  proof -
    have "document_networks (build_document fbName ss) ! (i + 1) = step_net (filter is_stap ss) 4 i"
      unfolding nets using that by simp
    then show ?thesis using that assms(2) by (simp add: step_net_latch)
  qed
  then show "\<forall>i<N - 1. latch_network_ok (document_networks (build_document fbName ss) ! (i + 1))"
    by blast
  have "document_networks (build_document fbName ss) ! N = step_net (filter is_stap ss) 4 (N - 1)"
    unfolding nets using assms(3) by (cases N) (simp_all add: nth_append del: upt_Suc)
  then show "coil_network_ok (document_networks (build_document fbName ss) ! N)"
    using assms(2,3) by (simp add: step_net_coil)
qed

lemma program_rust: "filter is_rust (program_of_size n) = [rust_step]"
  by (simp add: program_of_size_def is_rust_def rust_step_def stap_step_def filter_map comp_def)

lemma program_stap: "filter is_stap (program_of_size n) = map stap_step [1..<n + 1]"
  by (simp add: program_of_size_def is_stap_def rust_step_def stap_step_def filter_map comp_def)

lemma program_stap_Cons:
  "0 < n \<Longrightarrow> filter is_stap (program_of_size n) = stap_step 1 # map stap_step [Suc 1..<n + 1]"
proof -
  assume "0 < n"
  then have "[1..<n + 1] = 1 # [Suc 1..<n + 1]" by (intro upt_conv_Cons) simp
  then show ?thesis by (simp add: program_stap)
qed

lemma program_find_rust: "find is_rust (program_of_size n) = Some rust_step"
  by (simp add: find_filter program_rust)

lemma gate_negated_31:
  "negatedInputs (negate_ports 0 31
     \<lparr>p_id = 533, p_name = A, p_inputs = fst (partDefinitions A),
      p_outputs = snd (partDefinitions A), cardinality = None, negatedInputs = []\<rparr>)
   = fst (partDefinitions A)"
  by code_simp

lemma no_port_31: "''in31'' \<notin> set (fst (partDefinitions A))"
  by code_simp

lemma decimal_31: "decimal 31 = ''31''"
  by code_simp

lemma gate_ports_30: "length (fst (partDefinitions A)) = 30"
  by (simp add: partDefinitions_def)

text \<open>
  C1 fails beyond 30 sequential steps. With one Rest step and the sequential steps 1 to
  31 the document has its 32 networks, and the AND gate of the Rest network (identifier
  533) has 31 incoming wires, one from the bit of each sequential step; the generator
  asks for every one of these inputs to be negated. But an AND gate has the ports
  \<open>in1\<close> to \<open>in30\<close> only, and \<open>negateInput\<close> leaves out any other port: the bit
  of step 31 is wired to \<open>in31\<close>, and that input is not negated. The gate has 30
  negated inputs for 31 sequential steps.
\<close>

theorem rest_gate_of_31_steps_misses_negation:
  "length (filter is_rust (program_of_size 31)) = 1
   \<and> length (filter is_stap (program_of_size 31)) = 31
   \<and> length (document_networks (build_document None (program_of_size 31))) = 32
   \<and> map (\<lambda>g. (p_id g,
                wires_into (document_networks (build_document None (program_of_size 31)) ! 0) (p_id g),
                length (negatedInputs g),
                ''in31'' \<in> set (negatedInputs g)))
        (parts_named (document_networks (build_document None (program_of_size 31)) ! 0) A)
      = [(533, 31, 30, False)]
   \<and> list_ex (step_bit_wired (document_networks (build_document None (program_of_size 31)) ! 0)
                 31 (533, ''in31''))
        (n_parts (document_networks (build_document None (program_of_size 31)) ! 0))
   \<and> \<not> rest_network_ok (document_networks (build_document None (program_of_size 31)) ! 0)
          (filter is_stap (program_of_size 31))"
proof -
  let ?P = "program_of_size 31"
  let ?net0 = "fst (new_Network 3 (or_default (st_description rust_step) ''RUST Logic'') 500)"
  let ?R = "build_rust_network ?P ?net0"
  let ?g = "negate_ports 0 31
     \<lparr>p_id = 533, p_name = A, p_inputs = fst (partDefinitions A),
      p_outputs = snd (partDefinitions A), cardinality = None, negatedInputs = []\<rparr>"
  have T: "filter is_stap ?P = stap_step 1 # map stap_step [Suc 1..<31 + 1]"
    by (rule program_stap_Cons) simp
  have len: "length (stap_step 1 # map stap_step [Suc 1..<31 + 1]) = 31" by simp
  have fresh: "n_parts ?net0 = []" "n_wires ?net0 = []" "n_uid ?net0 = 502"
    by (simp_all add: new_Network_fresh)
  have a: "length (filter is_rust ?P) = 1" by (simp add: program_rust)
  have b: "length (filter is_stap ?P) = 31" by (simp add: program_stap)
  have n: "length (document_networks (build_document None ?P)) = 32"
    using networks_for_every_number_of_steps(1) [OF a b, of None] by simp
  have R: "document_networks (build_document None ?P) ! 0 = ?R"
    by (simp add: document_networks_with_rust [OF program_find_rust])
  have gates: "parts_named ?R A = [?g]"
    using rest_network_gates(1) [OF T fresh(1)] unfolding len fresh(3) by simp
  have latches: "parts_named ?R Sr
         = [\<lparr>p_id = 565, p_name = Sr,
             p_inputs = fst (partDefinitions Sr), p_outputs = snd (partDefinitions Sr),
             cardinality = None, negatedInputs = []\<rparr>]"
    using rest_network_gates(2) [OF T fresh(1)] unfolding len fresh(3) by simp
  have into: "wires_into ?R (p_id ?g) = 31"
    using rest_network_incoming [OF T fresh(1,2)] unfolding len fresh(3) by simp
  have not31: "''in31'' \<notin> set (negatedInputs ?g)"
    using no_port_31 by (simp add: gate_negated_31)
  have c: "map (\<lambda>g. (p_id g, wires_into ?R (p_id g), length (negatedInputs g),
                     ''in31'' \<in> set (negatedInputs g))) (parts_named ?R A)
           = [(533, 31, 30, False)]"
    unfolding gates using into not31 by (simp add: gate_negated_31 gate_ports_30)
  have "rest_network_fed ?R (stap_step 1 # map stap_step [Suc 1..<31 + 1])"
    by (rule rest_network_built(1) [OF T fresh(1,2)])
  then have "list_all (\<lambda>k. list_ex (step_bit_wired ?R
                    (st_number ((stap_step 1 # map stap_step [Suc 1..<31 + 1]) ! k))
                    (p_id ?g, ''in'' @ decimal (k + 1))) (n_parts ?R)) [0..<31]"
    unfolding rest_network_fed_def gates latches len by simp
  then have all: "\<forall>k\<in>set [0..<31]. list_ex (step_bit_wired ?R
                    (st_number ((stap_step 1 # map stap_step [Suc 1..<31 + 1]) ! k))
                    (p_id ?g, ''in'' @ decimal (k + 1))) (n_parts ?R)"
    unfolding list_all_iff .
  have "list_ex (step_bit_wired ?R (st_number ((stap_step 1 # map stap_step [Suc 1..<31 + 1]) ! 30))
                    (p_id ?g, ''in'' @ decimal (30 + 1))) (n_parts ?R)"
    by (rule bspec [OF all]) simp
  moreover have "(stap_step 1 # map stap_step [Suc 1..<31 + 1]) ! 30 = stap_step 31"
    using nth_map [of 29 "[Suc 1..<31 + 1]" stap_step] by simp
  ultimately have d: "list_ex (step_bit_wired ?R 31 (533, ''in31'')) (n_parts ?R)"
    by (simp add: decimal_31 stap_step_def)
  have e: "\<not> rest_network_ok ?R (filter is_stap ?P)"
  proof
    assume "rest_network_ok ?R (filter is_stap ?P)"
    then have "list_all (\<lambda>k. negated_step_input ?R ?g (''in'' @ decimal (k + 1))
                   (st_number (filter is_stap ?P ! k))) [0..<length (filter is_stap ?P)]"
      unfolding rest_network_ok_def gates latches by simp
    then have all: "\<forall>k\<in>set [0..<31]. negated_step_input ?R ?g (''in'' @ decimal (k + 1))
                   (st_number (filter is_stap ?P ! k))"
      unfolding list_all_iff b .
    have "negated_step_input ?R ?g (''in'' @ decimal (30 + 1)) (st_number (filter is_stap ?P ! 30))"
      by (rule bspec [OF all]) simp
    then have "''in'' @ decimal 31 \<in> set (negatedInputs ?g)"
      by (simp add: negated_step_input_def)
    then show False using not31 by (simp add: decimal_31)
  qed
  show ?thesis unfolding R using a b c d e n by blast
qed

subsection \<open>Identifiers\<close>

lemma text_items_uid: "snd (text_items lts uid) = uid + length lts"
  by (induction lts arbitrary: uid) (simp_all add: next_uid_def case_prod_beta)

lemma MultilingualText_ids_eq:
  "MultilingualText_ids mt uid
   = (mt_id mt # [uid..<uid + length (texts mt)], uid + length (texts mt))"
  by (simp add: MultilingualText_ids_def case_prod_beta text_items_uid)

lemma Network_ids_eq:
  "Network_ids net
   = n_id net # map net_part_id (n_parts net) @ map w_id (n_wires net)
     @ (mt_id (n_comment net) # [n_uid net..<n_uid net + length (texts (n_comment net))])
     @ (mt_id (n_title net)
        # [n_uid net + length (texts (n_comment net))
           ..<n_uid net + length (texts (n_comment net)) + length (texts (n_title net))])"
  by (simp add: Network_ids_def MultilingualText_ids_eq)

lemma build_step_network_title:
  "n_title (build_step_network ts idx net) = n_title net"
  by (simp add: build_step_network_def addAccess_eq addLiteralBool_eq addPart_eq connect_eq Let_def)

lemma step_net_title_id: "mt_id (n_title (step_net ts u idx)) = 1000 + idx * 100"
  by (simp add: step_net_def build_step_network_title new_Network_fresh)

lemma step_net_has_base: "1000 + idx * 100 \<in> set (Network_ids (step_net ts u idx))"
  by (simp add: Network_ids_eq step_net_title_id)

lemma rest_network_last_id:
  assumes "filter is_stap ss = t # ts"
  shows "512 + 2 * length (t # ts)
         \<in> set (Network_ids (build_rust_network ss (fst (new_Network pu title 500))))"
proof -
  let ?net0 = "fst (new_Network pu title 500)"
  have fresh: "n_parts ?net0 = []" by (simp add: new_Network_fresh)
  note c = build_rust_network_closed [OF assms fresh]
  have "512 + 2 * length (t # ts)
        \<in> set [n_uid (build_rust_network ss ?net0) + length (texts (n_comment (build_rust_network ss ?net0)))
                ..<n_uid (build_rust_network ss ?net0) + length (texts (n_comment (build_rust_network ss ?net0)))
                   + length (texts (n_title (build_rust_network ss ?net0)))]"
    unfolding c(3,5,6) by (simp add: new_Network_fresh)
  then show ?thesis unfolding Network_ids_eq by simp
qed

lemma Document_ids_networks:
  "set (concat (map Network_ids (document_networks d))) \<subseteq> set (Document_ids d)"
  by (auto simp: Document_ids_def document_networks_def FunctionBlock_ids_def case_prod_beta
        split: option.splits)

lemma not_distinct_networks:
  "x \<in> set (Network_ids a) \<Longrightarrow> x \<in> set (Network_ids b) \<Longrightarrow>
   \<not> distinct (concat (map Network_ids (a # b # rest)))"
  by auto

lemma Document_ids_distinct:
  "distinct (Document_ids d) \<Longrightarrow> distinct (concat (map Network_ids (document_networks d)))"
  by (auto simp: Document_ids_def document_networks_def FunctionBlock_ids_def case_prod_beta
        split: option.splits)

text \<open>
  C4 at the failing input. With one Rest step and 244 sequential steps the identifiers of
  the Rest network, which start at 500, reach 1000: the last text item of its title gets
  the identifier 1000, which is also the identifier of the title of the first step
  network. The identifiers of the document are not unique.
\<close>

theorem identifier_collision_with_244_steps:
  "1000 \<in> set (Network_ids (document_networks (build_document None (program_of_size 244)) ! 0))
   \<and> 1000 \<in> set (Network_ids (document_networks (build_document None (program_of_size 244)) ! 1))
   \<and> \<not> distinct (Document_ids (build_document None (program_of_size 244)))"
proof -
  let ?P = "program_of_size 244"
  let ?T = "filter is_stap ?P"
  let ?R = "build_rust_network ?P
              (fst (new_Network 3 (or_default (st_description rust_step) ''RUST Logic'') 500))"
  have T: "?T = stap_step 1 # map stap_step [Suc 1..<244 + 1]"
    by (rule program_stap_Cons) simp
  have len: "length ?T = 244" by (simp add: program_stap)
  have upt: "[0..<244] = 0 # [1..<244]" using upt_conv_Cons [of 0 244] by simp
  have nets: "document_networks (build_document None ?P)
      = ?R # step_net ?T 4 0 # map (step_net ?T 4) [1..<244]"
    unfolding document_networks_with_rust [OF program_find_rust] len upt by simp
  have "512 + 2 * length (stap_step 1 # map stap_step [Suc 1..<244 + 1]) \<in> set (Network_ids ?R)"
    by (rule rest_network_last_id [OF T])
  then have a: "1000 \<in> set (Network_ids ?R)" by simp
  have b: "1000 \<in> set (Network_ids (step_net ?T 4 0))"
    using step_net_has_base [of 0 ?T 4] by simp
  have "\<not> distinct (concat (map Network_ids (document_networks (build_document None ?P))))"
    unfolding nets by (rule not_distinct_networks [OF a b])
  then have c: "\<not> distinct (Document_ids (build_document None ?P))"
    using Document_ids_distinct by blast
  show ?thesis unfolding nets using a b c unfolding nets by simp
qed

subsection \<open>The text of a gate\<close>

text \<open>
  In the network of a program's only sequential step the AND gate (identifier 1005) is
  the target of three wires; the text written for it holds the cardinality 3.
\<close>

lemma step_gate_wires:
  "map (\<lambda>w. fst (w_to w)) (n_wires (step_net [stap_step 1] 4 0)) = [1005, 1005, 1005, 1009, 1009]"
  by (simp add: step_net_def build_step_network_def addAccess_eq addLiteralBool_eq addPart_eq
        connect_eq new_Network_fresh stap_step_def Let_def)

lemma step_gate_part:
  "n_parts (step_net [stap_step 1] 4 0) ! 3
   = PPart \<lparr>p_id = 1005, p_name = A, p_inputs = fst (partDefinitions A),
            p_outputs = snd (partDefinitions A), cardinality = None, negatedInputs = [''in2'']\<rparr>"
  by (simp add: step_net_def build_step_network_def addAccess_eq addLiteralBool_eq addPart_eq
        connect_eq negate_in_parts_def negate_in2 new_Network_fresh stap_step_def Let_def)

lemma decimal_3: "decimal 3 = ''3''"
  by code_simp

lemma step_gate_element_text:
  "toString True 9
     (XmlElement ''Part'' [(''Name'', AStr ''A''), (''UId'', ANum 1005)]
        [Element (XmlElement ''TemplateValue''
                    [(''Name'', AStr ''Card''), (''Type'', AStr ''Cardinality'')] [Text ''3'']),
         Element (XmlElement ''Negated'' [(''Name'', AStr ''in2'')] [])])
   = ''                  <Part Name='' @ [CHR 0x22] @ ''A'' @ [CHR 0x22] @ '' UId='' @ [CHR 0x22]
       @ ''1005'' @ [CHR 0x22] @ ''>'' @ [CHR 0x0A]
     @ ''                    <TemplateValue Name='' @ [CHR 0x22] @ ''Card'' @ [CHR 0x22] @ '' Type=''
       @ [CHR 0x22] @ ''Cardinality'' @ [CHR 0x22] @ ''>3</TemplateValue>'' @ [CHR 0x0A]
     @ ''                    <Negated Name='' @ [CHR 0x22] @ ''in2'' @ [CHR 0x22] @ '' />'' @ [CHR 0x0A]
     @ ''                  </Part>''"
  by code_simp

lemma gate_with_three_wires_text:
  "wires_into (step_net [stap_step 1] 4 0) 1005 = 3
   \<and> map (written_part True 9 (step_net [stap_step 1] 4 0))
         [n_parts (step_net [stap_step 1] 4 0) ! 3]
     = [''                  <Part Name='' @ [CHR 0x22] @ ''A'' @ [CHR 0x22] @ '' UId='' @ [CHR 0x22]
          @ ''1005'' @ [CHR 0x22] @ ''>'' @ [CHR 0x0A]
        @ ''                    <TemplateValue Name='' @ [CHR 0x22] @ ''Card'' @ [CHR 0x22] @ '' Type=''
          @ [CHR 0x22] @ ''Cardinality'' @ [CHR 0x22] @ ''>3</TemplateValue>'' @ [CHR 0x0A]
        @ ''                    <Negated Name='' @ [CHR 0x22] @ ''in2'' @ [CHR 0x22] @ '' />'' @ [CHR 0x0A]
        @ ''                  </Part>'']"
proof -
  have "wires_into (step_net [stap_step 1] 4 0) 1005
        = length (filter (\<lambda>i. i = 1005) (map (\<lambda>w. fst (w_to w)) (n_wires (step_net [stap_step 1] 4 0))))"
    unfolding wires_into_def by (simp add: filter_map comp_def)
  then have w: "wires_into (step_net [stap_step 1] 4 0) 1005 = 3"
    unfolding step_gate_wires by simp
  have "written_part True 9 (step_net [stap_step 1] 4 0) (n_parts (step_net [stap_step 1] 4 0) ! 3)
        = toString True 9
            (XmlElement ''Part'' [(''Name'', AStr ''A''), (''UId'', ANum 1005)]
               [Element (XmlElement ''TemplateValue''
                           [(''Name'', AStr ''Card''), (''Type'', AStr ''Cardinality'')] [Text ''3'']),
                Element (XmlElement ''Negated'' [(''Name'', AStr ''in2'')] [])])"
    unfolding step_gate_part
    by (simp add: written_part_def w [simplified] gate_element_def cardinality_element_def
          negated_element_def decimal_3 del: toString.simps)
  then show ?thesis using w by (simp only: step_gate_element_text list.map)
qed

subsection \<open>A gate without incoming wires\<close>

lemma rest_network_without_steps:
  "document_networks (build_document None [rust_step]) ! 0
   = \<lparr>n_id = 3, n_uid = 507,
     n_parts = [PPart \<lparr>p_id = 502, p_name = A, p_inputs = fst (partDefinitions A),
                         p_outputs = snd (partDefinitions A), cardinality = None, negatedInputs = []\<rparr>,
                PPart \<lparr>p_id = 503, p_name = Sr, p_inputs = fst (partDefinitions Sr),
                         p_outputs = snd (partDefinitions Sr), cardinality = None, negatedInputs = []\<rparr>,
                PAccess \<lparr>a_id = 505, a_variable = ''Stap'', a_index = Some 0,
                           isLiteralBool = False, literalValue = False\<rparr>],
     n_wires = [\<lparr>w_id = 504, w_from = (502, Some ''out''), w_to = (503, ''s'')\<rparr>,
                \<lparr>w_id = 506, w_from = (505, None), w_to = (503, ''operand'')\<rparr>],
     n_title = \<lparr>mt_id = 500, compositionName = ''Title'',
                  texts = [(''nl-NL'', ''idle''), (''en-GB'', ''idle'')]\<rparr>,
     n_comment = \<lparr>mt_id = 501, compositionName = ''Comment'',
                    texts = [(''nl-NL'', []), (''en-GB'', [])]\<rparr>\<rparr>"
  by (simp add: document_networks_def build_document_def new_Document_def add_step_networks_def
        addNetwork_def new_FunctionBlock_eq build_rust_network_def is_rust_def is_stap_def rust_step_def
        or_default_def new_Network_def new_MultilingualText_def next_uid_def
        addPart_eq addAccess_eq connect_eq Let_def case_prod_beta)

lemma rest_network_without_steps_text:
  "fst (Network_toXml True 4
     \<lparr>n_id = 3, n_uid = 507,
       n_parts = [PPart \<lparr>p_id = 502, p_name = A, p_inputs = fst (partDefinitions A),
                           p_outputs = snd (partDefinitions A), cardinality = None, negatedInputs = []\<rparr>,
                  PPart \<lparr>p_id = 503, p_name = Sr, p_inputs = fst (partDefinitions Sr),
                           p_outputs = snd (partDefinitions Sr), cardinality = None, negatedInputs = []\<rparr>,
                  PAccess \<lparr>a_id = 505, a_variable = ''Stap'', a_index = Some 0,
                             isLiteralBool = False, literalValue = False\<rparr>],
       n_wires = [\<lparr>w_id = 504, w_from = (502, Some ''out''), w_to = (503, ''s'')\<rparr>,
                  \<lparr>w_id = 506, w_from = (505, None), w_to = (503, ''operand'')\<rparr>],
       n_title = \<lparr>mt_id = 500, compositionName = ''Title'',
                    texts = [(''nl-NL'', ''idle''), (''en-GB'', ''idle'')]\<rparr>,
       n_comment = \<lparr>mt_id = 501, compositionName = ''Comment'',
                      texts = [(''nl-NL'', []), (''en-GB'', [])]\<rparr>\<rparr>)
   = ''        <SW.Blocks.CompileUnit ID='' @ [CHR 0x22] @ ''3'' @ [CHR 0x22] @ '' CompositionName='' @ [CHR 0x22] @ ''CompileUnits'' @ [CHR 0x22] @ ''>'' @ [CHR 0x0A] @
     ''          <AttributeList>'' @ [CHR 0x0A] @
     ''            <NetworkSource>'' @ [CHR 0x0A] @
     ''              <FlgNet xmlns='' @ [CHR 0x22] @ ''http://www.siemens.com/automation/Openness/SW/NetworkSource/FlgNet/v4'' @ [CHR 0x22] @ ''>'' @ [CHR 0x0A] @
     ''                <Parts>'' @ [CHR 0x0A] @
     ''                  <Part Name='' @ [CHR 0x22] @ ''A'' @ [CHR 0x22] @ '' UId='' @ [CHR 0x22] @ ''502'' @ [CHR 0x22] @ '' />'' @ [CHR 0x0A] @
     ''                  <Part Name='' @ [CHR 0x22] @ ''Sr'' @ [CHR 0x22] @ '' UId='' @ [CHR 0x22] @ ''503'' @ [CHR 0x22] @ '' />'' @ [CHR 0x0A] @
     ''                  <Access Scope='' @ [CHR 0x22] @ ''LocalVariable'' @ [CHR 0x22] @ '' UId='' @ [CHR 0x22] @ ''505'' @ [CHR 0x22] @ ''>'' @ [CHR 0x0A] @
     ''                    <Symbol>'' @ [CHR 0x0A] @
     ''                      <Component Name='' @ [CHR 0x22] @ ''Stap'' @ [CHR 0x22] @ '' AccessModifier='' @ [CHR 0x22] @ ''Array'' @ [CHR 0x22] @ ''>'' @ [CHR 0x0A] @
     ''                        <Access Scope='' @ [CHR 0x22] @ ''LiteralConstant'' @ [CHR 0x22] @ ''>'' @ [CHR 0x0A] @
     ''                          <Constant>'' @ [CHR 0x0A] @
     ''                            <ConstantType>DInt</ConstantType>'' @ [CHR 0x0A] @
     ''                            <ConstantValue>0</ConstantValue>'' @ [CHR 0x0A] @
     ''                          </Constant>'' @ [CHR 0x0A] @
     ''                        </Access>'' @ [CHR 0x0A] @
     ''                      </Component>'' @ [CHR 0x0A] @
     ''                    </Symbol>'' @ [CHR 0x0A] @
     ''                  </Access>'' @ [CHR 0x0A] @
     ''                </Parts>'' @ [CHR 0x0A] @
     ''                <Wires>'' @ [CHR 0x0A] @
     ''                  <Wire UId='' @ [CHR 0x22] @ ''504'' @ [CHR 0x22] @ ''>'' @ [CHR 0x0A] @
     ''                    <NameCon UId='' @ [CHR 0x22] @ ''502'' @ [CHR 0x22] @ '' Name='' @ [CHR 0x22] @ ''out'' @ [CHR 0x22] @ '' />'' @ [CHR 0x0A] @
     ''                    <NameCon UId='' @ [CHR 0x22] @ ''503'' @ [CHR 0x22] @ '' Name='' @ [CHR 0x22] @ ''s'' @ [CHR 0x22] @ '' />'' @ [CHR 0x0A] @
     ''                  </Wire>'' @ [CHR 0x0A] @
     ''                  <Wire UId='' @ [CHR 0x22] @ ''506'' @ [CHR 0x22] @ ''>'' @ [CHR 0x0A] @
     ''                    <IdentCon UId='' @ [CHR 0x22] @ ''505'' @ [CHR 0x22] @ '' />'' @ [CHR 0x0A] @
     ''                    <NameCon UId='' @ [CHR 0x22] @ ''503'' @ [CHR 0x22] @ '' Name='' @ [CHR 0x22] @ ''operand'' @ [CHR 0x22] @ '' />'' @ [CHR 0x0A] @
     ''                  </Wire>'' @ [CHR 0x0A] @
     ''                </Wires>'' @ [CHR 0x0A] @
     ''              </FlgNet>'' @ [CHR 0x0A] @
     ''            </NetworkSource>'' @ [CHR 0x0A] @
     ''            <ProgrammingLanguage>FBD</ProgrammingLanguage>'' @ [CHR 0x0A] @
     ''          </AttributeList>'' @ [CHR 0x0A] @
     ''          <ObjectList>'' @ [CHR 0x0A] @
     ''              <MultilingualText ID='' @ [CHR 0x22] @ ''501'' @ [CHR 0x22] @ '' CompositionName='' @ [CHR 0x22] @ ''Comment'' @ [CHR 0x22] @ ''>'' @ [CHR 0x0A] @
     ''                <ObjectList>'' @ [CHR 0x0A] @
     ''                  <MultilingualTextItem ID='' @ [CHR 0x22] @ ''507'' @ [CHR 0x22] @ '' CompositionName='' @ [CHR 0x22] @ ''Items'' @ [CHR 0x22] @ ''>'' @ [CHR 0x0A] @
     ''                    <AttributeList>'' @ [CHR 0x0A] @
     ''                      <Culture>nl-NL</Culture>'' @ [CHR 0x0A] @
     ''                      <Text></Text>'' @ [CHR 0x0A] @
     ''                    </AttributeList>'' @ [CHR 0x0A] @
     ''                  </MultilingualTextItem>'' @ [CHR 0x0A] @
     ''                  <MultilingualTextItem ID='' @ [CHR 0x22] @ ''508'' @ [CHR 0x22] @ '' CompositionName='' @ [CHR 0x22] @ ''Items'' @ [CHR 0x22] @ ''>'' @ [CHR 0x0A] @
     ''                    <AttributeList>'' @ [CHR 0x0A] @
     ''                      <Culture>en-GB</Culture>'' @ [CHR 0x0A] @
     ''                      <Text></Text>'' @ [CHR 0x0A] @
     ''                    </AttributeList>'' @ [CHR 0x0A] @
     ''                  </MultilingualTextItem>'' @ [CHR 0x0A] @
     ''                </ObjectList>'' @ [CHR 0x0A] @
     ''              </MultilingualText>'' @ [CHR 0x0A] @
     ''              <MultilingualText ID='' @ [CHR 0x22] @ ''500'' @ [CHR 0x22] @ '' CompositionName='' @ [CHR 0x22] @ ''Title'' @ [CHR 0x22] @ ''>'' @ [CHR 0x0A] @
     ''                <ObjectList>'' @ [CHR 0x0A] @
     ''                  <MultilingualTextItem ID='' @ [CHR 0x22] @ ''509'' @ [CHR 0x22] @ '' CompositionName='' @ [CHR 0x22] @ ''Items'' @ [CHR 0x22] @ ''>'' @ [CHR 0x0A] @
     ''                    <AttributeList>'' @ [CHR 0x0A] @
     ''                      <Culture>nl-NL</Culture>'' @ [CHR 0x0A] @
     ''                      <Text>idle</Text>'' @ [CHR 0x0A] @
     ''                    </AttributeList>'' @ [CHR 0x0A] @
     ''                  </MultilingualTextItem>'' @ [CHR 0x0A] @
     ''                  <MultilingualTextItem ID='' @ [CHR 0x22] @ ''510'' @ [CHR 0x22] @ '' CompositionName='' @ [CHR 0x22] @ ''Items'' @ [CHR 0x22] @ ''>'' @ [CHR 0x0A] @
     ''                    <AttributeList>'' @ [CHR 0x0A] @
     ''                      <Culture>en-GB</Culture>'' @ [CHR 0x0A] @
     ''                      <Text>idle</Text>'' @ [CHR 0x0A] @
     ''                    </AttributeList>'' @ [CHR 0x0A] @
     ''                  </MultilingualTextItem>'' @ [CHR 0x0A] @
     ''                </ObjectList>'' @ [CHR 0x0A] @
     ''              </MultilingualText>'' @ [CHR 0x0A] @
     ''          </ObjectList>'' @ [CHR 0x0A] @
     ''        </SW.Blocks.CompileUnit>''"
  by code_simp

text \<open>
  C2 as stated fails for a gate without incoming wires. The program that consists of a
  Rest step alone gives a Rest network whose AND gate (identifier 502) is the target of
  no wire; its cardinality is 0, and \<open>Part.toXml\<close> writes a cardinality only when it
  is positive: the text of the network, as the generated document holds it, has the gate
  without any cardinality value.
\<close>

theorem gate_without_wires_counterexample:
  "generateTIAPortalXML (Some \<lparr>functionBlock = None, steps = Some [rust_step]\<rparr>)
     = Document_toXml True 0 (build_document None [rust_step])
   \<and> map (\<lambda>x. case x of PPart p \<Rightarrow> Some (p_id p, p_name p) | PAccess a \<Rightarrow> None)
         (n_parts (document_networks (build_document None [rust_step]) ! 0))
       = [Some (502, A), Some (503, Sr), None]
   \<and> wires_into (document_networks (build_document None [rust_step]) ! 0) 502 = 0
   \<and> map (\<lambda>x. case x of PPart p \<Rightarrow> cardinality p | PAccess a \<Rightarrow> None)
         (n_parts (snd (Network_toXml True 4 (document_networks (build_document None [rust_step]) ! 0))))
       = [Some 0, None, None]
   \<and> fst (Network_toXml True 4 (document_networks (build_document None [rust_step]) ! 0))
       = ''        <SW.Blocks.CompileUnit ID='' @ [CHR 0x22] @ ''3'' @ [CHR 0x22] @ '' CompositionName='' @ [CHR 0x22] @ ''CompileUnits'' @ [CHR 0x22] @ ''>'' @ [CHR 0x0A] @
     ''          <AttributeList>'' @ [CHR 0x0A] @
     ''            <NetworkSource>'' @ [CHR 0x0A] @
     ''              <FlgNet xmlns='' @ [CHR 0x22] @ ''http://www.siemens.com/automation/Openness/SW/NetworkSource/FlgNet/v4'' @ [CHR 0x22] @ ''>'' @ [CHR 0x0A] @
     ''                <Parts>'' @ [CHR 0x0A] @
     ''                  <Part Name='' @ [CHR 0x22] @ ''A'' @ [CHR 0x22] @ '' UId='' @ [CHR 0x22] @ ''502'' @ [CHR 0x22] @ '' />'' @ [CHR 0x0A] @
     ''                  <Part Name='' @ [CHR 0x22] @ ''Sr'' @ [CHR 0x22] @ '' UId='' @ [CHR 0x22] @ ''503'' @ [CHR 0x22] @ '' />'' @ [CHR 0x0A] @
     ''                  <Access Scope='' @ [CHR 0x22] @ ''LocalVariable'' @ [CHR 0x22] @ '' UId='' @ [CHR 0x22] @ ''505'' @ [CHR 0x22] @ ''>'' @ [CHR 0x0A] @
     ''                    <Symbol>'' @ [CHR 0x0A] @
     ''                      <Component Name='' @ [CHR 0x22] @ ''Stap'' @ [CHR 0x22] @ '' AccessModifier='' @ [CHR 0x22] @ ''Array'' @ [CHR 0x22] @ ''>'' @ [CHR 0x0A] @
     ''                        <Access Scope='' @ [CHR 0x22] @ ''LiteralConstant'' @ [CHR 0x22] @ ''>'' @ [CHR 0x0A] @
     ''                          <Constant>'' @ [CHR 0x0A] @
     ''                            <ConstantType>DInt</ConstantType>'' @ [CHR 0x0A] @
     ''                            <ConstantValue>0</ConstantValue>'' @ [CHR 0x0A] @
     ''                          </Constant>'' @ [CHR 0x0A] @
     ''                        </Access>'' @ [CHR 0x0A] @
     ''                      </Component>'' @ [CHR 0x0A] @
     ''                    </Symbol>'' @ [CHR 0x0A] @
     ''                  </Access>'' @ [CHR 0x0A] @
     ''                </Parts>'' @ [CHR 0x0A] @
     ''                <Wires>'' @ [CHR 0x0A] @
     ''                  <Wire UId='' @ [CHR 0x22] @ ''504'' @ [CHR 0x22] @ ''>'' @ [CHR 0x0A] @
     ''                    <NameCon UId='' @ [CHR 0x22] @ ''502'' @ [CHR 0x22] @ '' Name='' @ [CHR 0x22] @ ''out'' @ [CHR 0x22] @ '' />'' @ [CHR 0x0A] @
     ''                    <NameCon UId='' @ [CHR 0x22] @ ''503'' @ [CHR 0x22] @ '' Name='' @ [CHR 0x22] @ ''s'' @ [CHR 0x22] @ '' />'' @ [CHR 0x0A] @
     ''                  </Wire>'' @ [CHR 0x0A] @
     ''                  <Wire UId='' @ [CHR 0x22] @ ''506'' @ [CHR 0x22] @ ''>'' @ [CHR 0x0A] @
     ''                    <IdentCon UId='' @ [CHR 0x22] @ ''505'' @ [CHR 0x22] @ '' />'' @ [CHR 0x0A] @
     ''                    <NameCon UId='' @ [CHR 0x22] @ ''503'' @ [CHR 0x22] @ '' Name='' @ [CHR 0x22] @ ''operand'' @ [CHR 0x22] @ '' />'' @ [CHR 0x0A] @
     ''                  </Wire>'' @ [CHR 0x0A] @
     ''                </Wires>'' @ [CHR 0x0A] @
     ''              </FlgNet>'' @ [CHR 0x0A] @
     ''            </NetworkSource>'' @ [CHR 0x0A] @
     ''            <ProgrammingLanguage>FBD</ProgrammingLanguage>'' @ [CHR 0x0A] @
     ''          </AttributeList>'' @ [CHR 0x0A] @
     ''          <ObjectList>'' @ [CHR 0x0A] @
     ''              <MultilingualText ID='' @ [CHR 0x22] @ ''501'' @ [CHR 0x22] @ '' CompositionName='' @ [CHR 0x22] @ ''Comment'' @ [CHR 0x22] @ ''>'' @ [CHR 0x0A] @
     ''                <ObjectList>'' @ [CHR 0x0A] @
     ''                  <MultilingualTextItem ID='' @ [CHR 0x22] @ ''507'' @ [CHR 0x22] @ '' CompositionName='' @ [CHR 0x22] @ ''Items'' @ [CHR 0x22] @ ''>'' @ [CHR 0x0A] @
     ''                    <AttributeList>'' @ [CHR 0x0A] @
     ''                      <Culture>nl-NL</Culture>'' @ [CHR 0x0A] @
     ''                      <Text></Text>'' @ [CHR 0x0A] @
     ''                    </AttributeList>'' @ [CHR 0x0A] @
     ''                  </MultilingualTextItem>'' @ [CHR 0x0A] @
     ''                  <MultilingualTextItem ID='' @ [CHR 0x22] @ ''508'' @ [CHR 0x22] @ '' CompositionName='' @ [CHR 0x22] @ ''Items'' @ [CHR 0x22] @ ''>'' @ [CHR 0x0A] @
     ''                    <AttributeList>'' @ [CHR 0x0A] @
     ''                      <Culture>en-GB</Culture>'' @ [CHR 0x0A] @
     ''                      <Text></Text>'' @ [CHR 0x0A] @
     ''                    </AttributeList>'' @ [CHR 0x0A] @
     ''                  </MultilingualTextItem>'' @ [CHR 0x0A] @
     ''                </ObjectList>'' @ [CHR 0x0A] @
     ''              </MultilingualText>'' @ [CHR 0x0A] @
     ''              <MultilingualText ID='' @ [CHR 0x22] @ ''500'' @ [CHR 0x22] @ '' CompositionName='' @ [CHR 0x22] @ ''Title'' @ [CHR 0x22] @ ''>'' @ [CHR 0x0A] @
     ''                <ObjectList>'' @ [CHR 0x0A] @
     ''                  <MultilingualTextItem ID='' @ [CHR 0x22] @ ''509'' @ [CHR 0x22] @ '' CompositionName='' @ [CHR 0x22] @ ''Items'' @ [CHR 0x22] @ ''>'' @ [CHR 0x0A] @
     ''                    <AttributeList>'' @ [CHR 0x0A] @
     ''                      <Culture>nl-NL</Culture>'' @ [CHR 0x0A] @
     ''                      <Text>idle</Text>'' @ [CHR 0x0A] @
     ''                    </AttributeList>'' @ [CHR 0x0A] @
     ''                  </MultilingualTextItem>'' @ [CHR 0x0A] @
     ''                  <MultilingualTextItem ID='' @ [CHR 0x22] @ ''510'' @ [CHR 0x22] @ '' CompositionName='' @ [CHR 0x22] @ ''Items'' @ [CHR 0x22] @ ''>'' @ [CHR 0x0A] @
     ''                    <AttributeList>'' @ [CHR 0x0A] @
     ''                      <Culture>en-GB</Culture>'' @ [CHR 0x0A] @
     ''                      <Text>idle</Text>'' @ [CHR 0x0A] @
     ''                    </AttributeList>'' @ [CHR 0x0A] @
     ''                  </MultilingualTextItem>'' @ [CHR 0x0A] @
     ''                </ObjectList>'' @ [CHR 0x0A] @
     ''              </MultilingualText>'' @ [CHR 0x0A] @
     ''          </ObjectList>'' @ [CHR 0x0A] @
     ''        </SW.Blocks.CompileUnit>''"
proof -
  have a: "generateTIAPortalXML (Some \<lparr>functionBlock = None, steps = Some [rust_step]\<rparr>)
     = Document_toXml True 0 (build_document None [rust_step])"
    by (simp add: generateTIAPortalXML_def)
  have b: "wires_into (document_networks (build_document None [rust_step]) ! 0) 502 = 0"
    unfolding rest_network_without_steps by (simp add: wires_into_def)
  have c: "map (\<lambda>x. case x of PPart p \<Rightarrow> cardinality p | PAccess a \<Rightarrow> None)
         (n_parts (snd (Network_toXml True 4 (document_networks (build_document None [rust_step]) ! 0))))
       = [Some 0, None, None]"
    unfolding Network_toXml_parts rest_network_without_steps
    by (simp add: stored_part_def wires_into_def)
  show ?thesis
    unfolding rest_network_without_steps_text [folded rest_network_without_steps]
    using a b c by (simp add: rest_network_without_steps)
qed

section \<open>Properties of the parser and of the validation\<close>

subsection \<open>Condition groups\<close>

lemma is_space_simps [simp]:
  "is_space CHR '' ''" "\<not> is_space CHR ''+''" "\<not> is_space CHR ''X''" "\<not> is_space CHR ''-''"
  by (simp_all add: is_space_def)

lemma startsWith_Cons [simp]:
  "startsWith s [] = True"
  "startsWith [] (p # ps) = False"
  "startsWith (c # s) (p # ps) = (c = p \<and> startsWith s ps)"
  by (auto simp: startsWith_def)

text \<open>
  A line that begins with a plus sign and a space is taken as a condition with operator
  OR. When the current step already has a condition group, a new group with operator OR
  that contains this condition alone is appended behind the groups of the step; when the
  step has no group yet, the line starts a group with operator AND that contains the
  condition alone. No error is recorded.
\<close>

theorem plus_space_starts_group:
  assumes "currentStep st = Some step" and "startsWith (trim line) ''+ ''"
  shows "fst (tryParseCondition implicit details line n st)
         \<and> c_operator (line_condition details line n) = OR
         \<and> currentStep (snd (tryParseCondition implicit details line n st))
           = Some (step\<lparr>entryConditions :=
                     (if entryConditions step \<noteq> []
                      then entryConditions step
                           @ [\<lparr>g_operator = OR, g_conditions = [line_condition details line n]\<rparr>]
                      else [\<lparr>g_operator = AND, g_conditions = [line_condition details line n]\<rparr>])\<rparr>)
         \<and> p_errors (snd (tryParseCondition implicit details line n st)) = p_errors st"
proof -
  obtain rest where t: "trim line = CHR ''+'' # CHR '' '' # rest"
    using assms(2) by (cases "trim line"; cases "tl (trim line)") (auto simp: startsWith_def)
  have isOr: "line_isOr line" using t by (simp add: line_isOr_def Let_def)
  have op: "c_operator (line_condition details line n) = OR"
    using t by (simp add: line_condition_def Let_def)
  show ?thesis
    using assms(1) t isOr op
    by (simp add: tryParseCondition_def addConditionToStep_def Let_def)
qed

theorem plus_space_starts_group_witness:
  "currentStep example_state = Some example_step
   \<and> startsWith (trim ''+ X'') ''+ ''
   \<and> fst (tryParseCondition (\<lambda>l. False) (\<lambda>t. ()) ''+ X'' 3 example_state)
   \<and> line_condition (\<lambda>t. ()) ''+ X'' 3
     = \<lparr>c_text = ''X'', c_negated = False, c_details = (), c_lineNumber = 3, c_operator = OR\<rparr>
   \<and> currentStep (snd (tryParseCondition (\<lambda>l. False) (\<lambda>t. ()) ''+ X'' 3 example_state))
     = Some (example_step
         \<lparr>entryConditions :=
            [\<lparr>g_operator = AND, g_conditions = [example_condition]\<rparr>,
             \<lparr>g_operator = OR,
               g_conditions = [\<lparr>c_text = ''X'', c_negated = False, c_details = (),
                                c_lineNumber = 3, c_operator = OR\<rparr>]\<rparr>]\<rparr>)
   \<and> tryParseCondition (\<lambda>l. False) (\<lambda>t. ()) ''+ X'' 3
        (example_state\<lparr>currentStep := Some (example_step\<lparr>entryConditions := []\<rparr>)\<rparr>)
     = (True, example_state
          \<lparr>currentStep := Some (example_step
              \<lparr>entryConditions :=
                 [\<lparr>g_operator = AND,
                   g_conditions = [\<lparr>c_text = ''X'', c_negated = False, c_details = (),
                                    c_lineNumber = 3, c_operator = OR\<rparr>]\<rparr>]\<rparr>),
            totalConditions := 2\<rparr>)"
proof -
  have a: "currentStep example_state = Some example_step" by (simp add: example_state_def)
  have b: "startsWith (trim ''+ X'') ''+ ''" by (simp add: trim_def)
  have c: "line_condition (\<lambda>t. ()) ''+ X'' 3
     = \<lparr>c_text = ''X'', c_negated = False, c_details = (), c_lineNumber = 3, c_operator = OR\<rparr>"
    by (simp add: line_condition_def trim_def strip_plus_def after_negation_def after_keyword_def Let_def)
  have d: "entryConditions example_step = [\<lparr>g_operator = AND, g_conditions = [example_condition]\<rparr>]"
    by (simp add: example_step_def)
  have e: "tryParseCondition (\<lambda>l. False) (\<lambda>t. ()) ''+ X'' 3
        (example_state\<lparr>currentStep := Some (example_step\<lparr>entryConditions := []\<rparr>)\<rparr>)
     = (True, example_state
          \<lparr>currentStep := Some (example_step
              \<lparr>entryConditions :=
                 [\<lparr>g_operator = AND,
                   g_conditions = [\<lparr>c_text = ''X'', c_negated = False, c_details = (),
                                    c_lineNumber = 3, c_operator = OR\<rparr>]\<rparr>]\<rparr>),
            totalConditions := 2\<rparr>)"
    by (simp add: tryParseCondition_def c trim_def example_state_def
          line_isOr_def addConditionToStep_def Let_def)
  show ?thesis
    using plus_space_starts_group [OF a b, of "\<lambda>l. False" "\<lambda>t. ()" 3] a b c d e by simp
qed

text \<open>
  C5 fails for a line that begins with a plus sign without a space behind it. The line
  \<open>+X\<close> is recognised as a condition by its marker (\<open>hasExplicitMarkers\<close> tests for
  the prefix \<open>+\<close>), but \<open>isOr\<close> tests for the prefix \<open>"+ "\<close>: after a collected
  condition the line starts no group; its condition, with operator AND and the plus sign
  still in its text, joins the last group. The normaliser of the same repository writes
  this very line as \<open>+ X\<close>, the form that starts an OR group.
\<close>

theorem plus_without_space_joins_last_group:
  "startsWith (trim ''+X'') ''+''
   \<and> entryConditions example_step \<noteq> []
   \<and> tryParseCondition (\<lambda>l. False) (\<lambda>t. ()) ''+X'' 3 example_state
     = (True,
        example_state
          \<lparr>currentStep := Some (example_step
             \<lparr>entryConditions :=
                [\<lparr>g_operator = AND,
                  g_conditions = [example_condition,
                                  \<lparr>c_text = ''+X'', c_negated = False, c_details = (),
                                   c_lineNumber = 3, c_operator = AND\<rparr>]\<rparr>]\<rparr>),
           totalConditions := 2\<rparr>)
   \<and> map g_operator
        (case currentStep (snd (tryParseCondition (\<lambda>l. False) (\<lambda>t. ()) ''+X'' 3 example_state)) of
           Some s \<Rightarrow> entryConditions s | None \<Rightarrow> [])
     = [AND]
   \<and> normalizeText 100 ''+X'' ''manual'' = Some ''+ X''
   \<and> normalizeText 100 ''+X'' ''word'' = Some ''+ X''"
proof -
  have norm: "normalizeText 100 ''+X'' ''manual'' = Some ''+ X''"
    "normalizeText 100 ''+X'' ''word'' = Some ''+ X''"
    by code_simp+
  show ?thesis
    unfolding norm
    by (simp add: tryParseCondition_def trim_def example_state_def example_step_def
        line_condition_def line_isOr_def addConditionToStep_def after_negation_def
        after_keyword_def Let_def)
qed

subsection \<open>Duplicate step numbers\<close>

lemma check_duplicates_closed:
  "check_duplicates ss m errs = errs @ map duplicate_error (repeated_steps (dom m) ss)"
proof (induction ss arbitrary: m errs)
  case Nil
  show ?case by simp
next
  case (Cons s ss)
  have "dom (m(ps_number s \<mapsto> s)) = insert (ps_number s) (dom m)" by simp
  then show ?case by (simp add: Cons.IH domIff del: fun_upd_apply dom_fun_upd)
qed

lemma repeated_steps_append:
  "repeated_steps K (a @ b)
   = repeated_steps K a @ repeated_steps (K \<union> ps_number ` set (filter is_schritt a)) b"
  by (induction a arbitrary: K) (simp_all add: is_schritt_def)

lemma repeated_steps_filter: "repeated_steps K (filter is_schritt ss) = repeated_steps K ss"
  by (induction ss arbitrary: K) (simp_all add: is_schritt_def)

lemma repeated_steps_none:
  "distinct (map ps_number (filter is_schritt ss)) \<Longrightarrow>
   K \<inter> ps_number ` set (filter is_schritt ss) = {} \<Longrightarrow> repeated_steps K ss = []"
proof (induction ss arbitrary: K)
  case Nil
  show ?case by simp
next
  case (Cons s ss)
  show ?case
  proof (cases "ps_type s = P_SCHRITT")
    case True
    have "repeated_steps (insert (ps_number s) K) ss = []"
      using Cons.prems True by (intro Cons.IH) (auto simp: is_schritt_def)
    then show ?thesis using Cons.prems True by (auto simp: is_schritt_def)
  next
    case False
    then show ?thesis using Cons by (simp add: is_schritt_def)
  qed
qed

lemma repeated_steps_one:
  assumes "filter is_schritt ss = pre @ d # post" and "distinct (map ps_number (pre @ post))"
    and "ps_number d \<in> ps_number ` set pre"
  shows "repeated_steps {} ss = [d]"
proof -
  have all: "\<forall>s \<in> set (pre @ d # post). is_schritt s"
  proof
    fix s assume "s \<in> set (pre @ d # post)"
    then have "s \<in> set (filter is_schritt ss)" using assms(1) by simp
    then show "is_schritt s" by simp
  qed
  then have fpre: "filter is_schritt pre = pre" and fpost: "filter is_schritt post = post"
    and d: "ps_type d = P_SCHRITT"
    by (auto simp: is_schritt_def intro: filter_True)
  have one: "repeated_steps {} pre = []"
    using assms(2) fpre by (intro repeated_steps_none) simp_all
  have ins: "insert (ps_number d) (ps_number ` set pre) = ps_number ` set pre"
    using assms(3) by auto
  have two: "repeated_steps (ps_number ` set pre) post = []"
    using assms(2) fpost by (intro repeated_steps_none) auto
  have "repeated_steps {} ss = repeated_steps {} (pre @ d # post)"
    using repeated_steps_filter [of "{}" ss] assms(1) by simp
  also have "\<dots> = [d]"
    using d assms(3) by (simp add: repeated_steps_append one fpre ins two)
  finally show ?thesis .
qed

lemma no_duplicate_among_transitions:
  "errors_of_type DUPLICATE_STEP (check_transitions ss) = []"
  by (auto simp: errors_of_type_def check_transitions_def von_error_def filter_empty_conv)

lemma duplicate_errors_of_validation:
  "errors_of_type DUPLICATE_STEP (r_errors (validateStepLogicConsistency r))
   = errors_of_type DUPLICATE_STEP (r_errors r)
     @ map duplicate_error (repeated_steps {} (r_steps r))"
proof -
  have "errors_of_type DUPLICATE_STEP (map duplicate_error xs) = map duplicate_error xs" for xs :: "'a pstep list"
    by (induction xs) (simp_all add: errors_of_type_def duplicate_error_def)
  then show ?thesis
    using no_duplicate_among_transitions [of "r_steps r"]
    by (simp add: validateStepLogicConsistency_def check_duplicates_closed errors_of_type_def)
qed

text \<open>
  C6 as stated fails in its first part: neither the parser nor the validation makes the
  numbers of the sequential steps unique. A step is pushed for every declaration, and a
  program in which the number 1 is declared on lines 1 and 2 still has both steps after
  the validation.
\<close>

theorem step_numbers_not_unique_counterexample:
  "map (\<lambda>s. (ps_type s, ps_number s, ps_lineNumber s))
     (r_steps (validateStepLogicConsistency twice_declared))
   = [(P_SCHRITT, 1, 1), (P_SCHRITT, 1, 2)]
   \<and> \<not> distinct (map ps_number (filter is_schritt (r_steps (validateStepLogicConsistency twice_declared))))"
  by (simp add: validateStepLogicConsistency_def twice_declared_def declare_step_def
        declared_number_def nat_of_digits_def is_schritt_def Let_def)

text \<open>
  C6, as amended. The sequential step numbers of a parsed program need not be unique:
  the validation reports a repeated number and keeps every step. When exactly one
  sequential step number appears twice (the sequential steps are \<open>pre @ d # post\<close>, the
  number of \<open>d\<close> occurs in \<open>pre\<close>, and without \<open>d\<close> the numbers are distinct), the
  validation adds exactly one error of type \<open>DUPLICATE_STEP\<close>, whose line number is the
  line of the second declaration \<open>d\<close>; all steps stay in the program.
\<close>

theorem duplicate_step_reported_once:
  assumes "filter is_schritt (r_steps r) = pre @ d # post"
    and "distinct (map ps_number (pre @ post))"
    and "ps_number d \<in> ps_number ` set pre"
  shows "errors_of_type DUPLICATE_STEP (r_errors (validateStepLogicConsistency r))
         = errors_of_type DUPLICATE_STEP (r_errors r) @ [duplicate_error d]
         \<and> d_type (duplicate_error d) = DUPLICATE_STEP
         \<and> d_lineNumber (duplicate_error d) = ps_lineNumber d
         \<and> r_steps (validateStepLogicConsistency r) = r_steps r"
proof -
  have "errors_of_type DUPLICATE_STEP (r_errors (validateStepLogicConsistency r))
         = errors_of_type DUPLICATE_STEP (r_errors r) @ [duplicate_error d]"
    unfolding duplicate_errors_of_validation repeated_steps_one [OF assms] by simp
  moreover have "r_steps (validateStepLogicConsistency r) = r_steps r"
    by (simp add: validateStepLogicConsistency_def)
  ultimately show ?thesis by (simp add: duplicate_error_def)
qed

theorem duplicate_step_reported_once_witness:
  "filter is_schritt (r_steps twice_declared)
     = [\<lparr>ps_type = P_SCHRITT, ps_number = 1, ps_description = ''Fuellen'', entryConditions = [],
          exitConditions = [], ps_transitions = [], ps_lineNumber = 1\<rparr>]
       @ \<lparr>ps_type = P_SCHRITT, ps_number = 1, ps_description = ''Leeren'', entryConditions = [],
          exitConditions = [], ps_transitions = [], ps_lineNumber = 2\<rparr> # []
   \<and> r_errors (validateStepLogicConsistency twice_declared)
     = [\<lparr>d_type = DUPLICATE_STEP, d_message = ''Duplicate step number: 1'', d_lineNumber = 2\<rparr>]
   \<and> length (r_steps (validateStepLogicConsistency twice_declared)) = 2"
proof -
  let ?a = "\<lparr>ps_type = P_SCHRITT, ps_number = 1, ps_description = ''Fuellen'', entryConditions = [],
          exitConditions = [], ps_transitions = ([] :: unit transition list), ps_lineNumber = 1\<rparr>"
  let ?d = "\<lparr>ps_type = P_SCHRITT, ps_number = 1, ps_description = ''Leeren'', entryConditions = [],
          exitConditions = [], ps_transitions = ([] :: unit transition list), ps_lineNumber = 2\<rparr>"
  have steps: "r_steps twice_declared = [?a, ?d]"
    by (simp add: twice_declared_def declare_step_def declared_number_def nat_of_digits_def Let_def)
  have a: "filter is_schritt (r_steps twice_declared) = [?a] @ ?d # []"
    unfolding steps by (simp add: is_schritt_def)
  have b: "distinct (map ps_number ([?a] @ []))" by simp
  have c: "ps_number ?d \<in> ps_number ` set [?a]" by simp
  have errs: "r_errors twice_declared = []"
    by (simp add: twice_declared_def declare_step_def Let_def)
  have all_errors: "r_errors (validateStepLogicConsistency twice_declared)
      = [\<lparr>d_type = DUPLICATE_STEP, d_message = ''Duplicate step number: 1'', d_lineNumber = 2\<rparr>]"
    by (simp add: validateStepLogicConsistency_def twice_declared_def declare_step_def
          declared_number_def nat_of_digits_def check_transitions_def duplicate_error_def
          String_int_def decimal.simps digit_def Let_def)
  have msg: "duplicate_error ?d
      = \<lparr>d_type = DUPLICATE_STEP, d_message = ''Duplicate step number: 1'', d_lineNumber = 2\<rparr>"
    by (simp add: duplicate_error_def String_int_def decimal.simps digit_def)
  show ?thesis
    using duplicate_step_reported_once [OF a b c] a all_errors errs msg steps
    by (simp add: errors_of_type_def)
qed

subsection \<open>Variable groups\<close>

lemma classify_first_accepting:
  "classify name groups
   = (case find (group_accepts name) groups of Some gc \<Rightarrow> fst gc | None \<Rightarrow> ''hulpmerker'')"
proof (induction groups)
  case Nil
  show ?case by simp
next
  case (Cons gc groups)
  obtain g c where gc: "gc = (g, c)" by (cases gc)
  show ?case
  proof (cases "group_accepts name (g, c)")
    case True
    then show ?thesis unfolding gc by (simp add: group_accepts_def split: option.splits)
  next
    case False
    then have "classify name ((g, c) # groups) = classify name groups"
      by (auto simp: group_accepts_def split: option.splits)
    then show ?thesis unfolding gc using False Cons.IH by simp
  qed
qed

lemma classify_is_group:
  "classify name groups = ''hulpmerker'' \<or> classify name groups \<in> fst ` set groups"
proof (induction groups)
  case Nil
  show ?case by simp
next
  case (Cons gc groups)
  obtain g c where gc: "gc = (g, c)" by (cases gc)
  have "classify name ((g, c) # groups) = g
        \<or> classify name ((g, c) # groups) = classify name groups"
    by simp
  then show ?case unfolding gc using Cons.IH by auto
qed

text \<open>
  C10 as stated fails for rules with a group whose name is the empty string: when that
  group accepts the name of the variable, \<open>determineVariableGroup\<close> returns the empty
  string, which \<open>!group\<close> takes like \<open>null\<close>, and the validation reports
  \<open>UNKNOWN_GROUP\<close> for a variable with a non-empty name.
\<close>

theorem group_named_by_empty_string_counterexample:
  "determineVariableGroup ''x''
     [([], \<lparr>excludePatterns = None, patterns = [\<lambda>s. True], requiresConditions = False,
            maxConditions = 0\<rparr>)]
     = Some []
   \<and> validateVariableDefinition \<lparr>v_name = ''x'', v_conditions = (None :: unit list option), v_lineNumber = 7\<rparr>
       [([], \<lparr>excludePatterns = None, patterns = [\<lambda>s. True], requiresConditions = False,
              maxConditions = 0\<rparr>)]
     = Inr \<lparr>v_errors = [\<lparr>d_type = UNKNOWN_GROUP,
                            d_message = ''Cannot determine group for variable: x'',
                            d_lineNumber = 7\<rparr>],
            v_warnings = [], v_group = None, v_groupRules = None\<rparr>"
  by (simp add: determineVariableGroup_def validateVariableDefinition_def)

text \<open>
  C10, as amended. For a variable definition with a non-empty name
  \<open>determineVariableGroup\<close> always yields a group, never \<open>null\<close>: the name of the first
  group, in the order of the rules, none of whose exclude patterns and one of whose
  include patterns matches the name (a matching exclude pattern disqualifies only its own
  group, the search goes on with the next one), and \<open>hulpmerker\<close> when no group accepts
  the name. When no group of the rules is named by the empty string,
  \<open>validateVariableDefinition\<close> then never takes the branch that reports
  \<open>UNKNOWN_GROUP\<close>: it returns the validation for the group found, or it throws a
  \<open>TypeError\<close> when the group is the fallback \<open>hulpmerker\<close> and the rules have no
  group of that name.
\<close>

theorem variable_group_always_found:
  assumes "v_name d \<noteq> []" and "[] \<notin> fst ` set groups"
  shows "determineVariableGroup (v_name d) groups
         = Some (case find (group_accepts (v_name d)) groups of
                   Some gc \<Rightarrow> fst gc
                 | None \<Rightarrow> ''hulpmerker'')
         \<and> determineVariableGroup (v_name d) groups \<noteq> None
         \<and> (case validateVariableDefinition d groups of
              Inr v \<Rightarrow> errors_of_type UNKNOWN_GROUP (v_errors v) = [] \<and> v_group v \<noteq> None
            | Inl e \<Rightarrow> map_of groups ''hulpmerker'' = None)"
proof -
  have grp: "determineVariableGroup (v_name d) groups = Some (classify (v_name d) groups)"
    using assms(1) by (simp add: determineVariableGroup_def)
  have nonempty: "classify (v_name d) groups \<noteq> []"
    using classify_is_group [of "v_name d" groups] assms(2) by force
  have found: "map_of groups (classify (v_name d) groups) = None \<Longrightarrow>
               classify (v_name d) groups = ''hulpmerker''"
    using classify_is_group [of "v_name d" groups] by (auto simp: map_of_eq_None_iff)
  have "case validateVariableDefinition d groups of
              Inr v \<Rightarrow> errors_of_type UNKNOWN_GROUP (v_errors v) = [] \<and> v_group v \<noteq> None
            | Inl e \<Rightarrow> map_of groups ''hulpmerker'' = None"
    using nonempty found
    by (auto simp: validateVariableDefinition_def grp errors_of_type_def split: option.splits)
  then show ?thesis using grp by (simp add: classify_first_accepting)
qed

theorem variable_group_always_found_witness:
  "v_name \<lparr>v_name = ''STORING: Pumpe'', v_conditions = Some [()], v_lineNumber = 4\<rparr> \<noteq> []
   \<and> [] \<notin> fst ` set (default_groups example_matches)
   \<and> determineVariableGroup ''STORING: Pumpe'' (default_groups example_matches) = Some ''storing''
   \<and> determineVariableGroup ''Pumpe'' (default_groups example_matches) = Some ''hulpmerker''
   \<and> validateVariableDefinition \<lparr>v_name = ''STORING: Pumpe'', v_conditions = Some [()], v_lineNumber = 4\<rparr>
        (default_groups example_matches)
     = Inr \<lparr>v_errors = [], v_warnings = [], v_group = Some ''storing'',
            v_groupRules = Some \<lparr>excludePatterns = None, patterns = [\<lambda>s. startsWith s ''STORING:''],
                                   requiresConditions = True, maxConditions = 10\<rparr>\<rparr>"
proof -
  let ?d = "\<lparr>v_name = ''STORING: Pumpe'', v_conditions = Some [()], v_lineNumber = 4\<rparr>"
  have a: "v_name ?d \<noteq> []" by simp
  have b: "[] \<notin> fst ` set (default_groups example_matches)"
    by (simp add: default_groups_def)
  have c: "determineVariableGroup ''Pumpe'' (default_groups example_matches) = Some ''hulpmerker''"
    by (simp add: determineVariableGroup_def default_groups_def example_matches_def startsWith_def)
  have e: "validateVariableDefinition ?d (default_groups example_matches)
     = Inr \<lparr>v_errors = [], v_warnings = [], v_group = Some ''storing'',
            v_groupRules = Some \<lparr>excludePatterns = None, patterns = [\<lambda>s. startsWith s ''STORING:''],
                                   requiresConditions = True, maxConditions = 10\<rparr>\<rparr>"
    by (simp add: validateVariableDefinition_def determineVariableGroup_def default_groups_def
          example_matches_def startsWith_def)
  have f: "find (group_accepts ''STORING: Pumpe'') (default_groups example_matches)
           = Some (''storing'', \<lparr>excludePatterns = None, patterns = [\<lambda>s. startsWith s ''STORING:''],
                                 requiresConditions = True, maxConditions = 10\<rparr>)"
    by (simp add: default_groups_def example_matches_def group_accepts_def startsWith_def)
  show ?thesis
    using variable_group_always_found [OF a b] a b c e f by simp
qed

subsection \<open>The cache of regular expressions\<close>

lemma flags_of_key:
  assumes "CHR '':'' \<notin> set f"
  shows "takeWhile (\<lambda>c. c \<noteq> CHR '':'') (rev (cacheKey p f)) = rev f"
proof -
  have "rev (cacheKey p f) = rev f @ CHR '':'' # (''::'' @ rev p)"
    by (simp add: cacheKey_def)
  moreover have "\<forall>c \<in> set (rev f). c \<noteq> CHR '':''" using assms by auto
  ultimately show ?thesis by (simp add: takeWhile_tail)
qed

lemma cacheKey_inject:
  assumes "cacheKey p f = cacheKey p' f'" and "CHR '':'' \<notin> set f" and "CHR '':'' \<notin> set f'"
  shows "p = p' \<and> f = f'"
proof -
  have "rev f = rev f'"
    using flags_of_key [OF assms(2), of p] flags_of_key [OF assms(3), of p'] assms(1) by simp
  then have f: "f = f'" by simp
  then show ?thesis using assms(1) by (simp add: cacheKey_def)
qed

lemma regex_test_plain:
  "\<not> stateful (re_flags r) \<Longrightarrow> snd (regex_test search r t) = r"
  by (simp add: regex_test_def split: option.splits)

lemma filter_key_shorter:
  "map_of xs k = Some a \<Longrightarrow> length (filter (\<lambda>kv. fst kv \<noteq> k) xs) < length xs"
proof -
  assume "map_of xs k = Some a"
  then have "(k, a) \<in> set xs" by (rule map_of_SomeD)
  then show ?thesis by (intro length_filter_less [of "(k, a)"]) simp_all
qed

lemma below_capacity:
  "\<not> size_at_least n (Finite x) \<Longrightarrow> int n + 1 \<le> max 1 \<lceil>x\<rceil>"
proof -
  assume "\<not> size_at_least n (Finite x)"
  then have "real n < x" by (simp add: size_at_least_def)
  then have "of_int (int n) < x" by simp
  then have "int n < \<lceil>x\<rceil>" by (simp only: less_ceiling_iff)
  then show ?thesis by simp
qed

lemma getRegex_bound:
  assumes "getRegex valid p f st = Inr (a, rc, store)"
    and "maxSize (fst st) = Finite x" and "int (length (cache (fst st))) \<le> max 1 \<lceil>x\<rceil>"
  shows "maxSize rc = Finite x \<and> int (length (cache rc)) \<le> max 1 \<lceil>x\<rceil>"
proof (cases "map_of (cache (fst st)) (cacheKey p f)")
  case None
  show ?thesis
  proof (cases "size_at_least (length (cache (fst st))) (Finite x)")
    case True
    then have "rc = (fst st)\<lparr>cache := drop 1 (cache (fst st)) @ [(cacheKey p f, length (snd st))],
                          missCount := missCount (fst st) + 1\<rparr>"
      using assms(1,2) None by (auto simp: getRegex_def Let_def split: if_splits)
    then show ?thesis using assms(2,3) by (cases "cache (fst st)") auto
  next
    case False
    then have "rc = (fst st)\<lparr>cache := cache (fst st) @ [(cacheKey p f, length (snd st))],
                          missCount := missCount (fst st) + 1\<rparr>"
      using assms(1,2) None by (auto simp: getRegex_def Let_def split: if_splits)
    then show ?thesis using assms(2) below_capacity [OF False] by simp
  qed
next
  case (Some b)
  have "length (filter (\<lambda>kv. fst kv \<noteq> cacheKey p f) (cache (fst st))) < length (cache (fst st))"
    using Some by (rule filter_key_shorter)
  then show ?thesis
    using assms Some by (auto simp: getRegex_def Let_def)
qed

lemma cache_test_bound:
  assumes "maxSize (fst st) = Finite x" and "int (length (cache (fst st))) \<le> max 1 \<lceil>x\<rceil>"
  shows "maxSize (fst (snd (cache_test valid search c st))) = Finite x
         \<and> int (length (cache (fst (snd (cache_test valid search c st))))) \<le> max 1 \<lceil>x\<rceil>"
proof -
  obtain p f t where c: "c = (p, f, t)" by (cases c)
  show ?thesis
  proof (cases "getRegex valid p f st")
    case (Inl e)
    then show ?thesis using assms by (simp add: cache_test_def c)
  next
    case (Inr y)
    obtain a rc store where y: "y = (a, rc, store)" by (cases y)
    have "maxSize rc = Finite x \<and> int (length (cache rc)) \<le> max 1 \<lceil>x\<rceil>"
      using getRegex_bound [OF Inr [unfolded y] assms] .
    then show ?thesis
      by (simp add: cache_test_def c Inr y split: prod.splits)
  qed
qed

lemma run_cached_Cons:
  "fst (run_cached valid search (c # cs) st)
   = fst (cache_test valid search c st) # fst (run_cached valid search cs (snd (cache_test valid search c st)))"
  "snd (run_cached valid search (c # cs) st)
   = snd (run_cached valid search cs (snd (cache_test valid search c st)))"
  by (simp_all add: case_prod_beta)

lemma run_cached_bound:
  assumes "maxSize (fst st) = Finite x" and "int (length (cache (fst st))) \<le> max 1 \<lceil>x\<rceil>"
  shows "maxSize (fst (snd (run_cached valid search cs st))) = Finite x
         \<and> int (length (cache (fst (snd (run_cached valid search cs st))))) \<le> max 1 \<lceil>x\<rceil>"
  using assms
proof (induction cs arbitrary: st)
  case Nil
  then show ?case by simp
next
  case (Cons c cs)
  let ?st' = "snd (cache_test valid search c st)"
  have step: "maxSize (fst ?st') = Finite x
              \<and> int (length (cache (fst ?st'))) \<le> max 1 \<lceil>x\<rceil>"
    using cache_test_bound [OF Cons.prems] .
  have "maxSize (fst (snd (run_cached valid search cs ?st'))) = Finite x
        \<and> int (length (cache (fst (snd (run_cached valid search cs ?st'))))) \<le> max 1 \<lceil>x\<rceil>"
    using step by (intro Cons.IH) simp_all
  then show ?case by (simp only: run_cached_Cons)
qed

lemma pristine_lookup:
  assumes "pristine valid st" and "map_of (cache (fst st)) (cacheKey p f) = Some a"
    and "\<not> stateful f" and "CHR '':'' \<notin> set f"
  shows "a < length (snd st) \<and> valid p f
         \<and> snd st ! a = \<lparr>re_source = p, re_flags = f, lastIndex = 0\<rparr>"
proof -
  have mem: "(cacheKey p f, a) \<in> set (cache (fst st))"
    using assms(2) by (rule map_of_SomeD)
  then obtain p' f' where k: "cacheKey p f = cacheKey p' f'" and v: "valid p' f'"
    and c: "CHR '':'' \<notin> set f'" and a: "a < length (snd st)"
    and obj: "snd st ! a = \<lparr>re_source = p', re_flags = f', lastIndex = 0\<rparr>"
    using assms(1) unfolding pristine_def by fastforce
  have "p = p' \<and> f = f'" using cacheKey_inject [OF k assms(4) c] .
  then show ?thesis using v a obj by simp
qed

lemma pristine_hit:
  assumes "pristine valid st" and "map_of (cache (fst st)) key = Some a"
  shows "pristine valid
           ((fst st)\<lparr>cache := filter (\<lambda>kv. fst kv \<noteq> key) (cache (fst st)) @ [(key, a)],
                     hitCount := h\<rparr>, snd st)"
proof -
  have mem: "(key, a) \<in> set (cache (fst st))" using assms(2) by (rule map_of_SomeD)
  have d: "distinct (map fst (filter (\<lambda>kv. fst kv \<noteq> key) (cache (fst st)) @ [(key, a)]))"
    using assms(1) by (auto simp: pristine_def distinct_map_filter)
  show ?thesis
    using assms(1) mem d unfolding pristine_def by auto
qed

lemma pristine_miss:
  assumes "pristine valid st" and "map_of (cache (fst st)) (cacheKey p f) = None"
    and "valid p f" and "\<not> stateful f" and "CHR '':'' \<notin> set f"
    and "set kept \<subseteq> set (cache (fst st))" and "distinct (map fst kept)"
  shows "pristine valid
           ((fst st)\<lparr>cache := kept @ [(cacheKey p f, length (snd st))], missCount := m\<rparr>,
            snd st @ [\<lparr>re_source = p, re_flags = f, lastIndex = 0\<rparr>])"
proof -
  have fresh: "cacheKey p f \<notin> fst ` set (cache (fst st))"
    using assms(2) by (simp add: map_of_eq_None_iff)
  then have d: "distinct (map fst (kept @ [(cacheKey p f, length (snd st))]))"
    using assms(6,7) by auto
  have old: "\<And>kv. kv \<in> set kept \<Longrightarrow>
      snd kv < length (snd st @ [\<lparr>re_source = p, re_flags = f, lastIndex = 0\<rparr>])
      \<and> (\<exists>p' f'. fst kv = cacheKey p' f' \<and> valid p' f' \<and> \<not> stateful f' \<and> CHR '':'' \<notin> set f'
            \<and> (snd st @ [\<lparr>re_source = p, re_flags = f, lastIndex = 0\<rparr>]) ! snd kv
              = \<lparr>re_source = p', re_flags = f', lastIndex = 0\<rparr>)"
  proof -
    fix kv assume "kv \<in> set kept"
    then have "kv \<in> set (cache (fst st))" using assms(6) by auto
    then have "snd kv < length (snd st)
      \<and> (\<exists>p' f'. fst kv = cacheKey p' f' \<and> valid p' f' \<and> \<not> stateful f' \<and> CHR '':'' \<notin> set f'
            \<and> snd st ! snd kv = \<lparr>re_source = p', re_flags = f', lastIndex = 0\<rparr>)"
      using assms(1) unfolding pristine_def by blast
    then show "snd kv < length (snd st @ [\<lparr>re_source = p, re_flags = f, lastIndex = 0\<rparr>])
      \<and> (\<exists>p' f'. fst kv = cacheKey p' f' \<and> valid p' f' \<and> \<not> stateful f' \<and> CHR '':'' \<notin> set f'
            \<and> (snd st @ [\<lparr>re_source = p, re_flags = f, lastIndex = 0\<rparr>]) ! snd kv
              = \<lparr>re_source = p', re_flags = f', lastIndex = 0\<rparr>)"
      by (auto simp: nth_append)
  qed
  show ?thesis
    unfolding pristine_def using d old assms(3,4,5) by auto
qed

lemma drop_one_kept:
  "set (if c then drop 1 xs else xs) \<subseteq> set xs"
  "distinct (map fst xs) \<Longrightarrow> distinct (map fst (if c then drop 1 xs else xs))"
  by (auto dest: in_set_dropD simp: drop_map [symmetric])

lemma cache_test_pristine:
  assumes "pristine valid st" and "\<not> stateful (fst (snd c))" and "CHR '':'' \<notin> set (fst (snd c))"
  shows "fst (cache_test valid search c st) = fresh_test valid search c
         \<and> pristine valid (snd (cache_test valid search c st))"
proof -
  obtain p f t where c: "c = (p, f, t)" by (cases c)
  have plain: "\<not> stateful f" "CHR '':'' \<notin> set f"
    using assms(2,3) by (simp_all add: c)
  show ?thesis
  proof (cases "map_of (cache (fst st)) (cacheKey p f)")
    case (Some a)
    have look: "a < length (snd st)" "valid p f"
      "snd st ! a = \<lparr>re_source = p, re_flags = f, lastIndex = 0\<rparr>"
      using pristine_lookup [OF assms(1) Some plain] by simp_all
    have same: "snd (regex_test search (snd st ! a) t) = snd st ! a"
      using plain(1) look(3) by (intro regex_test_plain) simp
    have upd: "(snd st)[a := snd (regex_test search (snd st ! a) t)] = snd st"
      unfolding same by simp
    have st': "snd (cache_test valid search c st)
        = ((fst st)\<lparr>cache := filter (\<lambda>kv. fst kv \<noteq> cacheKey p f) (cache (fst st)) @ [(cacheKey p f, a)],
                    hitCount := hitCount (fst st) + 1\<rparr>, snd st)"
      using upd by (simp add: cache_test_def c getRegex_def Some Let_def case_prod_beta)
    have res: "fst (cache_test valid search c st) = fresh_test valid search c"
      using look by (simp add: cache_test_def c getRegex_def Some Let_def case_prod_beta fresh_test_def)
    show ?thesis unfolding st' using res pristine_hit [OF assms(1) Some] by simp
  next
    case None
    show ?thesis
    proof (cases "valid p f")
      case False
      then show ?thesis
        using assms(1) by (simp add: cache_test_def c getRegex_def None Let_def fresh_test_def)
    next
      case True
      let ?kept = "if size_at_least (length (cache (fst st))) (maxSize (fst st))
                   then drop 1 (cache (fst st)) else cache (fst st)"
      let ?obj = "\<lparr>re_source = p, re_flags = f, lastIndex = 0\<rparr>"
      have same: "snd (regex_test search ?obj t) = ?obj"
        using plain(1) by (intro regex_test_plain) simp
      have st': "snd (cache_test valid search c st)
          = ((fst st)\<lparr>cache := ?kept @ [(cacheKey p f, length (snd st))],
                      missCount := missCount (fst st) + 1\<rparr>, snd st @ [?obj])"
        using same True
        by (simp add: cache_test_def c getRegex_def None Let_def case_prod_beta)
      have res: "fst (cache_test valid search c st) = fresh_test valid search c"
        using True
        by (simp add: cache_test_def c getRegex_def None Let_def case_prod_beta fresh_test_def)
      have d: "distinct (map fst (cache (fst st)))" using assms(1) by (simp add: pristine_def)
      have k1: "set ?kept \<subseteq> set (cache (fst st))" by (rule drop_one_kept(1))
      have k2: "distinct (map fst ?kept)" by (rule drop_one_kept(2) [OF d])
      have "pristine valid ((fst st)\<lparr>cache := ?kept @ [(cacheKey p f, length (snd st))],
                      missCount := missCount (fst st) + 1\<rparr>, snd st @ [?obj])"
        by (rule pristine_miss [OF assms(1) None True plain k1 k2])
      then show ?thesis unfolding st' using res by simp
    qed
  qed
qed

lemma run_cached_pristine:
  assumes "pristine valid st"
    and "\<forall>c \<in> set cs. \<not> stateful (fst (snd c)) \<and> CHR '':'' \<notin> set (fst (snd c))"
  shows "fst (run_cached valid search cs st) = map (fresh_test valid search) cs"
  using assms
proof (induction cs arbitrary: st)
  case Nil
  show ?case by simp
next
  case (Cons c cs)
  have step: "fst (cache_test valid search c st) = fresh_test valid search c"
    "pristine valid (snd (cache_test valid search c st))"
    using cache_test_pristine [OF Cons.prems(1), of c search] Cons.prems(2) by simp_all
  have "fst (run_cached valid search cs (snd (cache_test valid search c st)))
        = map (fresh_test valid search) cs"
    using step(2) Cons.prems(2) by (intro Cons.IH) simp_all
  then show ?case using step(1) by (simp add: run_cached_Cons del: run_cached.simps)
qed

lemma pristine_empty: "pristine valid (new_RegexCache m, [])"
  by (simp add: pristine_def new_RegexCache_def)

lemma literal_a_a: "literal_search ''a'' f ''a'' 0 = Some 1" "literal_search ''a'' f ''a'' (Suc 0) = None"
  "literal_search ''b'' f ''a'' 0 = None" "literal_search ''a:::i'' f ''a:::i'' 0 = Some 5"
  by (simp_all add: literal_search_def)

lemma flags_checked: "valid_flags []" "valid_flags ''g''" "\<not> valid_flags ''i:::''"
  by (simp_all add: valid_flags_def)

text \<open>
  C9 as stated fails in each of its two parts. A matcher compiled with the flag \<open>g\<close>
  keeps its \<open>lastIndex\<close>, and the cache returns the same object again: the second of
  two equal tests through the cache starts behind the first match and fails, while a
  freshly compiled matcher succeeds. The key joins pattern and flags with \<open>:::\<close>, so
  the pattern \<open>a:::i\<close> without flags and the pattern \<open>a\<close> with the (invalid) flags
  \<open>i:::\<close> share a key: after the first, the second is answered from the cache, while
  compiling it throws a \<open>SyntaxError\<close>. And the capacity does not bound the cache: with
  capacity 0 it holds one entry after its first miss, since there is no first key to
  delete, and with capacity 1.5 it holds two.
\<close>

theorem cached_matcher_counterexample:
  "fst (run_cached (\<lambda>p f. valid_flags f) literal_search
          [(''a'', ''g'', ''a''), (''a'', ''g'', ''a'')] (new_RegexCache (Some (Finite 1000)), []))
     = [Inr True, Inr False]
   \<and> map (fresh_test (\<lambda>p f. valid_flags f) literal_search)
         [(''a'', ''g'', ''a''), (''a'', ''g'', ''a'')]
     = [Inr True, Inr True]
   \<and> fst (run_cached (\<lambda>p f. valid_flags f) literal_search
          [(''a:::i'', [], ''a:::i''), (''a'', ''i:::'', ''a:::i'')] (new_RegexCache None, []))
     = [Inr True, Inr True]
   \<and> map (fresh_test (\<lambda>p f. valid_flags f) literal_search)
         [(''a:::i'', [], ''a:::i''), (''a'', ''i:::'', ''a:::i'')]
     = [Inr True, Inl SyntaxError]
   \<and> length (cache (fst (snd (run_cached (\<lambda>p f. valid_flags f) literal_search
                                 [(''a'', [], ''a'')] (new_RegexCache (Some (Finite 0)), []))))) = 1
   \<and> length (cache (fst (snd (run_cached (\<lambda>p f. valid_flags f) literal_search
                                 [(''a'', [], ''a''), (''b'', [], ''a'')]
                                 (new_RegexCache (Some (Finite 1.5)), []))))) = 2"
  by (simp add: cache_test_def getRegex_def new_RegexCache_def cacheKey_def regex_test_def
        stateful_def fresh_test_def literal_a_a flags_checked size_at_least_def Let_def)

text \<open>
  C9, as amended. A cache that is created empty with a finite capacity \<open>x\<close> never holds
  more than \<open>max 1 \<lceil>x\<rceil>\<close> entries, whatever is asked of it; so with a capacity that is a
  whole number \<open>k \<ge> 1\<close> it never holds more than \<open>k\<close> entries. And for every sequence
  of tests whose flags contain neither \<open>g\<close> nor \<open>y\<close> nor a colon, whatever the capacity
  is, the results obtained through the cache, a \<open>SyntaxError\<close> included, are the results
  of compiling a fresh \<open>RegExp\<close> for each test.
\<close>

theorem cache_bounded_and_transparent:
  "int (length (cache (fst (snd (run_cached valid search cs (new_RegexCache (Some (Finite x)), []))))))
     \<le> max 1 \<lceil>x\<rceil>
   \<and> (1 \<le> k \<longrightarrow>
        length (cache (fst (snd (run_cached valid search cs
                                   (new_RegexCache (Some (Finite (real k))), []))))) \<le> k)
   \<and> (list_all (\<lambda>c. CHR ''g'' \<notin> set (fst (snd c)) \<and> CHR ''y'' \<notin> set (fst (snd c))
                       \<and> CHR '':'' \<notin> set (fst (snd c))) cs \<longrightarrow>
        fst (run_cached valid search cs (new_RegexCache m, [])) = map (fresh_test valid search) cs)"
proof -
  have bound: "int (length (cache (fst (snd (run_cached valid search cs
                  (new_RegexCache (Some (Finite y)), [])))))) \<le> max 1 \<lceil>y\<rceil>" for y
    using run_cached_bound [of "(new_RegexCache (Some (Finite y)), [])" y valid search cs]
    by (simp add: new_RegexCache_def)
  have whole: "length (cache (fst (snd (run_cached valid search cs
                  (new_RegexCache (Some (Finite (real k))), []))))) \<le> k" if "1 \<le> k"
    using bound [of "real k"] that by simp
  have same: "fst (run_cached valid search cs (new_RegexCache m, [])) = map (fresh_test valid search) cs"
    if "list_all (\<lambda>c. CHR ''g'' \<notin> set (fst (snd c)) \<and> CHR ''y'' \<notin> set (fst (snd c))
                       \<and> CHR '':'' \<notin> set (fst (snd c))) cs"
    using that by (intro run_cached_pristine pristine_empty) (simp add: stateful_def list_all_iff)
  show ?thesis using bound [of x] whole same by blast
qed

theorem cache_bounded_and_transparent_witness:
  "(1::nat) \<le> 2
   \<and> list_all (\<lambda>c. CHR ''g'' \<notin> set (fst (snd c)) \<and> CHR ''y'' \<notin> set (fst (snd c))
                      \<and> CHR '':'' \<notin> set (fst (snd c)))
        [(''a'', [], ''a''), (''b'', [], ''a''), (''c'', [], ''a''), (''a'', [], ''a'')]
   \<and> int (length (cache (fst (snd (run_cached (\<lambda>p f. valid_flags f) literal_search
          [(''a'', [], ''a''), (''b'', [], ''a''), (''c'', [], ''a''), (''a'', [], ''a'')]
          (new_RegexCache (Some (Finite 2)), [])))))) \<le> max 1 \<lceil>2::real\<rceil>
   \<and> length (cache (fst (snd (run_cached (\<lambda>p f. valid_flags f) literal_search
          [(''a'', [], ''a''), (''b'', [], ''a''), (''c'', [], ''a''), (''a'', [], ''a'')]
          (new_RegexCache (Some (Finite (real 2))), []))))) \<le> 2
   \<and> fst (run_cached (\<lambda>p f. valid_flags f) literal_search
          [(''a'', [], ''a''), (''b'', [], ''a''), (''c'', [], ''a''), (''a'', [], ''a'')]
          (new_RegexCache (Some (Finite 2)), []))
     = [Inr True, Inr False, Inr False, Inr True]"
proof -
  have a: "(1::nat) \<le> 2" by simp
  have b: "list_all (\<lambda>c. CHR ''g'' \<notin> set (fst (snd c)) \<and> CHR ''y'' \<notin> set (fst (snd c))
                      \<and> CHR '':'' \<notin> set (fst (snd c)))
        [(''a'', [], ''a''), (''b'', [], ''a''), (''c'', [], ''a''), (''a'', [], ''a'')]"
    by simp
  have c: "map (fresh_test (\<lambda>p f. valid_flags f) literal_search)
             [(''a'', [], ''a''), (''b'', [], ''a''), (''c'', [], ''a''), (''a'', [], ''a'')]
           = [Inr True, Inr False, Inr False, Inr True]"
    by (simp add: fresh_test_def regex_test_def stateful_def literal_search_def flags_checked)
  show ?thesis
    using cache_bounded_and_transparent
            [of "\<lambda>p f. valid_flags f" literal_search
                "[(''a'', [], ''a''), (''b'', [], ''a''), (''c'', [], ''a''), (''a'', [], ''a'')]"
                2 2 "Some (Finite 2)"]
          a b c
    by (simp del: run_cached.simps)
qed

subsection \<open>Normalising twice\<close>

text \<open>
  C8 at two failing inputs, one for each kind of source. For an imported text with a
  carriage return behind a space, the lines are split and trimmed before the carriage
  return becomes a line break, so the first normalisation leaves a space at the end of a
  line and the second removes it. For a text entered by hand with a step keyword and a
  rest keyword embedded in one line, the first normalisation splits the line at the
  step keyword only, the second splits the new line at the rest keyword. The step budget
  of the matcher suffices in all four evaluations.
\<close>

theorem normalizeText_twice_differs:
  "normalizeText 100 [CHR ''a'', CHR '' '', CHR 0x0D, CHR ''b''] ''word''
     = Some [CHR ''a'', CHR '' '', CHR 0x0A, CHR ''b'']
   \<and> normalizeText 100 [CHR ''a'', CHR '' '', CHR 0x0A, CHR ''b''] ''word''
     = Some [CHR ''a'', CHR 0x0A, CHR ''b'']
   \<and> normalizeText 100 ''foo STEP 1 bar RUST baz'' ''manual''
     = Some (''foo'' @ [CHR 0x0A] @ ''STEP 1: bar RUST baz'')
   \<and> normalizeText 100 (''foo'' @ [CHR 0x0A] @ ''STEP 1: bar RUST baz'') ''manual''
     = Some (''foo'' @ [CHR 0x0A] @ ''STEP 1: bar'' @ [CHR 0x0A] @ ''RUST: baz'')"
  by code_simp

end
